theory Spec2Isabelle
  imports Complex_Main
begin

section \<open>Values, documents and the database\<close>

text \<open>
  The backend is an Express application over three Mongoose models (User, Store, Rating).
  A request handler is embedded as a function from the database before the request to a
  response and the database after it. Documents are records, a collection is an
  association list from \<open>_id\<close> to document in insertion order, dates are milliseconds
  (\<open>nat\<close>), JavaScript numbers are idealised as rationals, and a JavaScript string is a
  list of code units (\<open>char\<close>).
\<close>

type_synonym oid = nat

datatype role = Admin | NormalUser | StoreOwner

text \<open>A value of a field of \<open>req.body\<close>; \<open>JUndefined\<close> is an absent field.\<close>

datatype jsval = JUndefined | JNull | JBool bool | JNum rat | JStr string

text \<open>A JSON value of a response body.\<close>

datatype json =
    JsNull
  | JsBool bool
  | JsNum rat
  | JsStr string
  | JsArr "json list"
  | JsObj "(string \<times> json) list"

record response =
  status :: nat
  body :: json

record user =
  u_name :: string
  u_email :: string
  u_password :: string
  u_address :: string
  u_role :: role
  u_storeId :: "oid option"
  u_isActive :: bool
  u_createdAt :: nat
  u_updatedAt :: nat

record store =
  s_name :: string
  s_email :: string
  s_address :: string
  s_ownerId :: oid
  s_averageRating :: rat
  s_totalRatings :: int
  s_isActive :: bool
  s_createdAt :: nat
  s_updatedAt :: nat

record rating =
  r_userId :: oid
  r_storeId :: oid
  r_rating :: rat
  r_comment :: "string option"
  r_createdAt :: nat
  r_updatedAt :: nat

text \<open>\<open>next_id\<close> stands for the driver's generator of fresh ObjectIds.\<close>

record db =
  users :: "(oid \<times> user) list"
  stores :: "(oid \<times> store) list"
  ratings :: "(oid \<times> rating) list"
  next_id :: oid

definition empty_db :: db where
  "empty_db = \<lparr>users = [], stores = [], ratings = [], next_id = 0\<rparr>"

text \<open>
  Library functions that the repository calls but does not contain (validator.js, bcryptjs,
  the ObjectId cast, the regular expressions of the schemas and of the search filters) are
  parameters of the model.
\<close>

record env =
  numToString :: "rat \<Rightarrow> string"
  toLowerCase :: "string \<Rightarrow> string"
  isEmail :: "string \<Rightarrow> bool"
  normalizeEmail :: "string \<Rightarrow> string"
  emailMatch :: "string \<Rightarrow> bool"
  isMongoId :: "string \<Rightarrow> bool"
  castObjectId :: "string \<Rightarrow> oid option"
  bcryptHash :: "string \<Rightarrow> string"
  bcryptCompare :: "string \<Rightarrow> string \<Rightarrow> bool"
  regexTest :: "string \<Rightarrow> string \<Rightarrow> bool"

subsection \<open>Collections\<close>

definition findById :: "(oid \<times> 'a) list \<Rightarrow> oid \<Rightarrow> 'a option" where
  "findById c i = map_of c i"

definition findOne :: "(oid \<Rightarrow> 'a \<Rightarrow> bool) \<Rightarrow> (oid \<times> 'a) list \<Rightarrow> (oid \<times> 'a) option" where
  "findOne p c = List.find (\<lambda>(i, d). p i d) c"

definition updateById :: "oid \<Rightarrow> 'a \<Rightarrow> (oid \<times> 'a) list \<Rightarrow> (oid \<times> 'a) list" where
  "updateById i d c = map (\<lambda>(j, x). if j = i then (j, d) else (j, x)) c"

definition deleteById :: "oid \<Rightarrow> (oid \<times> 'a) list \<Rightarrow> (oid \<times> 'a) list" where
  "deleteById i c = filter (\<lambda>(j, x). j \<noteq> i) c"

subsection \<open>JavaScript and library helpers\<close>

definition truthy :: "jsval \<Rightarrow> bool" where
  "truthy v = (case v of JUndefined \<Rightarrow> False | JNull \<Rightarrow> False | JBool b \<Rightarrow> b
                | JNum q \<Rightarrow> q \<noteq> 0 | JStr s \<Rightarrow> s \<noteq> [])"

definition is_integer :: "rat \<Rightarrow> bool" where
  "is_integer q = (q = of_int \<lfloor>q\<rfloor>)"

text \<open>\<open>Math.round\<close>: the nearest integer, a half rounded up.\<close>

definition math_round :: "rat \<Rightarrow> int" where
  "math_round x = \<lfloor>x + 1 / 2\<rfloor>"

text \<open>express-validator's \<open>toString\<close>, applied to a field before a validator or sanitizer.\<close>

definition js_toString :: "env \<Rightarrow> jsval \<Rightarrow> string" where
  "js_toString E v = (case v of JUndefined \<Rightarrow> [] | JNull \<Rightarrow> []
       | JBool b \<Rightarrow> (if b then ''true'' else ''false'')
       | JNum q \<Rightarrow> numToString E q | JStr s \<Rightarrow> s)"

text \<open>Mongoose's cast of a String path: null and undefined stay, the rest is stringified.\<close>

definition castString :: "env \<Rightarrow> jsval \<Rightarrow> string option" where
  "castString E v = (case v of JUndefined \<Rightarrow> None | JNull \<Rightarrow> None | _ \<Rightarrow> Some (js_toString E v))"

definition is_space :: "char \<Rightarrow> bool" where
  "is_space c = (of_char c \<in> {9, 10, 11, 12, 13, 32, 160 :: nat})"

definition trim :: "string \<Rightarrow> string" where
  "trim s = rev (dropWhile is_space (rev (dropWhile is_space s)))"

definition is_digit :: "char \<Rightarrow> bool" where
  "is_digit c = (48 \<le> (of_char c :: nat) \<and> (of_char c :: nat) \<le> 57)"

definition strip_sign :: "string \<Rightarrow> bool \<times> string" where
  "strip_sign s = (case s of [] \<Rightarrow> (False, [])
       | c # cs \<Rightarrow> if c = CHR ''-'' then (True, cs) else if c = CHR ''+'' then (False, cs)
                  else (False, s))"

text \<open>validator.js \<open>isInt\<close> without \<open>allow_leading_zeroes: false\<close>: \<open>/^[-+]?[0-9]+$/\<close>.\<close>

definition int_pattern :: "string \<Rightarrow> bool" where
  "int_pattern s = (let ds = snd (strip_sign s) in ds \<noteq> [] \<and> list_all is_digit ds)"

definition parse_int :: "string \<Rightarrow> int" where
  "parse_int s = (let (neg, ds) = strip_sign s;
                     n = int (foldl (\<lambda>a c. 10 * a + (of_char c - 48)) (0::nat) ds)
                 in if neg then - n else n)"

text \<open>
  \<open>isInt({min, max})\<close> on a body field. A number passes when it prints as an integer in
  range, a string when it has the pattern and converts into the range.
\<close>

definition isInt :: "int \<Rightarrow> int \<Rightarrow> jsval \<Rightarrow> bool" where
  "isInt lo hi v = (case v of
       JNum q \<Rightarrow> is_integer q \<and> of_int lo \<le> q \<and> q \<le> of_int hi
     | JStr s \<Rightarrow> int_pattern s \<and> lo \<le> parse_int s \<and> parse_int s \<le> hi
     | _ \<Rightarrow> False)"

text \<open>
  Mongoose's cast of a Number path, for the values that reach it: a number, a boolean, or
  a string that has passed \<open>isInt\<close>. \<open>None\<close> is a failed cast or a missing required value;
  both make \<open>save()\<close> reject with a ValidationError.
\<close>

definition castNumber :: "jsval \<Rightarrow> rat option" where
  "castNumber v = (case v of
       JNum q \<Rightarrow> Some q
     | JBool b \<Rightarrow> Some (if b then 1 else 0)
     | JStr s \<Rightarrow> (if int_pattern s then Some (of_int (parse_int s)) else None)
     | _ \<Rightarrow> None)"

definition castObjectIdV :: "env \<Rightarrow> jsval \<Rightarrow> oid option" where
  "castObjectIdV E v = (case v of JStr s \<Rightarrow> castObjectId E s | _ \<Rightarrow> None)"

definition is_upper :: "char \<Rightarrow> bool" where
  "is_upper c = (65 \<le> (of_char c :: nat) \<and> (of_char c :: nat) \<le> 90)"

text \<open>The class \<open>[!@#$%^&*()_+\-=\[\]{};':"\\|,.<>\/?]\<close>, by character code.\<close>

definition is_special :: "char \<Rightarrow> bool" where
  "is_special c = ((of_char c :: nat) \<in> set [33, 64, 35, 36, 37, 94, 38, 42, 40, 41, 95, 43, 45, 61,
       91, 93, 123, 125, 59, 39, 58, 34, 92, 124, 44, 46, 60, 62, 47, 63])"

text \<open>
  \<open>/^(?=.*[A-Z])(?=.*[...])/\<close>: both lookaheads start at position 0, and \<open>.\<close> does not
  cross a line terminator.
\<close>

definition password_regex :: "string \<Rightarrow> bool" where
  "password_regex p = (let line = takeWhile (\<lambda>c. (of_char c :: nat) \<noteq> 10 \<and> (of_char c :: nat) \<noteq> 13) p
                       in list_ex is_upper line \<and> list_ex is_special line)"

definition role_name :: "role \<Rightarrow> string" where
  "role_name r = (case r of Admin \<Rightarrow> ''admin'' | NormalUser \<Rightarrow> ''user'' | StoreOwner \<Rightarrow> ''storeOwner'')"

definition role_of_string :: "string \<Rightarrow> role option" where
  "role_of_string t = (if t = ''admin'' then Some Admin else if t = ''user'' then Some NormalUser
                       else if t = ''storeOwner'' then Some StoreOwner else None)"

subsection \<open>Responses\<close>

definition json_of :: "jsval \<Rightarrow> json" where
  "json_of v = (case v of JUndefined \<Rightarrow> JsNull | JNull \<Rightarrow> JsNull | JBool b \<Rightarrow> JsBool b
       | JNum q \<Rightarrow> JsNum q | JStr s \<Rightarrow> JsStr s)"

definition json_id :: "oid \<Rightarrow> json" where
  "json_id i = JsNum (of_nat i)"

definition json_date :: "nat \<Rightarrow> json" where
  "json_date t = JsNum (of_nat t)"

definition json_opt_str :: "string option \<Rightarrow> json" where
  "json_opt_str c = (case c of None \<Rightarrow> JsNull | Some t \<Rightarrow> JsStr t)"

definition message :: "nat \<Rightarrow> string \<Rightarrow> response" where
  "message st m = \<lparr>status = st, body = JsObj [(''message'', JsStr m)]\<rparr>"

definition failure :: "nat \<Rightarrow> string \<Rightarrow> string \<Rightarrow> response" where
  "failure st m e = \<lparr>status = st, body = JsObj [(''message'', JsStr m), (''error'', JsStr e)]\<rparr>"

text \<open>The handlers' answer to a Mongoose ValidationError.\<close>

definition validation_failed :: "string list \<Rightarrow> response" where
  "validation_failed fs = \<lparr>status = 400, body = JsObj [(''message'', JsStr ''Validation failed''),
       (''errors'', JsArr (map (\<lambda>f. JsObj [(''field'', JsStr f)]) fs))]\<rparr>"

section \<open>The Rating and Store models\<close>

subsection \<open>Schema validators\<close>

definition valid_rating_value :: "rat \<Rightarrow> bool" where
  "valid_rating_value q = (1 \<le> q \<and> q \<le> 5 \<and> is_integer q)"

definition valid_comment :: "string option \<Rightarrow> bool" where
  "valid_comment c = (case c of None \<Rightarrow> True | Some t \<Rightarrow> length t \<le> 500)"

text \<open>The String setter of \<open>comment\<close> (\<open>trim: true\<close>) after the cast.\<close>

definition set_comment :: "env \<Rightarrow> jsval \<Rightarrow> string option" where
  "set_comment E v = map_option trim (castString E v)"

subsection \<open>\<open>storeSchema.methods.updateRating\<close>\<close>

definition store_ratings :: "db \<Rightarrow> oid \<Rightarrow> rat list" where
  "store_ratings s sid = map (\<lambda>(i, r). r_rating r) (filter (\<lambda>(i, r). r_storeId r = sid) (ratings s))"

text \<open>The aggregation \<open>$match\<close>, \<open>$group\<close>: no group for no document.\<close>

definition aggregate_stats :: "db \<Rightarrow> oid \<Rightarrow> (rat \<times> int) option" where
  "aggregate_stats s sid =
     (let rs = store_ratings s sid
      in if rs = [] then None else Some (sum_list rs / of_nat (length rs), int (length rs)))"

text \<open>
  \<open>store.save()\<close> validates the modified paths (\<open>min\<close>, \<open>max\<close>), stamps \<open>updatedAt\<close> and
  writes the document; \<open>None\<close> is the ValidationError.
\<close>

definition updateRating :: "nat \<Rightarrow> oid \<Rightarrow> store \<Rightarrow> db \<Rightarrow> db option" where
  "updateRating now sid st s =
     (let (avg, total) = (case aggregate_stats s sid of
              Some (a, n) \<Rightarrow> (of_int (math_round (a * 10)) / 10, n)
            | None \<Rightarrow> (0, 0))
      in if (avg \<noteq> s_averageRating st \<longrightarrow> 0 \<le> avg \<and> avg \<le> 5)
            \<and> (total \<noteq> s_totalRatings st \<longrightarrow> 0 \<le> total)
         then Some (s\<lparr>stores := updateById sid
                 (st\<lparr>s_averageRating := avg, s_totalRatings := total, s_updatedAt := now\<rparr>) (stores s)\<rparr>)
         else None)"

text \<open>\<open>ratingSchema.post('save')\<close>: the error of the update is caught and logged.\<close>

definition rating_post_save :: "nat \<Rightarrow> rating \<Rightarrow> db \<Rightarrow> db" where
  "rating_post_save now doc s =
     (case findById (stores s) (r_storeId doc) of
        None \<Rightarrow> s
      | Some st \<Rightarrow> (case updateRating now (r_storeId doc) st s of None \<Rightarrow> s | Some s' \<Rightarrow> s'))"

subsection \<open>\<open>save()\<close> of a Rating document\<close>

datatype save_error = ValidationError "string list" | DuplicateKey

text \<open>
  Saving a loaded document validates its modified paths, stamps \<open>updatedAt\<close>, writes the
  document and runs the post-save hook. \<open>cast_ok\<close> is false when an assignment left a
  cast error on the document.
\<close>

definition rating_save_existing ::
  "nat \<Rightarrow> oid \<Rightarrow> rating \<Rightarrow> rating \<Rightarrow> bool \<Rightarrow> db \<Rightarrow> save_error + (rating \<times> db)" where
  "rating_save_existing now rid old new cast_ok s =
     (let bad = (if cast_ok \<and> (r_rating new \<noteq> r_rating old \<longrightarrow> valid_rating_value (r_rating new))
                 then [] else [''rating''])
              @ (if r_comment new \<noteq> r_comment old \<and> \<not> valid_comment (r_comment new)
                 then [''comment''] else [])
      in if bad \<noteq> [] then Inl (ValidationError bad)
         else let doc = new\<lparr>r_updatedAt := now\<rparr>
              in Inr (doc, rating_post_save now doc (s\<lparr>ratings := updateById rid doc (ratings s)\<rparr>)))"

text \<open>
  Saving a new document validates every path, inserts under a fresh \<open>_id\<close> unless the
  unique index on \<open>(userId, storeId)\<close> refuses, and runs the post-save hook.
\<close>

definition rating_save_new ::
  "nat \<Rightarrow> oid \<Rightarrow> oid \<Rightarrow> rat option \<Rightarrow> string option \<Rightarrow> db \<Rightarrow> save_error + (oid \<times> rating \<times> db)" where
  "rating_save_new now uid sid rv c s =
     (let bad = (case rv of None \<Rightarrow> [''rating'']
                 | Some q \<Rightarrow> if valid_rating_value q then [] else [''rating''])
              @ (if valid_comment c then [] else [''comment''])
      in if bad \<noteq> [] then Inl (ValidationError bad)
         else if findOne (\<lambda>i r. r_userId r = uid \<and> r_storeId r = sid) (ratings s) \<noteq> None
         then Inl DuplicateKey
         else let doc = \<lparr>r_userId = uid, r_storeId = sid, r_rating = (case rv of Some q \<Rightarrow> q | None \<Rightarrow> 0), r_comment = c,
                          r_createdAt = now, r_updatedAt = now\<rparr>;
                  rid = next_id s
              in Inr (rid, doc, rating_post_save now doc
                      (s\<lparr>ratings := ratings s @ [(rid, doc)], next_id := Suc rid\<rparr>)))"


section \<open>The User model and \<open>save()\<close> of a Store document\<close>

definition str_of :: "string option \<Rightarrow> string" where
  "str_of x = (case x of None \<Rightarrow> [] | Some t \<Rightarrow> t)"

text \<open>The validator of \<open>userSchema.password\<close>.\<close>

definition schema_password_ok :: "string \<Rightarrow> bool" where
  "schema_password_ok p =
     (if take 3 p = ''$2a'' \<or> take 3 p = ''$2b'' then True
      else if length p < 8 \<or> length p > 16 then False
      else password_regex p)"

text \<open>\<open>required\<close>, \<open>minlength\<close>, \<open>maxlength\<close>, \<open>match\<close> of the name, email and address paths.\<close>

definition valid_name :: "string \<Rightarrow> bool" where
  "valid_name n = (n \<noteq> [] \<and> 10 \<le> length n \<and> length n \<le> 60)"

definition valid_email :: "env \<Rightarrow> string \<Rightarrow> bool" where
  "valid_email E e = (e \<noteq> [] \<and> emailMatch E e)"

definition valid_address :: "string \<Rightarrow> bool" where
  "valid_address a = (a \<noteq> [] \<and> length a \<le> 400)"

definition invalid_if :: "bool \<Rightarrow> string \<Rightarrow> string list" where
  "invalid_if bad path = (if bad then [path] else [])"

text \<open>
  \<open>new User({name, email, password, address, role}).save()\<close>: cast and setters, validation of
  every path, the pre-save hooks (hash, \<open>updatedAt\<close>), the unique index on \<open>email\<close>.
\<close>

definition user_save_new ::
  "env \<Rightarrow> nat \<Rightarrow> jsval \<Rightarrow> jsval \<Rightarrow> jsval \<Rightarrow> jsval \<Rightarrow> jsval \<Rightarrow> db \<Rightarrow> save_error + (oid \<times> user \<times> db)" where
  "user_save_new E now name email password address rolev s =
     (let n = map_option trim (castString E name);
          e = map_option (toLowerCase E) (castString E email);
          p = castString E password;
          a = map_option trim (castString E address);
          r = (case rolev of JUndefined \<Rightarrow> Some NormalUser
               | _ \<Rightarrow> Option.bind (castString E rolev) role_of_string);
          bad = invalid_if (n = None \<or> \<not> valid_name (str_of n)) ''name''
              @ invalid_if (e = None \<or> \<not> valid_email E (str_of e)) ''email''
              @ invalid_if (p = None \<or> str_of p = [] \<or> \<not> schema_password_ok (str_of p)) ''password''
              @ invalid_if (a = None \<or> \<not> valid_address (str_of a)) ''address''
              @ invalid_if (r = None) ''role''
      in if bad \<noteq> [] then Inl (ValidationError bad)
         else if findOne (\<lambda>i u. u_email u = str_of e) (users s) \<noteq> None then Inl DuplicateKey
         else let doc = \<lparr>u_name = str_of n, u_email = str_of e, u_password = bcryptHash E (str_of p),
                          u_address = str_of a, u_role = (case r of Some x \<Rightarrow> x | None \<Rightarrow> NormalUser),
                          u_storeId = None, u_isActive = True, u_createdAt = now, u_updatedAt = now\<rparr>;
                  uid = next_id s
              in Inr (uid, doc, s\<lparr>users := users s @ [(uid, doc)], next_id := Suc uid\<rparr>))"

text \<open>
  \<open>save()\<close> of a loaded user after assignments: validation of the modified paths, the hash
  when the password is modified, \<open>updatedAt\<close>, the unique index. \<open>role_ok\<close> is false when
  the assigned role is outside the enum.
\<close>

definition user_save_existing ::
  "env \<Rightarrow> nat \<Rightarrow> oid \<Rightarrow> user \<Rightarrow> user \<Rightarrow> bool \<Rightarrow> db \<Rightarrow> save_error + (user \<times> db)" where
  "user_save_existing E now uid old new role_ok s =
     (let bad = invalid_if (u_name new \<noteq> u_name old \<and> \<not> valid_name (u_name new)) ''name''
              @ invalid_if (u_email new \<noteq> u_email old \<and> \<not> valid_email E (u_email new)) ''email''
              @ invalid_if (u_password new \<noteq> u_password old
                            \<and> (u_password new = [] \<or> \<not> schema_password_ok (u_password new))) ''password''
              @ invalid_if (u_address new \<noteq> u_address old \<and> \<not> valid_address (u_address new)) ''address''
              @ invalid_if (\<not> role_ok) ''role''
      in if bad \<noteq> [] then Inl (ValidationError bad)
         else if u_email new \<noteq> u_email old
                 \<and> findOne (\<lambda>i u. i \<noteq> uid \<and> u_email u = u_email new) (users s) \<noteq> None
         then Inl DuplicateKey
         else let doc = new\<lparr>u_password := (if u_password new \<noteq> u_password old
                                              then bcryptHash E (u_password new) else u_password new),
                             u_updatedAt := now\<rparr>
              in Inr (doc, s\<lparr>users := updateById uid doc (users s)\<rparr>))"

definition store_save_new ::
  "env \<Rightarrow> nat \<Rightarrow> jsval \<Rightarrow> jsval \<Rightarrow> jsval \<Rightarrow> oid \<Rightarrow> db \<Rightarrow> save_error + (oid \<times> store \<times> db)" where
  "store_save_new E now name email address ownerId s =
     (let n = map_option trim (castString E name);
          e = map_option (toLowerCase E) (castString E email);
          a = map_option trim (castString E address);
          bad = invalid_if (n = None \<or> \<not> valid_name (str_of n)) ''name''
              @ invalid_if (e = None \<or> \<not> valid_email E (str_of e)) ''email''
              @ invalid_if (a = None \<or> \<not> valid_address (str_of a)) ''address''
      in if bad \<noteq> [] then Inl (ValidationError bad)
         else if findOne (\<lambda>i st. s_email st = str_of e) (stores s) \<noteq> None then Inl DuplicateKey
         else let doc = \<lparr>s_name = str_of n, s_email = str_of e, s_address = str_of a, s_ownerId = ownerId,
                          s_averageRating = 0, s_totalRatings = 0, s_isActive = True,
                          s_createdAt = now, s_updatedAt = now\<rparr>;
                  sid = next_id s
              in Inr (sid, doc, s\<lparr>stores := stores s @ [(sid, doc)], next_id := Suc sid\<rparr>))"

definition store_save_existing ::
  "env \<Rightarrow> nat \<Rightarrow> oid \<Rightarrow> store \<Rightarrow> store \<Rightarrow> db \<Rightarrow> save_error + (store \<times> db)" where
  "store_save_existing E now sid old new s =
     (let bad = invalid_if (s_name new \<noteq> s_name old \<and> \<not> valid_name (s_name new)) ''name''
              @ invalid_if (s_email new \<noteq> s_email old \<and> \<not> valid_email E (s_email new)) ''email''
              @ invalid_if (s_address new \<noteq> s_address old \<and> \<not> valid_address (s_address new)) ''address''
      in if bad \<noteq> [] then Inl (ValidationError bad)
         else if s_email new \<noteq> s_email old
                 \<and> findOne (\<lambda>i st. i \<noteq> sid \<and> s_email st = s_email new) (stores s) \<noteq> None
         then Inl DuplicateKey
         else let doc = new\<lparr>s_updatedAt := now\<rparr>
              in Inr (doc, s\<lparr>stores := updateById sid doc (stores s)\<rparr>))"

section \<open>Requests\<close>

text \<open>
  A JSON web token is modelled by what \<open>jwt.verify\<close> reads from it: whether it parses and
  carries the server's signature, its expiry (seconds) and its payload.
\<close>

datatype token = Token (tok_valid: bool) (tok_exp: nat) (tok_userId: oid) (tok_role: role)

datatype jwt_result = JsonWebTokenError | TokenExpiredError | Decoded oid

definition jwt_verify :: "nat \<Rightarrow> token \<Rightarrow> jwt_result" where
  "jwt_verify now t = (if \<not> tok_valid t then JsonWebTokenError
                       else if tok_exp t \<le> now div 1000 then TokenExpiredError
                       else Decoded (tok_userId t))"

definition generateToken :: "nat \<Rightarrow> oid \<Rightarrow> role \<Rightarrow> token" where
  "generateToken now userId r = Token True (now div 1000 + 86400) userId r"

definition json_token :: "token \<Rightarrow> json" where
  "json_token t = JsObj [(''userId'', json_id (tok_userId t)), (''role'', JsStr (role_name (tok_role t))),
                         (''exp'', JsNum (of_nat (tok_exp t)))]"

text \<open>The routes of \<open>routes/auth.js\<close>, \<open>users.js\<close>, \<open>stores.js\<close> and \<open>ratings.js\<close>, with their path parameter.\<close>

datatype endpoint =
    AuthRegister | AuthLogin | AuthProfile | AuthPassword | AuthVerify | AuthLogout
  | UsersStats | UsersCreate | UsersList | UsersGet string | UsersUpdate string | UsersDelete string
  | StoresCreate | StoresList | StoresGet string | StoresDashboard string | StoresUpdate string
  | StoresDelete string
  | RatingsSubmit | RatingsUserStore string | RatingsOfStore string | RatingsMine
  | RatingsUpdate string | RatingsDelete string | RatingsStats

record request =
  req_endpoint :: endpoint
  req_token :: "token option"
  req_body :: "string \<Rightarrow> jsval"
  req_query :: "string \<Rightarrow> string option"

section \<open>\<open>middleware/validation.js\<close>\<close>

text \<open>An error of \<open>validationResult\<close>: path, message, value.\<close>

type_synonym verr = "string \<times> string \<times> jsval"

definition check :: "bool \<Rightarrow> string \<Rightarrow> string \<Rightarrow> jsval \<Rightarrow> verr list" where
  "check ok path msg v = (if ok then [] else [(path, msg, v)])"

definition validation_response :: "verr list \<Rightarrow> response" where
  "validation_response errs = \<lparr>status = 400, body = JsObj [(''message'', JsStr ''Validation failed''),
       (''errors'', JsArr (map (\<lambda>(path, msg, v).
           JsObj [(''field'', JsStr path), (''message'', JsStr msg), (''value'', json_of v)]) errs))]\<rparr>"

definition v_trimmed :: "env \<Rightarrow> jsval \<Rightarrow> string" where
  "v_trimmed E v = trim (js_toString E v)"

definition v_name :: "env \<Rightarrow> string \<Rightarrow> (string \<Rightarrow> jsval) \<Rightarrow> verr list" where
  "v_name E msg b = (let n = v_trimmed E (b ''name'')
                     in check (10 \<le> length n \<and> length n \<le> 60) ''name'' msg (JStr n))"

definition v_email :: "env \<Rightarrow> (string \<Rightarrow> jsval) \<Rightarrow> verr list" where
  "v_email E b = check (isEmail E (js_toString E (b ''email''))) ''email''
                   ''Please provide a valid email address'' (b ''email'')"

definition v_address :: "env \<Rightarrow> string \<Rightarrow> (string \<Rightarrow> jsval) \<Rightarrow> verr list" where
  "v_address E msg b = (let a = v_trimmed E (b ''address'')
                        in check (1 \<le> length a \<and> length a \<le> 400) ''address'' msg (JStr a))"

definition v_password :: "env \<Rightarrow> string \<Rightarrow> string \<Rightarrow> string \<Rightarrow> (string \<Rightarrow> jsval) \<Rightarrow> verr list" where
  "v_password E path m1 m2 b = (let p = js_toString E (b path)
       in check (8 \<le> length p \<and> length p \<le> 16) path m1 (b path) @ check (password_regex p) path m2 (b path))"

definition v_role :: "env \<Rightarrow> (string \<Rightarrow> jsval) \<Rightarrow> verr list" where
  "v_role E b = check (js_toString E (b ''role'') \<in> set [''admin'', ''user'', ''storeOwner'']) ''role''
                  ''Role must be admin, user, or storeOwner'' (b ''role'')"

text \<open>The sanitizers write their result back into \<open>req.body\<close>.\<close>

definition sanitize_user :: "env \<Rightarrow> (string \<Rightarrow> jsval) \<Rightarrow> (string \<Rightarrow> jsval)" where
  "sanitize_user E b = b(''name'' := JStr (v_trimmed E (b ''name'')),
                         ''email'' := JStr (normalizeEmail E (js_toString E (b ''email''))),
                         ''address'' := JStr (v_trimmed E (b ''address'')))"

definition validateUserRegistration :: "env \<Rightarrow> (string \<Rightarrow> jsval) \<Rightarrow> verr list \<times> (string \<Rightarrow> jsval)" where
  "validateUserRegistration E b =
     (v_name E ''Name must be between 10 and 60 characters'' b
      @ v_email E b
      @ v_password E ''password'' ''Password must be between 8 and 16 characters''
          ''Password must include at least one uppercase letter and one special character'' b
      @ v_address E ''Address is required and must not exceed 400 characters'' b
      @ (if b ''role'' = JUndefined then [] else v_role E b),
      sanitize_user E b)"

definition validateUserLogin :: "env \<Rightarrow> (string \<Rightarrow> jsval) \<Rightarrow> verr list \<times> (string \<Rightarrow> jsval)" where
  "validateUserLogin E b =
     (v_email E b
      @ check (js_toString E (b ''password'') \<noteq> []) ''password'' ''Password is required'' (b ''password''),
      b(''email'' := JStr (normalizeEmail E (js_toString E (b ''email'')))))"

definition validatePasswordUpdate :: "env \<Rightarrow> (string \<Rightarrow> jsval) \<Rightarrow> verr list \<times> (string \<Rightarrow> jsval)" where
  "validatePasswordUpdate E b =
     (check (js_toString E (b ''currentPassword'') \<noteq> []) ''currentPassword''
        ''Current password is required'' (b ''currentPassword'')
      @ v_password E ''newPassword'' ''New password must be between 8 and 16 characters''
          ''New password must include at least one uppercase letter and one special character'' b,
      b)"

definition validateStore :: "env \<Rightarrow> (string \<Rightarrow> jsval) \<Rightarrow> verr list \<times> (string \<Rightarrow> jsval)" where
  "validateStore E b =
     (v_name E ''Store name must be between 10 and 60 characters'' b
      @ v_email E b
      @ v_address E ''Store address is required and must not exceed 400 characters'' b
      @ (if b ''ownerId'' = JUndefined then []
         else check (isMongoId E (js_toString E (b ''ownerId''))) ''ownerId'' ''Invalid owner ID'' (b ''ownerId'')),
      sanitize_user E b)"

definition validateRating :: "env \<Rightarrow> (string \<Rightarrow> jsval) \<Rightarrow> verr list \<times> (string \<Rightarrow> jsval)" where
  "validateRating E b =
     (check (isInt 1 5 (b ''rating'')) ''rating'' ''Rating must be an integer between 1 and 5'' (b ''rating'')
      @ (if b ''comment'' = JUndefined then []
         else check (length (v_trimmed E (b ''comment'')) \<le> 500) ''comment''
                ''Comment must not exceed 500 characters'' (JStr (v_trimmed E (b ''comment''))))
      @ check (isMongoId E (js_toString E (b ''storeId''))) ''storeId'' ''Invalid store ID'' (b ''storeId''),
      if b ''comment'' = JUndefined then b else b(''comment'' := JStr (v_trimmed E (b ''comment''))))"

definition validateAdminUserCreation :: "env \<Rightarrow> (string \<Rightarrow> jsval) \<Rightarrow> verr list \<times> (string \<Rightarrow> jsval)" where
  "validateAdminUserCreation E b =
     (v_name E ''Name must be between 10 and 60 characters'' b
      @ v_email E b
      @ v_password E ''password'' ''Password must be between 8 and 16 characters''
          ''Password must include at least one uppercase letter and one special character'' b
      @ v_address E ''Address is required and must not exceed 400 characters'' b
      @ v_role E b,
      sanitize_user E b)"

text \<open>Query parameters are strings; \<open>None\<close> is an absent parameter.\<close>

definition isIntQ :: "int \<Rightarrow> int option \<Rightarrow> string \<Rightarrow> bool" where
  "isIntQ lo hi t = (int_pattern t \<and> lo \<le> parse_int t
                     \<and> (case hi of None \<Rightarrow> True | Some h \<Rightarrow> parse_int t \<le> h))"

definition q_check :: "(string \<Rightarrow> bool) \<Rightarrow> string \<Rightarrow> string \<Rightarrow> (string \<Rightarrow> string option) \<Rightarrow> verr list" where
  "q_check ok path msg q = (case q path of None \<Rightarrow> [] | Some t \<Rightarrow> check (ok t) path msg (JStr t))"

definition validatePagination :: "(string \<Rightarrow> string option) \<Rightarrow> verr list" where
  "validatePagination q =
     q_check (isIntQ 1 None) ''page'' ''Page must be a positive integer'' q
     @ q_check (isIntQ 1 (Some 100)) ''limit'' ''Limit must be between 1 and 100'' q"

definition validateSearch :: "env \<Rightarrow> (string \<Rightarrow> string option) \<Rightarrow> verr list \<times> (string \<Rightarrow> string option)" where
  "validateSearch E q =
     (q_check (\<lambda>t. 1 \<le> length (trim t)) ''name'' ''Search name must not be empty'' q
      @ q_check (isEmail E) ''email'' ''Invalid email format'' q
      @ q_check (\<lambda>t. 1 \<le> length (trim t)) ''address'' ''Search address must not be empty'' q
      @ q_check (\<lambda>t. t \<in> set [''admin'', ''user'', ''storeOwner'']) ''role'' ''Invalid role'' q,
      q(''name'' := map_option trim (q ''name''),
        ''email'' := map_option (normalizeEmail E) (q ''email''),
        ''address'' := map_option trim (q ''address'')))"

definition validateObjectId :: "env \<Rightarrow> string \<Rightarrow> string \<Rightarrow> verr list" where
  "validateObjectId E paramName v =
     check (isMongoId E v) paramName (''Invalid '' @ paramName) (JStr v)"

section \<open>\<open>middleware/auth.js\<close>\<close>

text \<open>\<open>authenticateToken\<close>: the response that ends the request, or \<open>req.user\<close>.\<close>

definition authenticateToken :: "nat \<Rightarrow> request \<Rightarrow> db \<Rightarrow> response + (oid \<times> user)" where
  "authenticateToken now req s =
     (case req_token req of
        None \<Rightarrow> Inl (failure 401 ''Access denied. No token provided.'' ''NO_TOKEN'')
      | Some t \<Rightarrow>
          (case jwt_verify now t of
             JsonWebTokenError \<Rightarrow> Inl (failure 401 ''Access denied. Invalid token.'' ''INVALID_TOKEN'')
           | TokenExpiredError \<Rightarrow> Inl (failure 401 ''Access denied. Token expired.'' ''TOKEN_EXPIRED'')
           | Decoded uid \<Rightarrow>
               (case findById (users s) uid of
                  None \<Rightarrow> Inl (failure 401 ''Access denied. User not found or inactive.'' ''USER_NOT_FOUND'')
                | Some u \<Rightarrow>
                    if \<not> u_isActive u
                    then Inl (failure 401 ''Access denied. User not found or inactive.'' ''USER_NOT_FOUND'')
                    else Inr (uid, u))))"

definition authorize :: "role list \<Rightarrow> (oid \<times> user) \<Rightarrow> response option" where
  "authorize roles cu =
     (if u_role (snd cu) \<notin> set roles
      then Some \<lparr>status = 403, body = JsObj [
             (''message'', JsStr ''Access denied. Insufficient permissions.''),
             (''error'', JsStr ''INSUFFICIENT_PERMISSIONS''),
             (''requiredRoles'', JsArr (map (\<lambda>r. JsStr (role_name r)) roles)),
             (''userRole'', JsStr (role_name (u_role (snd cu))))]\<rparr>
      else None)"

text \<open>\<open>verifyStoreOwner\<close>: the response that ends the request, or \<open>req.store\<close> (unset for an admin).\<close>

definition verifyStoreOwner :: "env \<Rightarrow> (oid \<times> user) \<Rightarrow> string \<Rightarrow> db \<Rightarrow> response + (oid \<times> store) option" where
  "verifyStoreOwner E cu storeId s =
     (if u_role (snd cu) = Admin then Inr None
      else if u_role (snd cu) \<noteq> StoreOwner
      then Inl (failure 403 ''Access denied. Only store owners can perform this action.'' ''NOT_STORE_OWNER'')
      else if storeId = [] then Inl (failure 400 ''Store ID is required'' ''MISSING_STORE_ID'')
      else (case castObjectId E storeId of
              None \<Rightarrow> Inl (failure 500 ''Server error during store ownership verification'' ''SERVER_ERROR'')
            | Some sid \<Rightarrow>
                (case findById (stores s) sid of
                   None \<Rightarrow> Inl (failure 404 ''Store not found'' ''STORE_NOT_FOUND'')
                 | Some st \<Rightarrow>
                     if s_ownerId st \<noteq> fst cu
                     then Inl (failure 403 ''Access denied. You can only access your own store.'' ''NOT_YOUR_STORE'')
                     else Inr (Some (sid, st)))))"


section \<open>Documents as JSON\<close>

definition json_opt_id :: "oid option \<Rightarrow> json" where
  "json_opt_id x = (case x of None \<Rightarrow> JsNull | Some i \<Rightarrow> json_id i)"

text \<open>\<open>toObject()\<close> of a user document with every path loaded.\<close>

definition user_toObject :: "oid \<Rightarrow> user \<Rightarrow> (string \<times> json) list" where
  "user_toObject uid u =
     [(''_id'', json_id uid), (''name'', JsStr (u_name u)), (''email'', JsStr (u_email u)),
      (''password'', JsStr (u_password u)), (''address'', JsStr (u_address u)),
      (''role'', JsStr (role_name (u_role u))), (''storeId'', json_opt_id (u_storeId u)),
      (''isActive'', JsBool (u_isActive u)), (''createdAt'', json_date (u_createdAt u)),
      (''updatedAt'', json_date (u_updatedAt u))]"

text \<open>Store and Rating documents serialise with the \<open>id\<close> virtual.\<close>

definition store_toObject :: "oid \<Rightarrow> store \<Rightarrow> (string \<times> json) list" where
  "store_toObject sid st =
     [(''_id'', json_id sid), (''name'', JsStr (s_name st)), (''email'', JsStr (s_email st)),
      (''address'', JsStr (s_address st)), (''ownerId'', json_id (s_ownerId st)),
      (''averageRating'', JsNum (s_averageRating st)), (''totalRatings'', JsNum (of_int (s_totalRatings st))),
      (''isActive'', JsBool (s_isActive st)), (''createdAt'', json_date (s_createdAt st)),
      (''updatedAt'', json_date (s_updatedAt st)), (''id'', json_id sid)]"

definition rating_toObject :: "oid \<Rightarrow> rating \<Rightarrow> (string \<times> json) list" where
  "rating_toObject rid r =
     [(''_id'', json_id rid), (''userId'', json_id (r_userId r)), (''storeId'', json_id (r_storeId r)),
      (''rating'', JsNum (r_rating r)), (''comment'', json_opt_str (r_comment r)),
      (''createdAt'', json_date (r_createdAt r)), (''updatedAt'', json_date (r_updatedAt r)),
      (''id'', json_id rid)]"

text \<open>An inclusive projection keeps \<open>_id\<close> (and the virtual \<open>id\<close>).\<close>

definition select_fields :: "string list \<Rightarrow> (string \<times> json) list \<Rightarrow> (string \<times> json) list" where
  "select_fields fs obj = filter (\<lambda>(k, v). k \<in> set (''_id'' # ''id'' # fs)) obj"

text \<open>\<open>select('-password')\<close> and \<open>delete userObject.password\<close>.\<close>

definition deselect :: "string \<Rightarrow> (string \<times> json) list \<Rightarrow> (string \<times> json) list" where
  "deselect k obj = filter (\<lambda>(k', v). k' \<noteq> k) obj"

text \<open>\<open>userSchema.methods.toJSON\<close>.\<close>

definition user_toJSON :: "(string \<times> json) list \<Rightarrow> json" where
  "user_toJSON userObject = JsObj (deselect ''password'' userObject)"

definition populate :: "string \<Rightarrow> json \<Rightarrow> (string \<times> json) list \<Rightarrow> (string \<times> json) list" where
  "populate path v obj = map (\<lambda>(k, x). if k = path then (k, v) else (k, x)) obj"

text \<open>The populated reference: the selected paths of the document, or null.\<close>

definition populated_store :: "db \<Rightarrow> string list \<Rightarrow> oid option \<Rightarrow> (string \<times> json) list option" where
  "populated_store s fs ref =
     (case ref of None \<Rightarrow> None
      | Some sid \<Rightarrow> map_option (\<lambda>st. select_fields fs (store_toObject sid st)) (findById (stores s) sid))"

definition populated_user :: "db \<Rightarrow> string list \<Rightarrow> oid \<Rightarrow> (string \<times> json) list option" where
  "populated_user s fs uid =
     map_option (\<lambda>u. select_fields fs (user_toObject uid u)) (findById (users s) uid)"

definition json_opt_obj :: "(string \<times> json) list option \<Rightarrow> json" where
  "json_opt_obj x = (case x of None \<Rightarrow> JsNull | Some obj \<Rightarrow> JsObj obj)"

definition json_opt_user :: "(string \<times> json) list option \<Rightarrow> json" where
  "json_opt_user x = (case x of None \<Rightarrow> JsNull | Some obj \<Rightarrow> user_toJSON obj)"

text \<open>A rating with \<open>populate('userId', fs)\<close>, as \<open>res.json\<close> serialises it.\<close>

definition rating_with_user :: "db \<Rightarrow> string list \<Rightarrow> oid \<times> rating \<Rightarrow> (string \<times> json) list" where
  "rating_with_user s fs x =
     populate ''userId'' (json_opt_user (populated_user s fs (r_userId (snd x))))
       (rating_toObject (fst x) (snd x))"

definition rating_with_store :: "db \<Rightarrow> string list \<Rightarrow> (string \<times> json) list \<Rightarrow> oid \<times> rating \<Rightarrow> (string \<times> json) list" where
  "rating_with_store s fs obj x =
     populate ''storeId'' (json_opt_obj (populated_store s fs (Some (r_storeId (snd x))))) obj"

definition sort_desc :: "('a \<Rightarrow> 'k::linorder) \<Rightarrow> 'a list \<Rightarrow> 'a list" where
  "sort_desc key xs = rev (sort_key key xs)"

definition server_error :: "string \<Rightarrow> response" where
  "server_error m = failure 500 m ''SERVER_ERROR''"

text \<open>\<open>parseInt(req.query.page) || 1\<close> on a parameter that has passed \<open>isInt\<close>, or is absent.\<close>

definition parse_or :: "nat \<Rightarrow> string option \<Rightarrow> nat" where
  "parse_or d x = (case x of None \<Rightarrow> d
                   | Some t \<Rightarrow> if int_pattern t \<and> parse_int t \<noteq> 0 then nat (parse_int t) else d)"

definition pagination :: "nat \<Rightarrow> nat \<Rightarrow> nat \<Rightarrow> json" where
  "pagination page limit totalCount =
     (let totalPages = (totalCount + limit - 1) div limit
      in JsObj [(''currentPage'', JsNum (of_nat page)), (''totalPages'', JsNum (of_nat totalPages)),
                (''totalCount'', JsNum (of_nat totalCount)), (''hasNextPage'', JsBool (page < totalPages)),
                (''hasPrevPage'', JsBool (page > 1))])"

section \<open>\<open>routes/auth.js\<close>\<close>

text \<open>A condition on the email of a query goes through cast and setters of the path.\<close>

definition email_cond :: "env \<Rightarrow> jsval \<Rightarrow> string" where
  "email_cond E v = toLowerCase E (js_toString E v)"

text \<open>The \<open>user\<close> object that the register, login, create and update handlers build.\<close>

definition user_summary :: "oid \<Rightarrow> user \<Rightarrow> (string \<times> json) list" where
  "user_summary uid u =
     [(''id'', json_id uid), (''name'', JsStr (u_name u)), (''email'', JsStr (u_email u)),
      (''address'', JsStr (u_address u)), (''role'', JsStr (role_name (u_role u)))]"

definition registered_response :: "nat \<Rightarrow> oid \<Rightarrow> user \<Rightarrow> response" where
  "registered_response now uid u = \<lparr>status = 201, body = JsObj [
       (''message'', JsStr ''User registered successfully''),
       (''token'', json_token (generateToken now uid (u_role u))),
       (''user'', JsObj (user_summary uid u @ [(''createdAt'', json_date (u_createdAt u))]))]\<rparr>"

definition post_register :: "env \<Rightarrow> nat \<Rightarrow> (string \<Rightarrow> jsval) \<Rightarrow> db \<Rightarrow> response \<times> db" where
  "post_register E now b s =
     (if findOne (\<lambda>i u. u_email u = email_cond E (b ''email'')) (users s) \<noteq> None
      then (failure 400 ''User already exists with this email'' ''USER_EXISTS'', s)
      else (case user_save_new E now (b ''name'') (b ''email'') (b ''password'') (b ''address'')
                   (JStr ''user'') s of
              Inl (ValidationError fs) \<Rightarrow> (validation_failed fs, s)
            | Inl DuplicateKey \<Rightarrow> (failure 400 ''User already exists with this email'' ''DUPLICATE_EMAIL'', s)
            | Inr (uid, u, s') \<Rightarrow> (registered_response now uid u, s')))"

text \<open>\<open>bcrypt.compare\<close> throws on a candidate that is not a string.\<close>

definition comparePassword :: "env \<Rightarrow> jsval \<Rightarrow> user \<Rightarrow> bool option" where
  "comparePassword E candidate u =
     (case candidate of JStr p \<Rightarrow> Some (bcryptCompare E p (u_password u)) | _ \<Rightarrow> None)"

definition login_response :: "nat \<Rightarrow> oid \<Rightarrow> user \<Rightarrow> response" where
  "login_response now uid u = \<lparr>status = 200, body = JsObj [
       (''message'', JsStr ''Login successful''),
       (''token'', json_token (generateToken now uid (u_role u))),
       (''user'', JsObj (user_summary uid u @ [(''storeId'', json_opt_id (u_storeId u))]))]\<rparr>"

definition post_login :: "env \<Rightarrow> nat \<Rightarrow> (string \<Rightarrow> jsval) \<Rightarrow> db \<Rightarrow> response \<times> db" where
  "post_login E now b s =
     (case findOne (\<lambda>i u. u_email u = email_cond E (b ''email'')) (users s) of
        None \<Rightarrow> (failure 401 ''Invalid email or password'' ''INVALID_CREDENTIALS'', s)
      | Some (uid, u) \<Rightarrow>
          if \<not> u_isActive u then (failure 401 ''Invalid email or password'' ''INVALID_CREDENTIALS'', s)
          else (case comparePassword E (b ''password'') u of
                  None \<Rightarrow> (server_error ''Server error during login'', s)
                | Some False \<Rightarrow> (failure 401 ''Invalid email or password'' ''INVALID_CREDENTIALS'', s)
                | Some True \<Rightarrow> (login_response now uid u, s)))"

text \<open>\<open>User.findById(req.user._id).populate('storeId', ...)\<close>, serialised by \<open>toJSON\<close>.\<close>

definition profile_response :: "oid \<Rightarrow> db \<Rightarrow> response" where
  "profile_response uid s = \<lparr>status = 200, body = JsObj [
       (''message'', JsStr ''Profile retrieved successfully''),
       (''user'', json_opt_user (map_option
          (\<lambda>u. populate ''storeId''
                  (json_opt_obj (populated_store s [''name'', ''email'', ''address'', ''averageRating''] (u_storeId u)))
                  (user_toObject uid u))
          (findById (users s) uid)))]\<rparr>"

definition get_profile :: "oid \<times> user \<Rightarrow> db \<Rightarrow> response \<times> db" where
  "get_profile cu s = (profile_response (fst cu) s, s)"

definition patch_password :: "env \<Rightarrow> nat \<Rightarrow> oid \<times> user \<Rightarrow> (string \<Rightarrow> jsval) \<Rightarrow> db \<Rightarrow> response \<times> db" where
  "patch_password E now cu b s =
     (case findById (users s) (fst cu) of
        None \<Rightarrow> (failure 404 ''User not found'' ''USER_NOT_FOUND'', s)
      | Some u \<Rightarrow>
          (case comparePassword E (b ''currentPassword'') u of
             None \<Rightarrow> (server_error ''Server error during password update'', s)
           | Some False \<Rightarrow> (failure 400 ''Current password is incorrect'' ''INVALID_CURRENT_PASSWORD'', s)
           | Some True \<Rightarrow>
               (case user_save_existing E now (fst cu) u
                       (u\<lparr>u_password := str_of (castString E (b ''newPassword''))\<rparr>)
                       True s of
                  Inl (ValidationError fs) \<Rightarrow> (validation_failed fs, s)
                | Inl DuplicateKey \<Rightarrow> (server_error ''Server error during password update'', s)
                | Inr (u', s') \<Rightarrow> (message 200 ''Password updated successfully'', s'))))"

text \<open>\<open>req.user\<close> was loaded with \<open>select('-password')\<close>.\<close>

definition verify_response :: "oid \<times> user \<Rightarrow> response" where
  "verify_response cu = \<lparr>status = 200, body = JsObj [
       (''message'', JsStr ''Token is valid''),
       (''user'', user_toJSON (deselect ''password'' (user_toObject (fst cu) (snd cu))))]\<rparr>"

definition get_verify :: "oid \<times> user \<Rightarrow> db \<Rightarrow> response \<times> db" where
  "get_verify cu s = (verify_response cu, s)"

definition post_logout :: "db \<Rightarrow> response \<times> db" where
  "post_logout s = (message 200 ''Logout successful'', s)"

section \<open>\<open>routes/users.js\<close>\<close>

definition users_stats_response :: "db \<Rightarrow> response" where
  "users_stats_response s = \<lparr>status = 200, body = JsObj [
       (''message'', JsStr ''Dashboard statistics retrieved successfully''),
       (''stats'', JsObj [
          (''totalUsers'', JsNum (of_nat (length (filter (\<lambda>(i, u). u_isActive u) (users s))))),
          (''totalStores'', JsNum (of_nat (length (filter (\<lambda>(i, st). s_isActive st) (stores s))))),
          (''totalRatings'', JsNum (of_nat (length (ratings s))))])]\<rparr>"

definition get_users_stats :: "db \<Rightarrow> response \<times> db" where
  "get_users_stats s = (users_stats_response s, s)"

definition user_created_response :: "oid \<Rightarrow> user \<Rightarrow> response" where
  "user_created_response uid u = \<lparr>status = 201, body = JsObj [
       (''message'', JsStr ''User created successfully''),
       (''user'', JsObj (user_summary uid u @ [(''createdAt'', json_date (u_createdAt u))]))]\<rparr>"

definition post_users :: "env \<Rightarrow> nat \<Rightarrow> (string \<Rightarrow> jsval) \<Rightarrow> db \<Rightarrow> response \<times> db" where
  "post_users E now b s =
     (if findOne (\<lambda>i u. u_email u = email_cond E (b ''email'')) (users s) \<noteq> None
      then (failure 400 ''User already exists with this email'' ''USER_EXISTS'', s)
      else (case user_save_new E now (b ''name'') (b ''email'') (b ''password'') (b ''address'')
                   (b ''role'') s of
              Inl (ValidationError fs) \<Rightarrow> (validation_failed fs, s)
            | Inl DuplicateKey \<Rightarrow> (failure 400 ''User already exists with this email'' ''DUPLICATE_EMAIL'', s)
            | Inr (uid, u, s') \<Rightarrow> (user_created_response uid u, s')))"

text \<open>A search condition is set when the parameter is a non-empty string.\<close>

definition regex_cond :: "env \<Rightarrow> string option \<Rightarrow> string \<Rightarrow> bool" where
  "regex_cond E x t = (case x of None \<Rightarrow> True | Some pat \<Rightarrow> pat = [] \<or> regexTest E pat t)"

definition user_filter :: "env \<Rightarrow> (string \<Rightarrow> string option) \<Rightarrow> user \<Rightarrow> bool" where
  "user_filter E q u =
     (u_isActive u \<and> regex_cond E (q ''name'') (u_name u) \<and> regex_cond E (q ''email'') (u_email u)
      \<and> regex_cond E (q ''address'') (u_address u)
      \<and> (case q ''role'' of None \<Rightarrow> True | Some r \<Rightarrow> r = [] \<or> role_name (u_role u) = r))"

text \<open>An element of the \<open>users\<close> array: \<open>populate('storeId', ...)\<close>, \<open>select('-password')\<close>, \<open>toJSON\<close>.\<close>

definition listed_user :: "db \<Rightarrow> string list \<Rightarrow> oid \<times> user \<Rightarrow> json" where
  "listed_user s fs x =
     user_toJSON (deselect ''password''
       (populate ''storeId'' (json_opt_obj (populated_store s fs (u_storeId (snd x))))
          (user_toObject (fst x) (snd x))))"

definition users_response :: "env \<Rightarrow> (string \<Rightarrow> string option) \<Rightarrow> db \<Rightarrow> response" where
  "users_response E q s =
     (let page = parse_or 1 (q ''page'');
          limit = parse_or 10 (q ''limit'');
          skip = (page - 1) * limit;
          found = filter (\<lambda>(i, u). user_filter E q u) (users s);
          shown = take limit (drop skip (sort_desc (\<lambda>(i, u). u_createdAt u) found))
      in \<lparr>status = 200, body = JsObj [
            (''message'', JsStr ''Users retrieved successfully''),
            (''users'', JsArr (map (listed_user s [''name'', ''averageRating'']) shown)),
            (''pagination'', pagination page limit (length found))]\<rparr>)"

definition get_users :: "env \<Rightarrow> (string \<Rightarrow> string option) \<Rightarrow> db \<Rightarrow> response \<times> db" where
  "get_users E q s = (users_response E q s, s)"

definition recent_ratings :: "db \<Rightarrow> oid \<Rightarrow> (oid \<times> rating) list" where
  "recent_ratings s sid = sort_desc (\<lambda>(i, r). r_createdAt r) (filter (\<lambda>(i, r). r_storeId r = sid) (ratings s))"

text \<open>The store statistics that are added for a store owner whose store was populated.\<close>

definition owner_store_data :: "db \<Rightarrow> user \<Rightarrow> (string \<times> json) list option \<Rightarrow> (string \<times> json) list" where
  "owner_store_data s u st =
     (case (u_role u, st, u_storeId u) of
        (StoreOwner, Some obj, Some sid) \<Rightarrow>
          [(''store'', JsObj (obj @ [
              (''ratingsCount'', JsNum (of_nat (length (filter (\<lambda>(i, r). r_storeId r = sid) (ratings s))))),
              (''recentRatings'', JsArr (map (\<lambda>x. JsObj (rating_with_user s [''name'', ''email''] x))
                  (take 5 (recent_ratings s sid))))]))]
      | _ \<Rightarrow> [])"

definition user_response :: "db \<Rightarrow> oid \<Rightarrow> user \<Rightarrow> response" where
  "user_response s uid u =
     (let fs = [''name'', ''email'', ''address'', ''averageRating'', ''totalRatings'']
      in \<lparr>status = 200, body = JsObj ([
            (''message'', JsStr ''User retrieved successfully''),
            (''user'', listed_user s fs (uid, u))]
            @ owner_store_data s u (populated_store s fs (u_storeId u)))\<rparr>)"

definition get_user :: "env \<Rightarrow> string \<Rightarrow> db \<Rightarrow> response \<times> db" where
  "get_user E userId s =
     (case castObjectId E userId of
        None \<Rightarrow> (server_error ''Server error retrieving user'', s)
      | Some uid \<Rightarrow>
          (case findById (users s) uid of
             None \<Rightarrow> (failure 404 ''User not found'' ''USER_NOT_FOUND'', s)
           | Some u \<Rightarrow>
               if \<not> u_isActive u then (failure 404 ''User not found'' ''USER_NOT_FOUND'', s)
               else (user_response s uid u, s)))"

text \<open>
  The assignments of the update handler: \<open>if (name) user.name = name\<close> and so on, each through
  the cast and the setters of its path.
\<close>

definition update_user_fields :: "env \<Rightarrow> (string \<Rightarrow> jsval) \<Rightarrow> user \<Rightarrow> user" where
  "update_user_fields E b u = u\<lparr>
       u_name := (if truthy (b ''name'') then trim (js_toString E (b ''name'')) else u_name u),
       u_email := (if truthy (b ''email'') then toLowerCase E (js_toString E (b ''email'')) else u_email u),
       u_address := (if truthy (b ''address'') then trim (js_toString E (b ''address'')) else u_address u),
       u_role := (if truthy (b ''role'')
                  then (case role_of_string (js_toString E (b ''role'')) of Some r \<Rightarrow> r | None \<Rightarrow> u_role u)
                  else u_role u),
       u_isActive := (case b ''isActive'' of JBool a \<Rightarrow> a | _ \<Rightarrow> u_isActive u)\<rparr>"

definition role_in_enum :: "env \<Rightarrow> (string \<Rightarrow> jsval) \<Rightarrow> bool" where
  "role_in_enum E b = (truthy (b ''role'') \<longrightarrow> role_of_string (js_toString E (b ''role'')) \<noteq> None)"

definition user_updated_response :: "oid \<Rightarrow> user \<Rightarrow> response" where
  "user_updated_response uid u = \<lparr>status = 200, body = JsObj [
       (''message'', JsStr ''User updated successfully''),
       (''user'', JsObj (user_summary uid u @ [(''isActive'', JsBool (u_isActive u)),
                                               (''updatedAt'', json_date (u_updatedAt u))]))]\<rparr>"

text \<open>\<open>email !== user.email\<close> compares a body value with a string.\<close>

definition put_user :: "env \<Rightarrow> nat \<Rightarrow> string \<Rightarrow> (string \<Rightarrow> jsval) \<Rightarrow> db \<Rightarrow> response \<times> db" where
  "put_user E now userId b s =
     (case castObjectId E userId of
        None \<Rightarrow> (server_error ''Server error updating user'', s)
      | Some uid \<Rightarrow>
          (case findById (users s) uid of
             None \<Rightarrow> (failure 404 ''User not found'' ''USER_NOT_FOUND'', s)
           | Some u \<Rightarrow>
               if truthy (b ''email'') \<and> b ''email'' \<noteq> JStr (u_email u)
                  \<and> findOne (\<lambda>i x. u_email x = email_cond E (b ''email'') \<and> i \<noteq> uid) (users s) \<noteq> None
               then (failure 400 ''Email already exists'' ''EMAIL_EXISTS'', s)
               else (case user_save_existing E now uid u (update_user_fields E b u) (role_in_enum E b) s of
                       Inl (ValidationError fs) \<Rightarrow> (validation_failed fs, s)
                     | Inl DuplicateKey \<Rightarrow> (server_error ''Server error updating user'', s)
                     | Inr (u', s') \<Rightarrow> (user_updated_response uid u', s'))))"

text \<open>Soft delete: \<open>user.isActive = false; await user.save()\<close>; every error is a 500.\<close>

definition delete_user :: "env \<Rightarrow> nat \<Rightarrow> string \<Rightarrow> db \<Rightarrow> response \<times> db" where
  "delete_user E now userId s =
     (case castObjectId E userId of
        None \<Rightarrow> (server_error ''Server error deleting user'', s)
      | Some uid \<Rightarrow>
          (case findById (users s) uid of
             None \<Rightarrow> (failure 404 ''User not found'' ''USER_NOT_FOUND'', s)
           | Some u \<Rightarrow>
               (case user_save_existing E now uid u (u\<lparr>u_isActive := False\<rparr>) True s of
                  Inl e \<Rightarrow> (server_error ''Server error deleting user'', s)
                | Inr (u', s') \<Rightarrow> (message 200 ''User deleted successfully'', s'))))"

section \<open>\<open>routes/stores.js\<close>\<close>

definition store_summary :: "oid \<Rightarrow> store \<Rightarrow> (string \<times> json) list" where
  "store_summary sid st =
     [(''id'', json_id sid), (''name'', JsStr (s_name st)), (''email'', JsStr (s_email st)),
      (''address'', JsStr (s_address st))]"

definition store_created_response :: "oid \<Rightarrow> store \<Rightarrow> response" where
  "store_created_response sid st = \<lparr>status = 201, body = JsObj [
       (''message'', JsStr ''Store created successfully''),
       (''store'', JsObj (store_summary sid st @ [
          (''ownerId'', json_id (s_ownerId st)),
          (''averageRating'', JsNum (s_averageRating st)),
          (''totalRatings'', JsNum (of_int (s_totalRatings st))),
          (''createdAt'', json_date (s_createdAt st))]))]\<rparr>"

text \<open>\<open>User.findById(ownerId)\<close>: undefined finds nothing, a value that does not cast throws.\<close>

definition find_owner :: "env \<Rightarrow> jsval \<Rightarrow> db \<Rightarrow> (oid \<times> user) option" where
  "find_owner E v s =
     Option.bind (castObjectIdV E v) (\<lambda>oid. map_option (Pair oid) (findById (users s) oid))"

text \<open>The end of the create handler: the store is saved, then the owner with its \<open>storeId\<close>.\<close>

definition create_store :: "env \<Rightarrow> nat \<Rightarrow> (string \<Rightarrow> jsval) \<Rightarrow> oid \<Rightarrow> user \<Rightarrow> db \<Rightarrow> response \<times> db" where
  "create_store E now b ownerId owner s =
     (case store_save_new E now (b ''name'') (b ''email'') (b ''address'') ownerId s of
        Inl (ValidationError fs) \<Rightarrow> (validation_failed fs, s)
      | Inl DuplicateKey \<Rightarrow> (failure 400 ''Store already exists with this email'' ''DUPLICATE_EMAIL'', s)
      | Inr (sid, st, s1) \<Rightarrow>
          (case user_save_existing E now ownerId owner (owner\<lparr>u_storeId := Some sid\<rparr>) True s1 of
             Inl (ValidationError fs) \<Rightarrow> (validation_failed fs, s1)
           | Inl DuplicateKey \<Rightarrow>
               (failure 400 ''Store already exists with this email'' ''DUPLICATE_EMAIL'', s1)
           | Inr (owner', s2) \<Rightarrow> (store_created_response sid st, s2)))"

definition post_stores :: "env \<Rightarrow> nat \<Rightarrow> (string \<Rightarrow> jsval) \<Rightarrow> db \<Rightarrow> response \<times> db" where
  "post_stores E now b s =
     (if findOne (\<lambda>i st. s_email st = email_cond E (b ''email'')) (stores s) \<noteq> None
      then (failure 400 ''Store already exists with this email'' ''STORE_EXISTS'', s)
      else if b ''ownerId'' \<noteq> JUndefined \<and> castObjectIdV E (b ''ownerId'') = None
      then (server_error ''Server error during store creation'', s)
      else (case find_owner E (b ''ownerId'') s of
              None \<Rightarrow> (failure 400 ''Invalid store owner'' ''INVALID_OWNER'', s)
            | Some (ownerId, owner) \<Rightarrow>
                if u_role owner \<noteq> StoreOwner then (failure 400 ''Invalid store owner'' ''INVALID_OWNER'', s)
                else if findOne (\<lambda>i st. s_ownerId st = ownerId) (stores s) \<noteq> None
                then (failure 400 ''Store owner already has a store'' ''OWNER_HAS_STORE'', s)
                else create_store E now b ownerId owner s))"

definition userRating_json :: "(oid \<times> rating) option \<Rightarrow> json" where
  "userRating_json x = (case x of None \<Rightarrow> JsNull
       | Some (rid, r) \<Rightarrow> JsObj [(''rating'', JsNum (r_rating r)), (''comment'', json_opt_str (r_comment r)),
                                  (''ratingId'', json_id rid)])"

text \<open>
  An element of the \<open>stores\<close> array. For a normal user it is \<open>store.toObject()\<close> (the populated
  owner by \<open>toObject\<close>) with \<open>userRating\<close>, the last of the user's ratings of the store.
\<close>

definition listed_store :: "db \<Rightarrow> oid \<times> user \<Rightarrow> string list \<Rightarrow> oid \<times> store \<Rightarrow> json" where
  "listed_store s cu populateOptions x =
     (if u_role (snd cu) = NormalUser
      then JsObj (populate ''ownerId''
                    (json_opt_obj (populated_user s populateOptions (s_ownerId (snd x))))
                    (store_toObject (fst x) (snd x))
                  @ [(''userRating'', userRating_json
                       (findOne (\<lambda>j r. r_userId r = fst cu \<and> r_storeId r = fst x) (rev (ratings s))))])
      else JsObj (populate ''ownerId''
                    (json_opt_user (populated_user s populateOptions (s_ownerId (snd x))))
                    (store_toObject (fst x) (snd x))))"

definition stores_response :: "env \<Rightarrow> oid \<times> user \<Rightarrow> (string \<Rightarrow> string option) \<Rightarrow> db \<Rightarrow> response" where
  "stores_response E cu q s =
     (let page = parse_or 1 (q ''page'');
          limit = parse_or 10 (q ''limit'');
          skip = (page - 1) * limit;
          found = filter (\<lambda>(i, st). s_isActive st \<and> regex_cond E (q ''name'') (s_name st)
                                     \<and> regex_cond E (q ''address'') (s_address st)) (stores s);
          populateOptions = (if u_role (snd cu) = Admin then [''name'', ''email'', ''address'', ''role'']
                             else [''name'', ''email'']);
          shown = take limit (drop skip (sort_desc (\<lambda>(i, st). s_createdAt st) found))
      in \<lparr>status = 200, body = JsObj [
            (''message'', JsStr ''Stores retrieved successfully''),
            (''stores'', JsArr (map (listed_store s cu populateOptions) shown)),
            (''pagination'', pagination page limit (length found))]\<rparr>)"

definition get_stores :: "env \<Rightarrow> oid \<times> user \<Rightarrow> (string \<Rightarrow> string option) \<Rightarrow> db \<Rightarrow> response \<times> db" where
  "get_stores E cu q s = (stores_response E cu q s, s)"

definition store_response :: "db \<Rightarrow> oid \<times> user \<Rightarrow> oid \<Rightarrow> store \<Rightarrow> response" where
  "store_response s cu sid st =
     (let additionalData =
            (if u_role (snd cu) = NormalUser
             then [(''userRating'', userRating_json
                      (findOne (\<lambda>j r. r_userId r = fst cu \<and> r_storeId r = sid) (ratings s)))]
             else [])
            @ (if (u_role (snd cu) = StoreOwner \<and> s_ownerId st = fst cu) \<or> u_role (snd cu) = Admin
               then [(''ratings'', JsArr (map (\<lambda>x. JsObj (rating_with_user s [''name'', ''email''] x))
                         (take 20 (recent_ratings s sid))))]
               else [])
      in \<lparr>status = 200, body = JsObj ([
            (''message'', JsStr ''Store retrieved successfully''),
            (''store'', JsObj (populate ''ownerId''
                (json_opt_user (populated_user s [''name'', ''email'', ''address''] (s_ownerId st)))
                (store_toObject sid st)))] @ additionalData)\<rparr>)"

definition get_store :: "env \<Rightarrow> oid \<times> user \<Rightarrow> string \<Rightarrow> db \<Rightarrow> response \<times> db" where
  "get_store E cu storeId s =
     (case castObjectId E storeId of
        None \<Rightarrow> (server_error ''Server error retrieving store'', s)
      | Some sid \<Rightarrow>
          (case findById (stores s) sid of
             None \<Rightarrow> (failure 404 ''Store not found'' ''STORE_NOT_FOUND'', s)
           | Some st \<Rightarrow>
               if \<not> s_isActive st then (failure 404 ''Store not found'' ''STORE_NOT_FOUND'', s)
               else (store_response s cu sid st, s)))"

definition ratingDistribution :: "rat list \<Rightarrow> json" where
  "ratingDistribution rs =
     JsObj (map (\<lambda>(k, n). (k, JsNum (of_nat (length (filter (\<lambda>x. x = n) rs)))))
              [(''1'', 1), (''2'', 2), (''3'', 3), (''4'', 4), (''5'', 5)])"

definition dashboard_response :: "db \<Rightarrow> oid \<Rightarrow> store \<Rightarrow> response" where
  "dashboard_response s sid st =
     (let rs = recent_ratings s sid
      in \<lparr>status = 200, body = JsObj [
            (''message'', JsStr ''Store dashboard retrieved successfully''),
            (''dashboard'', JsObj [
               (''store'', JsObj (store_summary sid st @ [
                  (''averageRating'', JsNum (s_averageRating st)),
                  (''totalRatings'', JsNum (of_int (s_totalRatings st)))])),
               (''ratingDistribution'', ratingDistribution (map (\<lambda>(i, r). r_rating r) rs)),
               (''recentRatings'', JsArr (map (\<lambda>x. JsObj (rating_with_user s [''name'', ''email'', ''address''] x))
                   (take 10 rs))),
               (''totalRaters'', JsNum (of_nat (length rs)))])]\<rparr>)"

text \<open>
  \<open>verifyStoreOwner\<close> lets an admin pass without setting \<open>req.store\<close>; the handler then
  throws on \<open>store._id\<close> and answers 500.
\<close>

definition get_dashboard :: "env \<Rightarrow> oid \<times> user \<Rightarrow> string \<Rightarrow> db \<Rightarrow> response \<times> db" where
  "get_dashboard E cu storeId s =
     (case verifyStoreOwner E cu storeId s of
        Inl r \<Rightarrow> (r, s)
      | Inr None \<Rightarrow> (server_error ''Server error retrieving store dashboard'', s)
      | Inr (Some (sid, st)) \<Rightarrow> (dashboard_response s sid st, s))"

definition update_store_fields :: "env \<Rightarrow> (string \<Rightarrow> jsval) \<Rightarrow> store \<Rightarrow> store" where
  "update_store_fields E b st = st\<lparr>
       s_name := (if truthy (b ''name'') then trim (js_toString E (b ''name'')) else s_name st),
       s_email := (if truthy (b ''email'') then toLowerCase E (js_toString E (b ''email'')) else s_email st),
       s_address := (if truthy (b ''address'') then trim (js_toString E (b ''address'')) else s_address st)\<rparr>"

definition store_updated_response :: "oid \<Rightarrow> store \<Rightarrow> response" where
  "store_updated_response sid st = \<lparr>status = 200, body = JsObj [
       (''message'', JsStr ''Store updated successfully''),
       (''store'', JsObj (store_summary sid st @ [
          (''averageRating'', JsNum (s_averageRating st)),
          (''totalRatings'', JsNum (of_int (s_totalRatings st))),
          (''updatedAt'', json_date (s_updatedAt st))]))]\<rparr>"

definition put_store :: "env \<Rightarrow> nat \<Rightarrow> string \<Rightarrow> (string \<Rightarrow> jsval) \<Rightarrow> db \<Rightarrow> response \<times> db" where
  "put_store E now storeId b s =
     (case castObjectId E storeId of
        None \<Rightarrow> (server_error ''Server error updating store'', s)
      | Some sid \<Rightarrow>
          (case findById (stores s) sid of
             None \<Rightarrow> (failure 404 ''Store not found'' ''STORE_NOT_FOUND'', s)
           | Some st \<Rightarrow>
               if truthy (b ''email'') \<and> b ''email'' \<noteq> JStr (s_email st)
                  \<and> findOne (\<lambda>i x. s_email x = email_cond E (b ''email'') \<and> i \<noteq> sid) (stores s) \<noteq> None
               then (failure 400 ''Email already exists'' ''EMAIL_EXISTS'', s)
               else (case store_save_existing E now sid st (update_store_fields E b st) s of
                       Inl (ValidationError fs) \<Rightarrow> (validation_failed fs, s)
                     | Inl DuplicateKey \<Rightarrow> (server_error ''Server error updating store'', s)
                     | Inr (st', s') \<Rightarrow> (store_updated_response sid st', s'))))"

text \<open>\<open>User.findByIdAndUpdate(id, { storeId: null })\<close> runs no hook and no validator.\<close>

definition clear_storeId :: "oid \<Rightarrow> db \<Rightarrow> db" where
  "clear_storeId uid s =
     (case findById (users s) uid of
        None \<Rightarrow> s
      | Some u \<Rightarrow> s\<lparr>users := updateById uid (u\<lparr>u_storeId := None\<rparr>) (users s)\<rparr>)"

text \<open>Soft delete: \<open>store.isActive = false; await store.save()\<close>, then the owner's \<open>storeId\<close>.\<close>

definition delete_store :: "env \<Rightarrow> nat \<Rightarrow> string \<Rightarrow> db \<Rightarrow> response \<times> db" where
  "delete_store E now storeId s =
     (case castObjectId E storeId of
        None \<Rightarrow> (server_error ''Server error deleting store'', s)
      | Some sid \<Rightarrow>
          (case findById (stores s) sid of
             None \<Rightarrow> (failure 404 ''Store not found'' ''STORE_NOT_FOUND'', s)
           | Some st \<Rightarrow>
               (case store_save_existing E now sid st (st\<lparr>s_isActive := False\<rparr>) s of
                  Inl e \<Rightarrow> (server_error ''Server error deleting store'', s)
                | Inr (st', s1) \<Rightarrow>
                    (message 200 ''Store deleted successfully'', clear_storeId (s_ownerId st') s1))))"

section \<open>\<open>routes/ratings.js\<close>\<close>

definition rating_response :: "nat \<Rightarrow> string \<Rightarrow> oid \<Rightarrow> rating \<Rightarrow> string \<Rightarrow> nat \<Rightarrow> response" where
  "rating_response st msg rid r stamp t = \<lparr>status = st, body = JsObj [
       (''message'', JsStr msg),
       (''rating'', JsObj [(''id'', json_id rid), (''rating'', JsNum (r_rating r)),
          (''comment'', json_opt_str (r_comment r)), (''storeId'', json_id (r_storeId r)),
          (stamp, json_date t)])]\<rparr>"

text \<open>\<open>const { storeId, rating, comment = '' } = req.body\<close>: the default replaces undefined only.\<close>

definition comment_or_empty :: "(string \<Rightarrow> jsval) \<Rightarrow> jsval" where
  "comment_or_empty b = (case b ''comment'' of JUndefined \<Rightarrow> JStr [] | v \<Rightarrow> v)"

text \<open>\<open>existingRating.rating = rating\<close>: a value that does not cast leaves the path as it was.\<close>

definition assign_rating :: "jsval \<Rightarrow> rating \<Rightarrow> rating" where
  "assign_rating v r = r\<lparr>r_rating := (case castNumber v of Some q \<Rightarrow> q | None \<Rightarrow> r_rating r)\<rparr>"

definition assign_comment :: "env \<Rightarrow> jsval \<Rightarrow> rating \<Rightarrow> rating" where
  "assign_comment E v r = r\<lparr>r_comment := set_comment E v\<rparr>"

definition post_ratings :: "env \<Rightarrow> nat \<Rightarrow> oid \<times> user \<Rightarrow> (string \<Rightarrow> jsval) \<Rightarrow> db \<Rightarrow> response \<times> db" where
  "post_ratings E now cu b s =
     (let rating = b ''rating''; comment = comment_or_empty b
      in case castObjectIdV E (b ''storeId'') of
           None \<Rightarrow> (server_error ''Server error during rating submission'', s)
         | Some storeId \<Rightarrow>
             (case findById (stores s) storeId of
                None \<Rightarrow> (failure 404 ''Store not found'' ''STORE_NOT_FOUND'', s)
              | Some st \<Rightarrow>
                  if \<not> s_isActive st then (failure 404 ''Store not found'' ''STORE_NOT_FOUND'', s)
                  else (case findOne (\<lambda>i r. r_userId r = fst cu \<and> r_storeId r = storeId) (ratings s) of
                          Some (rid, existingRating) \<Rightarrow>
                            (case rating_save_existing now rid existingRating
                                    (assign_comment E comment (assign_rating rating existingRating))
                                    (castNumber rating \<noteq> None) s of
                               Inl (ValidationError fs) \<Rightarrow> (validation_failed fs, s)
                             | Inl DuplicateKey \<Rightarrow> (server_error ''Server error during rating submission'', s)
                             | Inr (doc, s') \<Rightarrow>
                                 (rating_response 200 ''Rating updated successfully'' rid doc
                                    ''updatedAt'' (r_updatedAt doc), s'))
                        | None \<Rightarrow>
                            (case rating_save_new now (fst cu) storeId (castNumber rating)
                                    (set_comment E comment) s of
                               Inl (ValidationError fs) \<Rightarrow> (validation_failed fs, s)
                             | Inl DuplicateKey \<Rightarrow> (server_error ''Server error during rating submission'', s)
                             | Inr (rid, doc, s') \<Rightarrow>
                                 (rating_response 201 ''Rating submitted successfully'' rid doc
                                    ''createdAt'' (r_createdAt doc), s')))))"

definition rating_found_response :: "db \<Rightarrow> oid \<times> rating \<Rightarrow> response" where
  "rating_found_response s x = \<lparr>status = 200, body = JsObj [
       (''message'', JsStr ''Rating retrieved successfully''),
       (''rating'', JsObj (rating_with_store s [''name'', ''averageRating'']
                            (rating_toObject (fst x) (snd x)) x))]\<rparr>"

definition get_rating_user_store :: "env \<Rightarrow> oid \<times> user \<Rightarrow> string \<Rightarrow> db \<Rightarrow> response \<times> db" where
  "get_rating_user_store E cu storeId s =
     (case castObjectId E storeId of
        None \<Rightarrow> (server_error ''Server error retrieving rating'', s)
      | Some sid \<Rightarrow>
          (case findOne (\<lambda>i r. r_userId r = fst cu \<and> r_storeId r = sid) (ratings s) of
             None \<Rightarrow> (failure 404 ''No rating found for this store'' ''RATING_NOT_FOUND'', s)
           | Some x \<Rightarrow> (rating_found_response s x, s)))"

definition store_ratings_response :: "db \<Rightarrow> oid \<Rightarrow> response" where
  "store_ratings_response s sid =
     (let rs = recent_ratings s sid
      in \<lparr>status = 200, body = JsObj [
            (''message'', JsStr ''Store ratings retrieved successfully''),
            (''ratings'', JsArr (map (\<lambda>x. JsObj (rating_with_store s [''name'']
                                       (rating_with_user s [''name'', ''email''] x) x)) rs)),
            (''totalRatings'', JsNum (of_nat (length rs)))]\<rparr>)"

definition get_store_ratings :: "env \<Rightarrow> oid \<times> user \<Rightarrow> string \<Rightarrow> db \<Rightarrow> response \<times> db" where
  "get_store_ratings E cu storeId s =
     (case castObjectId E storeId of
        None \<Rightarrow> (server_error ''Server error retrieving store ratings'', s)
      | Some sid \<Rightarrow>
          if u_role (snd cu) = StoreOwner
             \<and> (case findById (stores s) sid of None \<Rightarrow> True | Some st \<Rightarrow> s_ownerId st \<noteq> fst cu)
          then (failure 403 ''Access denied. You can only view ratings for your own store.'' ''ACCESS_DENIED'', s)
          else (store_ratings_response s sid, s))"

definition my_ratings_response :: "oid \<Rightarrow> db \<Rightarrow> response" where
  "my_ratings_response uid s =
     (let rs = sort_desc (\<lambda>(i, r). r_createdAt r) (filter (\<lambda>(i, r). r_userId r = uid) (ratings s))
      in \<lparr>status = 200, body = JsObj [
            (''message'', JsStr ''User ratings retrieved successfully''),
            (''ratings'', JsArr (map (\<lambda>x. JsObj (rating_with_store s [''name'', ''email'', ''address'', ''averageRating'']
                                       (rating_toObject (fst x) (snd x)) x)) rs)),
            (''totalRatings'', JsNum (of_nat (length rs)))]\<rparr>)"

definition get_my_ratings :: "oid \<times> user \<Rightarrow> db \<Rightarrow> response \<times> db" where
  "get_my_ratings cu s = (my_ratings_response (fst cu) s, s)"

text \<open>
  \<open>rating && (rating < 1 || rating > 5 || !Number.isInteger(rating))\<close>: the last disjunct holds
  for every value that is not a number.
\<close>

definition invalid_rating :: "jsval \<Rightarrow> bool" where
  "invalid_rating v = (truthy v \<and> (case v of JNum q \<Rightarrow> q < 1 \<or> q > 5 \<or> \<not> is_integer q | _ \<Rightarrow> True))"

definition put_rating :: "env \<Rightarrow> nat \<Rightarrow> oid \<times> user \<Rightarrow> string \<Rightarrow> (string \<Rightarrow> jsval) \<Rightarrow> db \<Rightarrow> response \<times> db" where
  "put_rating E now cu ratingId b s =
     (let rating = b ''rating''; comment = comment_or_empty b
      in if invalid_rating rating
         then (failure 400 ''Rating must be an integer between 1 and 5'' ''INVALID_RATING'', s)
         else (case castObjectId E ratingId of
                 None \<Rightarrow> (server_error ''Server error updating rating'', s)
               | Some rid \<Rightarrow>
                   (case findById (ratings s) rid of
                      None \<Rightarrow> (failure 404 ''Rating not found'' ''RATING_NOT_FOUND'', s)
                    | Some existingRating \<Rightarrow>
                        if r_userId existingRating \<noteq> fst cu
                        then (failure 403 ''Access denied. You can only update your own ratings.'' ''ACCESS_DENIED'', s)
                        else (case rating_save_existing now rid existingRating
                                     (assign_comment E comment
                                        (if truthy rating then assign_rating rating existingRating
                                         else existingRating))
                                     (truthy rating \<longrightarrow> castNumber rating \<noteq> None) s of
                                Inl (ValidationError fs) \<Rightarrow> (validation_failed fs, s)
                              | Inl DuplicateKey \<Rightarrow> (server_error ''Server error updating rating'', s)
                              | Inr (doc, s') \<Rightarrow>
                                  (rating_response 200 ''Rating updated successfully'' rid doc
                                     ''updatedAt'' (r_updatedAt doc), s')))))"

text \<open>
  \<open>Rating.findByIdAndDelete\<close> is a query: the document hook \<open>post('deleteOne', { document: true,
  query: false })\<close> of the Rating schema does not run for it.
\<close>

definition delete_rating :: "env \<Rightarrow> oid \<times> user \<Rightarrow> string \<Rightarrow> db \<Rightarrow> response \<times> db" where
  "delete_rating E cu ratingId s =
     (case castObjectId E ratingId of
        None \<Rightarrow> (server_error ''Server error deleting rating'', s)
      | Some rid \<Rightarrow>
          (case findById (ratings s) rid of
             None \<Rightarrow> (failure 404 ''Rating not found'' ''RATING_NOT_FOUND'', s)
           | Some rating \<Rightarrow>
               let canDelete = (u_role (snd cu) = Admin
                                \<or> (u_role (snd cu) = NormalUser \<and> r_userId rating = fst cu))
               in if \<not> canDelete
                  then (failure 403 ''Access denied. You can only delete your own ratings.'' ''ACCESS_DENIED'', s)
                  else (message 200 ''Rating deleted successfully'',
                        s\<lparr>ratings := deleteById rid (ratings s)\<rparr>)))"

definition ratings_stats_response :: "db \<Rightarrow> response" where
  "ratings_stats_response s =
     (let rs = map (\<lambda>(i, r). r_rating r) (ratings s);
          topStores = take 10 (rev (sort_key (\<lambda>(i, st). s_averageRating st)
                        (sort_key (\<lambda>(i, st). s_totalRatings st)
                           (filter (\<lambda>(i, st). s_isActive st) (stores s)))))
      in \<lparr>status = 200, body = JsObj [
            (''message'', JsStr ''Rating statistics retrieved successfully''),
            (''stats'', JsObj [
               (''totalRatings'', JsNum (of_nat (length rs))),
               (''overallAverageRating'',
                  JsNum (if rs = [] then 0 else of_int (math_round (sum_list rs / of_nat (length rs) * 10)) / 10)),
               (''ratingDistribution'', ratingDistribution rs),
               (''topStores'', JsArr (map (\<lambda>(i, st). JsObj (select_fields
                    [''name'', ''averageRating'', ''totalRatings''] (store_toObject i st))) topStores))])]\<rparr>)"

definition get_ratings_stats :: "db \<Rightarrow> response \<times> db" where
  "get_ratings_stats s = (ratings_stats_response s, s)"

section \<open>The router\<close>

text \<open>Every route but register and login starts with \<open>authenticateToken\<close>.\<close>

definition needs_auth :: "endpoint \<Rightarrow> bool" where
  "needs_auth ep = (ep \<noteq> AuthRegister \<and> ep \<noteq> AuthLogin)"

text \<open>The roles of the route's \<open>authorize(...)\<close>, when it has one.\<close>

fun allowed_roles :: "endpoint \<Rightarrow> role list option" where
  "allowed_roles UsersStats = Some [Admin]"
| "allowed_roles UsersCreate = Some [Admin]"
| "allowed_roles UsersList = Some [Admin]"
| "allowed_roles (UsersGet userId) = Some [Admin]"
| "allowed_roles (UsersUpdate userId) = Some [Admin]"
| "allowed_roles (UsersDelete userId) = Some [Admin]"
| "allowed_roles StoresCreate = Some [Admin]"
| "allowed_roles (StoresDashboard storeId) = Some [StoreOwner, Admin]"
| "allowed_roles (StoresUpdate storeId) = Some [Admin]"
| "allowed_roles (StoresDelete storeId) = Some [Admin]"
| "allowed_roles RatingsSubmit = Some [NormalUser]"
| "allowed_roles (RatingsUserStore storeId) = Some [NormalUser]"
| "allowed_roles (RatingsOfStore storeId) = Some [Admin, StoreOwner]"
| "allowed_roles RatingsMine = Some [NormalUser]"
| "allowed_roles (RatingsUpdate ratingId) = Some [NormalUser]"
| "allowed_roles RatingsStats = Some [Admin]"
| "allowed_roles _ = None"

text \<open>
  The validation middleware of the route: the errors that \<open>handleValidationErrors\<close> finds and
  the request after the sanitizers. Of two validator arrays the second runs when the first
  found no error.
\<close>

definition with_body :: "request \<Rightarrow> verr list \<times> (string \<Rightarrow> jsval) \<Rightarrow> verr list \<times> request" where
  "with_body req x = (fst x, req\<lparr>req_body := snd x\<rparr>)"

definition page_and_search :: "env \<Rightarrow> request \<Rightarrow> verr list \<times> request" where
  "page_and_search E req =
     (if validatePagination (req_query req) \<noteq> [] then (validatePagination (req_query req), req)
      else (fst (validateSearch E (req_query req)), req\<lparr>req_query := snd (validateSearch E (req_query req))\<rparr>))"

fun run_validators :: "env \<Rightarrow> endpoint \<Rightarrow> request \<Rightarrow> verr list \<times> request" where
  "run_validators E AuthRegister req = with_body req (validateUserRegistration E (req_body req))"
| "run_validators E AuthLogin req = with_body req (validateUserLogin E (req_body req))"
| "run_validators E AuthPassword req = with_body req (validatePasswordUpdate E (req_body req))"
| "run_validators E UsersCreate req = with_body req (validateAdminUserCreation E (req_body req))"
| "run_validators E UsersList req = page_and_search E req"
| "run_validators E (UsersGet userId) req = (validateObjectId E ''userId'' userId, req)"
| "run_validators E (UsersUpdate userId) req = (validateObjectId E ''userId'' userId, req)"
| "run_validators E (UsersDelete userId) req = (validateObjectId E ''userId'' userId, req)"
| "run_validators E StoresCreate req = with_body req (validateStore E (req_body req))"
| "run_validators E StoresList req = page_and_search E req"
| "run_validators E (StoresGet storeId) req = (validateObjectId E ''storeId'' storeId, req)"
| "run_validators E (StoresUpdate storeId) req = (validateObjectId E ''storeId'' storeId, req)"
| "run_validators E (StoresDelete storeId) req = (validateObjectId E ''storeId'' storeId, req)"
| "run_validators E RatingsSubmit req = with_body req (validateRating E (req_body req))"
| "run_validators E (RatingsUserStore storeId) req = (validateObjectId E ''storeId'' storeId, req)"
| "run_validators E (RatingsOfStore storeId) req = (validateObjectId E ''storeId'' storeId, req)"
| "run_validators E (RatingsUpdate ratingId) req = (validateObjectId E ''ratingId'' ratingId, req)"
| "run_validators E (RatingsDelete ratingId) req = (validateObjectId E ''ratingId'' ratingId, req)"
| "run_validators E _ req = ([], req)"

definition not_found :: response where
  "not_found = message 404 ''Not found''"

text \<open>The handler of a route behind \<open>authenticateToken\<close>; \<open>cu\<close> is \<open>req.user\<close>.\<close>

fun handler :: "env \<Rightarrow> nat \<Rightarrow> oid \<times> user \<Rightarrow> endpoint \<Rightarrow> request \<Rightarrow> db \<Rightarrow> response \<times> db" where
  "handler E now cu AuthProfile req s = get_profile cu s"
| "handler E now cu AuthPassword req s = patch_password E now cu (req_body req) s"
| "handler E now cu AuthVerify req s = get_verify cu s"
| "handler E now cu AuthLogout req s = post_logout s"
| "handler E now cu UsersStats req s = get_users_stats s"
| "handler E now cu UsersCreate req s = post_users E now (req_body req) s"
| "handler E now cu UsersList req s = get_users E (req_query req) s"
| "handler E now cu (UsersGet userId) req s = get_user E userId s"
| "handler E now cu (UsersUpdate userId) req s = put_user E now userId (req_body req) s"
| "handler E now cu (UsersDelete userId) req s = delete_user E now userId s"
| "handler E now cu StoresCreate req s = post_stores E now (req_body req) s"
| "handler E now cu StoresList req s = get_stores E cu (req_query req) s"
| "handler E now cu (StoresGet storeId) req s = get_store E cu storeId s"
| "handler E now cu (StoresDashboard storeId) req s = get_dashboard E cu storeId s"
| "handler E now cu (StoresUpdate storeId) req s = put_store E now storeId (req_body req) s"
| "handler E now cu (StoresDelete storeId) req s = delete_store E now storeId s"
| "handler E now cu RatingsSubmit req s = post_ratings E now cu (req_body req) s"
| "handler E now cu (RatingsUserStore storeId) req s = get_rating_user_store E cu storeId s"
| "handler E now cu (RatingsOfStore storeId) req s = get_store_ratings E cu storeId s"
| "handler E now cu RatingsMine req s = get_my_ratings cu s"
| "handler E now cu (RatingsUpdate ratingId) req s = put_rating E now cu ratingId (req_body req) s"
| "handler E now cu (RatingsDelete ratingId) req s = delete_rating E cu ratingId s"
| "handler E now cu RatingsStats req s = get_ratings_stats s"
| "handler E now cu _ req s = (not_found, s)"

text \<open>The handler of a route without authentication.\<close>

fun public_handler :: "env \<Rightarrow> nat \<Rightarrow> endpoint \<Rightarrow> request \<Rightarrow> db \<Rightarrow> response \<times> db" where
  "public_handler E now AuthRegister req s = post_register E now (req_body req) s"
| "public_handler E now AuthLogin req s = post_login E now (req_body req) s"
| "public_handler E now _ req s = (not_found, s)"

text \<open>
  One request at time \<open>now\<close>: the middleware of the route in the order of the source
  (\<open>authenticateToken\<close>, \<open>authorize\<close>, validation), then the handler.
\<close>

definition handle :: "env \<Rightarrow> nat \<Rightarrow> request \<Rightarrow> db \<Rightarrow> response \<times> db" where
  "handle E now req s =
     (let ep = req_endpoint req
      in if needs_auth ep
         then (case authenticateToken now req s of
                 Inl r \<Rightarrow> (r, s)
               | Inr cu \<Rightarrow>
                   (case Option.bind (allowed_roles ep) (\<lambda>roles. authorize roles cu) of
                      Some r \<Rightarrow> (r, s)
                    | None \<Rightarrow>
                        (case run_validators E ep req of
                           (errs, req') \<Rightarrow>
                             if errs \<noteq> [] then (validation_response errs, s)
                             else handler E now cu ep req' s)))
         else (case run_validators E ep req of
                 (errs, req') \<Rightarrow>
                   if errs \<noteq> [] then (validation_response errs, s)
                   else public_handler E now ep req' s))"


section \<open>The seed script and the reachable states\<close>

text \<open>
  \<open>seedData\<close> runs inside one \<open>try\<close>: the first \<open>save()\<close> that throws ends the script and
  leaves what was written before it.
\<close>

definition seed_try :: "save_error + 'a \<Rightarrow> db \<Rightarrow> ('a \<Rightarrow> db) \<Rightarrow> db" where
  "seed_try r s k = (case r of Inl e \<Rightarrow> s | Inr x \<Rightarrow> k x)"

definition seed_user :: "env \<Rightarrow> nat \<Rightarrow> string \<Rightarrow> string \<Rightarrow> string \<Rightarrow> string \<Rightarrow> string \<Rightarrow> db
    \<Rightarrow> save_error + (oid \<times> user \<times> db)" where
  "seed_user E now name email password address r s =
     user_save_new E now (JStr name) (JStr email) (JStr password) (JStr address) (JStr r) s"

definition seed_store :: "env \<Rightarrow> nat \<Rightarrow> string \<Rightarrow> string \<Rightarrow> string \<Rightarrow> oid \<Rightarrow> db
    \<Rightarrow> save_error + (oid \<times> store \<times> db)" where
  "seed_store E now name email address ownerId s =
     store_save_new E now (JStr name) (JStr email) (JStr address) ownerId s"

definition seed_rating :: "env \<Rightarrow> nat \<Rightarrow> oid \<Rightarrow> oid \<Rightarrow> rat \<Rightarrow> string \<Rightarrow> db
    \<Rightarrow> save_error + (oid \<times> rating \<times> db)" where
  "seed_rating E now userId storeId r comment s =
     rating_save_new now userId storeId (castNumber (JNum r)) (set_comment E (JStr comment)) s"

definition seed_updateRating :: "nat \<Rightarrow> oid \<Rightarrow> store \<Rightarrow> db \<Rightarrow> save_error + db" where
  "seed_updateRating now sid st s =
     (case updateRating now sid st s of None \<Rightarrow> Inl (ValidationError [''averageRating'']) | Some s' \<Rightarrow> Inr s')"

definition seedData :: "env \<Rightarrow> nat \<Rightarrow> db \<Rightarrow> db" where
  "seedData E now s =
    (let s0 = s\<lparr>users := [], stores := [], ratings := []\<rparr> in
     seed_try (seed_user E now ''System Administrator'' ''admin@example.com'' ''Admin123!''
                 ''123 Admin Street, Admin City, AC 12345'' ''admin'' s0) s0 (\<lambda>(admin, adminDoc, s1).
     seed_try (seed_user E now ''John Store Owner Smith'' ''owner@example.com'' ''Owner123!''
                 ''456 Store Owner Ave, Business District, BD 67890'' ''storeOwner'' s1) s1 (\<lambda>(storeOwner1, owner1Doc, s2).
     seed_try (seed_user E now ''Jane Store Manager Jones'' ''jane.owner@example.com'' ''Owner123!''
                 ''789 Commerce Blvd, Trade Center, TC 11111'' ''storeOwner'' s2) s2 (\<lambda>(storeOwner2, owner2Doc, s3).
     seed_try (seed_user E now ''Alice Regular Customer'' ''user@example.com'' ''User123!''
                 ''321 User Lane, Customer City, CC 22222'' ''user'' s3) s3 (\<lambda>(user1, user1Doc, s4).
     seed_try (seed_user E now ''Bob Shopping Expert'' ''bob.user@example.com'' ''User123!''
                 ''654 Shopping Mall Rd, Retail Town, RT 33333'' ''user'' s4) s4 (\<lambda>(user2, user2Doc, s5).
     seed_try (seed_user E now ''Carol Review Writer'' ''carol.user@example.com'' ''User123!''
                 ''987 Review Street, Opinion City, OC 44444'' ''user'' s5) s5 (\<lambda>(user3, user3Doc, s6).
     seed_try (seed_store E now ''Tech Electronics Superstore'' ''contact@techelectronics.com''
                 ''100 Technology Drive, Silicon Valley, SV 55555'' storeOwner1 s6) s6 (\<lambda>(store1, store1Doc, s7).
     seed_try (seed_store E now ''Fashion Forward Boutique'' ''hello@fashionforward.com''
                 ''200 Style Avenue, Fashion District, FD 66666'' storeOwner2 s7) s7 (\<lambda>(store2, store2Doc, s8).
     seed_try (user_save_existing E now storeOwner1 owner1Doc (owner1Doc\<lparr>u_storeId := Some store1\<rparr>) True s8) s8
       (\<lambda>(owner1Doc', s9).
     seed_try (user_save_existing E now storeOwner2 owner2Doc (owner2Doc\<lparr>u_storeId := Some store2\<rparr>) True s9) s9
       (\<lambda>(owner2Doc', s10).
     seed_try (seed_rating E now user1 store1 5
                 ''Amazing selection of electronics! Great customer service and competitive prices.'' s10) s10
       (\<lambda>(rating1, rating1Doc, s11).
     seed_try (seed_rating E now user2 store1 4
                 ''Good store with quality products. Could improve checkout speed.'' s11) s11
       (\<lambda>(rating2, rating2Doc, s12).
     seed_try (seed_rating E now user3 store2 5
                 ''Love their fashion collection! Always up-to-date with latest trends.'' s12) s12
       (\<lambda>(rating3, rating3Doc, s13).
     seed_try (seed_rating E now user1 store2 3
                 ''Decent fashion store but prices are a bit high for the quality.'' s13) s13
       (\<lambda>(rating4, rating4Doc, s14).
     seed_try (seed_updateRating now store1 store1Doc s14) s14 (\<lambda>s15.
     seed_try (seed_updateRating now store2 store2Doc s15) s15 (\<lambda>s16. s16)))))))))))))))))"

text \<open>
  The database starts empty; the seed script may run, and requests are served one after the
  other, each at some time \<open>now\<close>.
\<close>

inductive reachable :: "env \<Rightarrow> db \<Rightarrow> bool" for E :: env where
  reachable_empty: "reachable E empty_db"
| reachable_seed: "reachable E s \<Longrightarrow> reachable E (seedData E now s)"
| reachable_request: "reachable E s \<Longrightarrow> reachable E (snd (handle E now req s))"

section \<open>Properties of the stored documents\<close>

definition mean :: "rat list \<Rightarrow> rat" where
  "mean rs = sum_list rs / of_nat (length rs)"

definition comment_length :: "string option \<Rightarrow> nat" where
  "comment_length c = (case c of None \<Rightarrow> 0 | Some t \<Rightarrow> length t)"

definition ratings_ok :: "db \<Rightarrow> bool" where
  "ratings_ok s = list_all (\<lambda>(i, r). is_integer (r_rating r) \<and> 1 \<le> r_rating r \<and> r_rating r \<le> 5
                                      \<and> comment_length (r_comment r) \<le> 500) (ratings s)"

definition stores_ok :: "db \<Rightarrow> bool" where
  "stores_ok s = list_all (\<lambda>(i, st). 0 \<le> s_averageRating st \<and> s_averageRating st \<le> 5
                                      \<and> 0 \<le> s_totalRatings st) (stores s)"

definition one_rating_per_pair :: "db \<Rightarrow> bool" where
  "one_rating_per_pair s = distinct (map (\<lambda>(i, r). (r_userId r, r_storeId r)) (ratings s))"


text \<open>Every rating has its own \<open>_id\<close>, older than the next one the generator gives.\<close>

definition rating_ids_ok :: "db \<Rightarrow> bool" where
  "rating_ids_ok s = (distinct (map fst (ratings s)) \<and> list_all (\<lambda>(i, r). i < next_id s) (ratings s))"

definition db_invariant :: "db \<Rightarrow> bool" where
  "db_invariant s = (ratings_ok s \<and> stores_ok s \<and> one_rating_per_pair s \<and> rating_ids_ok s)"

definition rating_doc_ok :: "rating \<Rightarrow> bool" where
  "rating_doc_ok r = (is_integer (r_rating r) \<and> 1 \<le> r_rating r \<and> r_rating r \<le> 5
                      \<and> comment_length (r_comment r) \<le> 500)"

definition store_doc_ok :: "store \<Rightarrow> bool" where
  "store_doc_ok st = (0 \<le> s_averageRating st \<and> s_averageRating st \<le> 5 \<and> 0 \<le> s_totalRatings st)"

text \<open>The mean rounded to one decimal, 0 for no rating.\<close>

definition rounded_mean :: "rat list \<Rightarrow> rat" where
  "rounded_mean rs = (if rs = [] then 0 else of_int (math_round (mean rs * 10)) / 10)"


section \<open>A concrete library and database\<close>

text \<open>
  An instance of the library parameters: ObjectIds are the 24 hexadecimal digits of a
  number, a hash is the password behind a \<open>$2a$\<close> prefix, every search pattern matches.
\<close>

definition hex_val :: "char \<Rightarrow> nat option" where
  "hex_val c = (let n = (of_char c :: nat) in
     if 48 \<le> n \<and> n \<le> 57 then Some (n - 48)
     else if 97 \<le> n \<and> n \<le> 102 then Some (n - 87)
     else if 65 \<le> n \<and> n \<le> 70 then Some (n - 55) else None)"

definition hex_oid :: "string \<Rightarrow> oid option" where
  "hex_oid t = (if length t = 24 \<and> list_all (\<lambda>c. hex_val c \<noteq> None) t
                then Some (foldl (\<lambda>a c. 16 * a + (case hex_val c of Some v \<Rightarrow> v | None \<Rightarrow> 0)) 0 t)
                else None)"

definition demo_env :: env where
  "demo_env = \<lparr>numToString = (\<lambda>q. ''0''), toLowerCase = (\<lambda>t. t), isEmail = (\<lambda>t. CHR ''@'' \<in> set t),
     normalizeEmail = (\<lambda>t. t), emailMatch = (\<lambda>t. CHR ''@'' \<in> set t),
     isMongoId = (\<lambda>t. hex_oid t \<noteq> None), castObjectId = hex_oid,
     bcryptHash = (\<lambda>p. ''$2a$'' @ p), bcryptCompare = (\<lambda>p h. h = ''$2a$'' @ p),
     regexTest = (\<lambda>pat t. True)\<rparr>"

text \<open>The first normal user of the seed script, as stored.\<close>

definition alice :: user where
  "alice = \<lparr>u_name = ''Alice Regular Customer'', u_email = ''user@example.com'',
            u_password = ''$2a$User123!'', u_address = ''321 User Lane, Customer City, CC 22222'',
            u_role = NormalUser, u_storeId = None, u_isActive = True, u_createdAt = 1000,
            u_updatedAt = 1000\<rparr>"

text \<open>The database that the seed script leaves when it runs at time 1000 on the empty database.\<close>

definition seeded_db :: db where
  "seeded_db = \<lparr>users =
    [(0, \<lparr>u_name = ''System Administrator'', u_email = ''admin@example.com'',
            u_password = ''$2a$Admin123!'', u_address = ''123 Admin Street, Admin City, AC 12345'',
            u_role = Admin, u_storeId = None, u_isActive = True, u_createdAt = 1000,
            u_updatedAt = 1000\<rparr>),
     (1, \<lparr>u_name = ''John Store Owner Smith'', u_email = ''owner@example.com'',
            u_password = ''$2a$Owner123!'',
            u_address = ''456 Store Owner Ave, Business District, BD 67890'', u_role = StoreOwner,
            u_storeId = Some 6, u_isActive = True, u_createdAt = 1000, u_updatedAt = 1000\<rparr>),
     (2, \<lparr>u_name = ''Jane Store Manager Jones'', u_email = ''jane.owner@example.com'',
            u_password = ''$2a$Owner123!'',
            u_address = ''789 Commerce Blvd, Trade Center, TC 11111'', u_role = StoreOwner,
            u_storeId = Some 7, u_isActive = True, u_createdAt = 1000, u_updatedAt = 1000\<rparr>),
     (3, alice),
     (4, \<lparr>u_name = ''Bob Shopping Expert'', u_email = ''bob.user@example.com'',
            u_password = ''$2a$User123!'',
            u_address = ''654 Shopping Mall Rd, Retail Town, RT 33333'', u_role = NormalUser,
            u_storeId = None, u_isActive = True, u_createdAt = 1000, u_updatedAt = 1000\<rparr>),
     (5, \<lparr>u_name = ''Carol Review Writer'', u_email = ''carol.user@example.com'',
            u_password = ''$2a$User123!'',
            u_address = ''987 Review Street, Opinion City, OC 44444'', u_role = NormalUser,
            u_storeId = None, u_isActive = True, u_createdAt = 1000, u_updatedAt = 1000\<rparr>)],
    stores =
      [(6, \<lparr>s_name = ''Tech Electronics Superstore'', s_email = ''contact@techelectronics.com'',
              s_address = ''100 Technology Drive, Silicon Valley, SV 55555'', s_ownerId = 1,
              s_averageRating = 9 / 2, s_totalRatings = 2, s_isActive = True, s_createdAt = 1000,
              s_updatedAt = 1000\<rparr>),
       (7, \<lparr>s_name = ''Fashion Forward Boutique'', s_email = ''hello@fashionforward.com'',
              s_address = ''200 Style Avenue, Fashion District, FD 66666'', s_ownerId = 2,
              s_averageRating = 4, s_totalRatings = 2, s_isActive = True, s_createdAt = 1000,
              s_updatedAt = 1000\<rparr>)],
    ratings =
      [(8, \<lparr>r_userId = 3, r_storeId = 6, r_rating = 5,
              r_comment = Some ''Amazing selection of electronics! Great customer service and competitive prices.'',
              r_createdAt = 1000, r_updatedAt = 1000\<rparr>),
       (9, \<lparr>r_userId = 4, r_storeId = 6, r_rating = 4,
              r_comment = Some ''Good store with quality products. Could improve checkout speed.'',
              r_createdAt = 1000, r_updatedAt = 1000\<rparr>),
       (10, \<lparr>r_userId = 5, r_storeId = 7, r_rating = 5,
              r_comment = Some ''Love their fashion collection! Always up-to-date with latest trends.'',
              r_createdAt = 1000, r_updatedAt = 1000\<rparr>),
       (11, \<lparr>r_userId = 3, r_storeId = 7, r_rating = 3,
              r_comment = Some ''Decent fashion store but prices are a bit high for the quality.'',
              r_createdAt = 1000, r_updatedAt = 1000\<rparr>)],
    next_id = 12\<rparr>"

text \<open>A request with a JSON body and no query parameter.\<close>

definition mkreq :: "endpoint \<Rightarrow> token option \<Rightarrow> (string \<times> jsval) list \<Rightarrow> request" where
  "mkreq ep t b = \<lparr>req_endpoint = ep, req_token = t,
     req_body = (\<lambda>k. case map_of b k of None \<Rightarrow> JUndefined | Some v \<Rightarrow> v),
     req_query = (\<lambda>k. None)\<rparr>"

section \<open>Notions used by the claims\<close>

text \<open>The request passes the middleware that runs before the validators of its route.\<close>

definition reaches_validation :: "nat \<Rightarrow> request \<Rightarrow> db \<Rightarrow> bool" where
  "reaches_validation now req s =
     (if needs_auth (req_endpoint req)
      then (case authenticateToken now req s of
              Inl r \<Rightarrow> False
            | Inr cu \<Rightarrow> Option.bind (allowed_roles (req_endpoint req)) (\<lambda>roles. authorize roles cu) = None)
      else True)"

text \<open>The user of a token is gone or soft-deleted.\<close>

definition inactive_or_missing :: "db \<Rightarrow> oid \<Rightarrow> bool" where
  "inactive_or_missing s uid = (case findById (users s) uid of None \<Rightarrow> True | Some u \<Rightarrow> \<not> u_isActive u)"

text \<open>A request under a token of the user \<open>uid\<close> that \<open>jwt.verify\<close> accepts at the time of the request.\<close>

definition bears_token_of :: "oid \<Rightarrow> nat \<times> request \<Rightarrow> bool" where
  "bears_token_of uid x =
     (needs_auth (req_endpoint (snd x))
      \<and> (case req_token (snd x) of None \<Rightarrow> False | Some t \<Rightarrow> jwt_verify (fst x) t = Decoded uid))"

text \<open>Requests served one after the other, each at its time.\<close>

fun serve :: "env \<Rightarrow> (nat \<times> request) list \<Rightarrow> db \<Rightarrow> response list \<times> db" where
  "serve E [] s = ([], s)"
| "serve E (x # rest) s =
     (fst (handle E (fst x) (snd x) s) # fst (serve E rest (snd (handle E (fst x) (snd x) s))),
      snd (serve E rest (snd (handle E (fst x) (snd x) s))))"

text \<open>Tokens of three seeded users, valid until second 100, and a comment of 501 characters.\<close>

definition admin_token :: token where
  "admin_token = Token True 100 0 Admin"

definition alice_token :: token where
  "alice_token = Token True 100 3 NormalUser"

definition carol_token :: token where
  "carol_token = Token True 100 5 NormalUser"

definition long_comment :: string where
  "long_comment = replicate 501 CHR ''a''"

subsection \<open>Passwords in responses\<close>

text \<open>A key occurs somewhere in a JSON value.\<close>

primrec has_key :: "string \<Rightarrow> json \<Rightarrow> bool" where
  "has_key k JsNull = False"
| "has_key k (JsBool b) = False"
| "has_key k (JsNum n) = False"
| "has_key k (JsStr t) = False"
| "has_key k (JsArr xs) = list_ex (\<lambda>b. b) (map (has_key k) xs)"
| "has_key k (JsObj kvs) = list_ex (\<lambda>(k', b). k' = k \<or> b) (map (map_prod (\<lambda>k'. k') (has_key k)) kvs)"

text \<open>The same database with other stored password hashes, the same request with another password.\<close>

definition set_passwords :: "(oid \<Rightarrow> user \<Rightarrow> string) \<Rightarrow> db \<Rightarrow> db" where
  "set_passwords f s = s\<lparr>users := map (\<lambda>(i, u). (i, u\<lparr>u_password := f i u\<rparr>)) (users s)\<rparr>"

definition with_password :: "jsval \<Rightarrow> request \<Rightarrow> request" where
  "with_password v req = req\<lparr>req_body := (req_body req)(''password'' := v)\<rparr>"

text \<open>Registration, login, profile, token verification, the admin's list of users and view of a user.\<close>

fun returns_user :: "endpoint \<Rightarrow> bool" where
  "returns_user AuthRegister = True"
| "returns_user AuthLogin = True"
| "returns_user AuthProfile = True"
| "returns_user AuthVerify = True"
| "returns_user UsersList = True"
| "returns_user (UsersGet userId) = True"
| "returns_user _ = False"

text \<open>A JSON value that is neither an array nor an object.\<close>

definition atomic :: "json \<Rightarrow> bool" where
  "atomic v = (case v of JsArr xs \<Rightarrow> False | JsObj kvs \<Rightarrow> False | _ \<Rightarrow> True)"

text \<open>No value of an object holds the key.\<close>

definition clean :: "string \<Rightarrow> (string \<times> json) list \<Rightarrow> bool" where
  "clean k obj = (\<forall>(k', v) \<in> set obj. \<not> has_key k v)"


section \<open>Lemmas about collections and rounding\<close>

lemma findById_mem: "findById c i = Some d \<Longrightarrow> (i, d) \<in> set c"
  by (simp add: findById_def map_of_SomeD)

lemma findOne_SomeD: "findOne p c = Some (i, d) \<Longrightarrow> (i, d) \<in> set c \<and> p i d"
  unfolding findOne_def by (induction c) (auto split: if_splits)

lemma findOne_None_iff: "findOne p c = None \<longleftrightarrow> (\<forall>(i, d) \<in> set c. \<not> p i d)"
  unfolding findOne_def by (induction c) auto

lemma findById_updateById: "findById c i = Some x \<Longrightarrow> findById (updateById i d c) i = Some d"
  unfolding findById_def updateById_def by (induction c) (auto split: if_splits)

lemma findById_updateById_other: "j \<noteq> i \<Longrightarrow> findById (updateById i d c) j = findById c j"
  unfolding findById_def updateById_def by (induction c) auto

lemma set_updateById: "(j, x) \<in> set (updateById i d c) \<Longrightarrow> (j, x) \<in> set c \<or> (j = i \<and> x = d)"
  unfolding updateById_def by (auto split: if_splits)

lemma map_fst_updateById: "map fst (updateById i d c) = map fst c"
  unfolding updateById_def by (induction c) auto

lemma sum_list_bounds:
  fixes rs :: "rat list"
  assumes "\<forall>x \<in> set rs. lo \<le> x \<and> x \<le> hi"
  shows "lo * of_nat (length rs) \<le> sum_list rs \<and> sum_list rs \<le> hi * of_nat (length rs)"
  using assms by (induction rs) (auto simp: algebra_simps add_mono)

lemma mean_bounds:
  assumes "rs \<noteq> []" and "\<forall>x \<in> set rs. 1 \<le> x \<and> x \<le> (5::rat)"
  shows "1 \<le> mean rs \<and> mean rs \<le> 5"
proof -
  have n: "(0::rat) < of_nat (length rs)" using assms(1) by simp
  from sum_list_bounds[OF assms(2)] show ?thesis
    unfolding mean_def using n by (simp add: pos_le_divide_eq pos_divide_le_eq)
qed

lemma round_bounds:
  assumes "1 \<le> a" and "a \<le> (5::rat)"
  shows "0 \<le> (of_int (math_round (a * 10)) / 10 :: rat) \<and> (of_int (math_round (a * 10)) / 10 :: rat) \<le> 5"
proof -
  have "10 \<le> math_round (a * 10)" unfolding math_round_def using assms by (simp add: le_floor_iff)
  moreover have "math_round (a * 10) \<le> 50" unfolding math_round_def using assms by (simp add: floor_le_iff)
  ultimately show ?thesis by simp
qed

lemma round_close:
  "\<bar>(of_int (math_round (a * 10)) / 10 :: rat) - a\<bar> \<le> 1 / 20"
proof -
  have 1: "of_int (math_round (a * 10)) \<le> a * 10 + 1 / 2" unfolding math_round_def by simp
  have 2: "a * 10 + 1 / 2 < of_int (math_round (a * 10)) + 1" unfolding math_round_def by linarith
  have "of_int (math_round (a * 10)) / 10 - a \<le> 1 / 20" using 1 by (simp add: field_simps)
  moreover have "a - of_int (math_round (a * 10)) / 10 \<le> 1 / 20" using 2 by (simp add: field_simps)
  ultimately show ?thesis unfolding abs_le_iff by linarith
qed


lemma ratings_ok_iff: "ratings_ok s \<longleftrightarrow> (\<forall>(i, r) \<in> set (ratings s). rating_doc_ok r)"
  unfolding ratings_ok_def rating_doc_ok_def list_all_iff by auto

lemma stores_ok_iff: "stores_ok s \<longleftrightarrow> (\<forall>(i, st) \<in> set (stores s). store_doc_ok st)"
  unfolding stores_ok_def store_doc_ok_def list_all_iff by auto

lemma valid_comment_length: "valid_comment c \<longleftrightarrow> comment_length c \<le> 500"
  unfolding valid_comment_def comment_length_def by (cases c) auto

lemma store_ratings_bounds:
  "ratings_ok s \<Longrightarrow> \<forall>x \<in> set (store_ratings s sid). 1 \<le> x \<and> x \<le> 5"
  unfolding ratings_ok_iff rating_doc_ok_def store_ratings_def by auto

lemma rounded_mean_bounds:
  assumes "\<forall>x \<in> set rs. 1 \<le> x \<and> x \<le> (5::rat)"
  shows "0 \<le> rounded_mean rs \<and> rounded_mean rs \<le> 5"
proof (cases "rs = []")
  case True
  then show ?thesis by (simp add: rounded_mean_def)
next
  case False
  from mean_bounds[OF False assms] round_bounds[of "mean rs"] False
  show ?thesis by (simp add: rounded_mean_def)
qed

lemma updateRating_eq:
  assumes "ratings_ok s"
  shows "updateRating now sid st s = Some (s\<lparr>stores := updateById sid
           (st\<lparr>s_averageRating := rounded_mean (store_ratings s sid),
               s_totalRatings := int (length (store_ratings s sid)),
               s_updatedAt := now\<rparr>) (stores s)\<rparr>)"
proof -
  from rounded_mean_bounds[OF store_ratings_bounds[OF assms, of sid]]
  have b: "0 \<le> rounded_mean (store_ratings s sid)" "rounded_mean (store_ratings s sid) \<le> 5" by auto
  show ?thesis
  proof (cases "store_ratings s sid = []")
    case True
    then show ?thesis
      by (simp add: updateRating_def aggregate_stats_def rounded_mean_def)
  next
    case False
    with b show ?thesis
      by (simp add: updateRating_def aggregate_stats_def rounded_mean_def mean_def Let_def)
  qed
qed

lemma rating_post_save_eq:
  assumes "ratings_ok s"
  shows "rating_post_save now doc s =
           (case findById (stores s) (r_storeId doc) of None \<Rightarrow> s
            | Some st \<Rightarrow> s\<lparr>stores := updateById (r_storeId doc)
                (st\<lparr>s_averageRating := rounded_mean (store_ratings s (r_storeId doc)),
                    s_totalRatings := int (length (store_ratings s (r_storeId doc))),
                    s_updatedAt := now\<rparr>) (stores s)\<rparr>)"
  unfolding rating_post_save_def using updateRating_eq[OF assms]
  by (simp split: option.splits)


lemma inv_frame:
  assumes "db_invariant s" "ratings s' = ratings s" "stores s' = stores s" "next_id s \<le> next_id s'"
  shows "db_invariant s'"
  using assms unfolding db_invariant_def ratings_ok_def stores_ok_def one_rating_per_pair_def
    rating_ids_ok_def list_all_iff by fastforce

lemma inv_stores:
  assumes "db_invariant s" "ratings s' = ratings s" "next_id s \<le> next_id s'"
    and "\<forall>(i, st) \<in> set (stores s'). (i, st) \<in> set (stores s) \<or> store_doc_ok st"
  shows "db_invariant s'"
  using assms unfolding db_invariant_def ratings_ok_def one_rating_per_pair_def
    rating_ids_ok_def stores_ok_iff list_all_iff by fastforce

lemma user_save_new_frame:
  assumes "user_save_new E now n e p a r s = Inr (uid, u, s')"
  shows "ratings s' = ratings s \<and> stores s' = stores s \<and> next_id s' = Suc (next_id s)
         \<and> users s' = users s @ [(uid, u)]"
  using assms unfolding user_save_new_def Let_def by (auto split: if_splits)

lemma user_save_existing_frame:
  assumes "user_save_existing E now uid old new ok s = Inr (u, s')"
  shows "ratings s' = ratings s \<and> stores s' = stores s \<and> next_id s' = next_id s
         \<and> users s' = updateById uid u (users s)"
  using assms unfolding user_save_existing_def Let_def by (auto split: if_splits)

lemma store_save_new_frame:
  assumes "store_save_new E now n e a owner s = Inr (sid, st, s')"
  shows "ratings s' = ratings s \<and> users s' = users s \<and> next_id s' = Suc (next_id s)
         \<and> stores s' = stores s @ [(sid, st)] \<and> s_averageRating st = 0 \<and> s_totalRatings st = 0"
  using assms unfolding store_save_new_def Let_def by (auto split: if_splits)

lemma store_save_existing_frame:
  assumes "store_save_existing E now sid old new s = Inr (st, s')"
  shows "ratings s' = ratings s \<and> users s' = users s \<and> next_id s' = next_id s
         \<and> stores s' = updateById sid st (stores s) \<and> st = new\<lparr>s_updatedAt := now\<rparr>"
  using assms unfolding store_save_existing_def Let_def by (auto split: if_splits)

lemma inv_user_save_new:
  "user_save_new E now n e p a r s = Inr (uid, u, s') \<Longrightarrow> db_invariant s \<Longrightarrow> db_invariant s'"
  using user_save_new_frame inv_frame by (metis le_SucI order_refl)

lemma inv_user_save_existing:
  "user_save_existing E now uid old new ok s = Inr (u, s') \<Longrightarrow> db_invariant s \<Longrightarrow> db_invariant s'"
  using user_save_existing_frame inv_frame by (metis order_refl)

lemma inv_store_save_new:
  assumes "store_save_new E now n e a owner s = Inr (sid, st, s')" "db_invariant s"
  shows "db_invariant s'"
proof (rule inv_stores[OF assms(2)])
  from store_save_new_frame[OF assms(1)]
  show "ratings s' = ratings s" "next_id s \<le> next_id s'"
    "\<forall>(i, st) \<in> set (stores s'). (i, st) \<in> set (stores s) \<or> store_doc_ok st"
    by (auto simp: store_doc_ok_def)
qed

lemma inv_store_save_existing:
  assumes "store_save_existing E now sid old new s = Inr (st, s')" "db_invariant s"
    and "store_doc_ok new"
  shows "db_invariant s'"
proof (rule inv_stores[OF assms(2)])
  from store_save_existing_frame[OF assms(1)] assms(3)
  show "ratings s' = ratings s" "next_id s \<le> next_id s'"
    "\<forall>(i, st) \<in> set (stores s'). (i, st) \<in> set (stores s) \<or> store_doc_ok st"
    by (auto simp: store_doc_ok_def dest!: set_updateById)
qed

lemma inv_rating_post_save:
  assumes "db_invariant s"
  shows "db_invariant (rating_post_save now doc s)"
proof -
  have ok: "ratings_ok s" using assms by (simp add: db_invariant_def)
  show ?thesis
  proof (cases "findById (stores s) (r_storeId doc)")
    case None
    then show ?thesis using assms by (simp add: rating_post_save_eq[OF ok])
  next
    case (Some st)
    from rounded_mean_bounds[OF store_ratings_bounds[OF ok, of "r_storeId doc"]]
    have "store_doc_ok (st\<lparr>s_averageRating := rounded_mean (store_ratings s (r_storeId doc)),
                    s_totalRatings := int (length (store_ratings s (r_storeId doc))),
                    s_updatedAt := now\<rparr>)"
      by (simp add: store_doc_ok_def)
    then show ?thesis
      unfolding rating_post_save_eq[OF ok] Some
      by (intro inv_stores[OF assms]) (auto dest!: set_updateById)
  qed
qed

lemma rating_post_save_frame:
  "ratings (rating_post_save now doc s) = ratings s \<and> users (rating_post_save now doc s) = users s
   \<and> next_id (rating_post_save now doc s) = next_id s"
  unfolding rating_post_save_def updateRating_def
  by (auto split: option.splits prod.splits if_splits simp: Let_def)


lemma rating_save_existing_Inr:
  assumes "rating_save_existing now rid old new ok s = Inr (doc, s')"
  shows "doc = new\<lparr>r_updatedAt := now\<rparr>
         \<and> s' = rating_post_save now doc (s\<lparr>ratings := updateById rid doc (ratings s)\<rparr>)
         \<and> ok \<and> (r_rating new \<noteq> r_rating old \<longrightarrow> valid_rating_value (r_rating new))
         \<and> (r_comment new \<noteq> r_comment old \<longrightarrow> valid_comment (r_comment new))"
  using assms unfolding rating_save_existing_def Let_def by (auto split: if_splits)

lemma rating_save_new_Inr:
  assumes "rating_save_new now uid sid rv c s = Inr (rid, doc, s')"
  shows "\<exists>q. rv = Some q \<and> valid_rating_value q \<and> valid_comment c
         \<and> findOne (\<lambda>i r. r_userId r = uid \<and> r_storeId r = sid) (ratings s) = None
         \<and> rid = next_id s
         \<and> doc = \<lparr>r_userId = uid, r_storeId = sid, r_rating = q, r_comment = c,
                   r_createdAt = now, r_updatedAt = now\<rparr>
         \<and> s' = rating_post_save now doc (s\<lparr>ratings := ratings s @ [(rid, doc)], next_id := Suc rid\<rparr>)"
  using assms unfolding rating_save_new_def Let_def
  by (cases rv; cases "findOne (\<lambda>i r. r_userId r = uid \<and> r_storeId r = sid) (ratings s)")
     (auto split: if_splits)

lemma distinct_ids_unique:
  "distinct (map fst c) \<Longrightarrow> (i, x) \<in> set c \<Longrightarrow> (i, y) \<in> set c \<Longrightarrow> x = y"
  by (meson eq_key_imp_eq_value)

lemma map_updateById_same:
  assumes "distinct (map fst c)" "(i, old) \<in> set c" "f (i, d) = f (i, old)"
  shows "map f (updateById i d c) = map f c"
proof -
  have "\<And>j x. (j, x) \<in> set c \<Longrightarrow> f (if j = i then (j, d) else (j, x)) = f (j, x)"
    using distinct_ids_unique[OF assms(1) _ assms(2)] assms(3) by auto
  then show ?thesis unfolding updateById_def by (auto simp: map_idI)
qed

lemma inv_update_rating:
  assumes inv: "db_invariant s" and old: "findById (ratings s) rid = Some old"
    and key: "r_userId doc = r_userId old" "r_storeId doc = r_storeId old"
    and ok: "rating_doc_ok doc"
  shows "db_invariant (s\<lparr>ratings := updateById rid doc (ratings s)\<rparr>)"
proof -
  have d: "distinct (map fst (ratings s))" using inv by (simp add: db_invariant_def rating_ids_ok_def)
  have m: "(rid, old) \<in> set (ratings s)" using old by (rule findById_mem)
  have pairs: "map (\<lambda>(i, r). (r_userId r, r_storeId r)) (updateById rid doc (ratings s))
                = map (\<lambda>(i, r). (r_userId r, r_storeId r)) (ratings s)"
    by (rule map_updateById_same[OF d m]) (simp add: key)
  show ?thesis
    using inv ok m
    by (auto simp: db_invariant_def one_rating_per_pair_def pairs ratings_ok_iff stores_ok_def
          rating_ids_ok_def list_all_iff map_fst_updateById dest!: set_updateById)
qed

lemma inv_rating_save_existing:
  assumes save: "rating_save_existing now rid old new ok s = Inr (doc, s')"
    and inv: "db_invariant s" and old: "findById (ratings s) rid = Some old"
    and key: "r_userId new = r_userId old" "r_storeId new = r_storeId old"
  shows "db_invariant s'"
proof -
  note f = rating_save_existing_Inr[OF save]
  have "rating_doc_ok old"
    using inv findById_mem[OF old] by (auto simp: db_invariant_def ratings_ok_iff)
  then have "rating_doc_ok doc"
    using f by (auto simp: rating_doc_ok_def valid_rating_value_def valid_comment_length)
  then have "db_invariant (s\<lparr>ratings := updateById rid doc (ratings s)\<rparr>)"
    using f key by (intro inv_update_rating[OF inv old]) auto
  then show ?thesis using f inv_rating_post_save by simp
qed

lemma inv_rating_save_new:
  assumes save: "rating_save_new now uid sid rv c s = Inr (rid, doc, s')" and inv: "db_invariant s"
  shows "db_invariant s'"
proof -
  from rating_save_new_Inr[OF save] obtain q where
    f: "valid_rating_value q" "valid_comment c"
       "findOne (\<lambda>i r. r_userId r = uid \<and> r_storeId r = sid) (ratings s) = None"
       "rid = next_id s"
       "doc = \<lparr>r_userId = uid, r_storeId = sid, r_rating = q, r_comment = c,
                r_createdAt = now, r_updatedAt = now\<rparr>"
       "s' = rating_post_save now doc (s\<lparr>ratings := ratings s @ [(rid, doc)], next_id := Suc rid\<rparr>)"
    by blast
  have fresh: "(uid, sid) \<notin> set (map (\<lambda>(i, r). (r_userId r, r_storeId r)) (ratings s))"
    using f(3) unfolding findOne_None_iff by auto
  have "db_invariant (s\<lparr>ratings := ratings s @ [(rid, doc)], next_id := Suc rid\<rparr>)"
    using inv f(1,2,4,5) fresh
    unfolding db_invariant_def ratings_ok_iff stores_ok_def one_rating_per_pair_def
      rating_ids_ok_def list_all_iff
    by (auto simp: rating_doc_ok_def valid_rating_value_def valid_comment_length)
  then show ?thesis using f(6) inv_rating_post_save by simp
qed

lemma inv_delete_rating:
  assumes "db_invariant s"
  shows "db_invariant (s\<lparr>ratings := deleteById rid (ratings s)\<rparr>)"
  using assms unfolding db_invariant_def ratings_ok_def stores_ok_def one_rating_per_pair_def
    rating_ids_ok_def list_all_iff deleteById_def
  by (auto simp: distinct_map_filter)

section \<open>Every request keeps the invariant\<close>

lemma findById_distinct:
  "distinct (map fst c) \<Longrightarrow> (i, d) \<in> set c \<Longrightarrow> findById c i = Some d"
  by (simp add: findById_def)

lemma inv_post_register: "db_invariant s \<Longrightarrow> db_invariant (snd (post_register E now b s))"
  unfolding post_register_def
  by (auto split: sum.splits save_error.splits dest: inv_user_save_new)

lemma inv_post_users: "db_invariant s \<Longrightarrow> db_invariant (snd (post_users E now b s))"
  unfolding post_users_def
  by (auto split: sum.splits save_error.splits dest: inv_user_save_new)

lemma inv_patch_password: "db_invariant s \<Longrightarrow> db_invariant (snd (patch_password E now cu b s))"
  unfolding patch_password_def
  by (auto split: sum.splits save_error.splits option.splits bool.splits dest: inv_user_save_existing)

lemma inv_put_user: "db_invariant s \<Longrightarrow> db_invariant (snd (put_user E now userId b s))"
  unfolding put_user_def
  by (auto split: sum.splits save_error.splits option.splits dest: inv_user_save_existing)

lemma inv_delete_user: "db_invariant s \<Longrightarrow> db_invariant (snd (delete_user E now userId s))"
  unfolding delete_user_def
  by (auto split: sum.splits option.splits dest: inv_user_save_existing)

lemma inv_create_store:
  "db_invariant s \<Longrightarrow> db_invariant (snd (create_store E now b ownerId owner s))"
  unfolding create_store_def
  by (auto split: sum.splits save_error.splits dest: inv_user_save_existing inv_store_save_new)

lemma inv_post_stores: "db_invariant s \<Longrightarrow> db_invariant (snd (post_stores E now b s))"
  unfolding post_stores_def
  by (auto split: option.splits simp: inv_create_store)

lemma store_in_db_ok: "db_invariant s \<Longrightarrow> findById (stores s) sid = Some st \<Longrightarrow> store_doc_ok st"
  by (auto simp: db_invariant_def stores_ok_iff dest!: findById_mem)

lemma update_store_fields_ok: "store_doc_ok st \<Longrightarrow> store_doc_ok (update_store_fields E b st)"
  by (simp add: store_doc_ok_def update_store_fields_def)

lemma inv_put_store: "db_invariant s \<Longrightarrow> db_invariant (snd (put_store E now storeId b s))"
proof -
  assume inv: "db_invariant s"
  have ok: "db_invariant s'"
    if "store_save_existing E now sid st (update_store_fields E b st) s = Inr (st', s')"
      "findById (stores s) sid = Some st" for sid st st' s'
    using inv_store_save_existing[OF that(1) inv update_store_fields_ok[OF store_in_db_ok[OF inv that(2)]]] .
  show ?thesis using inv unfolding put_store_def
    by (auto split: sum.splits save_error.splits option.splits dest: ok)
qed

lemma inv_clear_storeId: "db_invariant s \<Longrightarrow> db_invariant (clear_storeId uid s)"
  unfolding clear_storeId_def by (auto split: option.splits intro: inv_frame)

lemma inv_delete_store: "db_invariant s \<Longrightarrow> db_invariant (snd (delete_store E now storeId s))"
proof -
  assume inv: "db_invariant s"
  have "db_invariant s1"
    if "store_save_existing E now sid st (st\<lparr>s_isActive := False\<rparr>) s = Inr (st', s1)"
      "findById (stores s) sid = Some st" for sid st st' s1
  proof -
    have "store_doc_ok (st\<lparr>s_isActive := False\<rparr>)"
      using store_in_db_ok[OF inv that(2)] by (simp add: store_doc_ok_def)
    from inv_store_save_existing[OF that(1) inv this] show ?thesis .
  qed
  then have "db_invariant (clear_storeId uid s1)"
    if "store_save_existing E now sid st (st\<lparr>s_isActive := False\<rparr>) s = Inr (st', s1)"
      "findById (stores s) sid = Some st" for sid st st' s1 uid
    using that inv_clear_storeId by blast
  then show ?thesis using inv unfolding delete_store_def
    by (auto split: sum.splits option.splits)
qed


lemma assign_keys [simp]:
  "r_userId (assign_rating v r) = r_userId r" "r_storeId (assign_rating v r) = r_storeId r"
  "r_userId (assign_comment E c r) = r_userId r" "r_storeId (assign_comment E c r) = r_storeId r"
  by (simp_all add: assign_rating_def assign_comment_def)

lemma inv_post_ratings: "db_invariant s \<Longrightarrow> db_invariant (snd (post_ratings E now cu b s))"
proof -
  assume inv: "db_invariant s"
  have d: "distinct (map fst (ratings s))" using inv by (simp add: db_invariant_def rating_ids_ok_def)
  have ex: "db_invariant s'"
    if "rating_save_existing now rid old (assign_comment E c (assign_rating v old)) ok s = Inr (doc, s')"
      "findOne p (ratings s) = Some (rid, old)"
    for p rid old c v ok doc s'
    using inv_rating_save_existing[OF that(1) inv findById_distinct[OF d]] findOne_SomeD[OF that(2)]
    by simp
  have new: "db_invariant s'"
    if "rating_save_new now uid sid rv c s = Inr (rid, doc, s')" for uid sid rv c rid doc s'
    using inv_rating_save_new[OF that inv] .
  show ?thesis using inv unfolding post_ratings_def Let_def
    by (auto split: sum.splits save_error.splits option.splits dest: ex new)
qed

lemma inv_put_rating: "db_invariant s \<Longrightarrow> db_invariant (snd (put_rating E now cu ratingId b s))"
proof -
  assume inv: "db_invariant s"
  have ex: "db_invariant s'"
    if "rating_save_existing now rid old new ok s = Inr (doc, s')"
      "findById (ratings s) rid = Some old"
      "r_userId new = r_userId old" "r_storeId new = r_storeId old"
    for rid old new ok doc s'
    using inv_rating_save_existing[OF that(1) inv that(2)] that(3,4) by simp
  show ?thesis using inv unfolding put_rating_def Let_def
    by (auto split: sum.splits save_error.splits option.splits dest: ex)
qed

lemma inv_delete_rating_handler: "db_invariant s \<Longrightarrow> db_invariant (snd (delete_rating E cu ratingId s))"
  unfolding delete_rating_def Let_def
  by (auto split: option.splits intro: inv_delete_rating)

lemma readonly_handlers:
  "snd (get_profile cu s) = s" "snd (get_verify cu s) = s" "snd (post_logout s) = s"
  "snd (get_users_stats s) = s" "snd (get_users E q s) = s" "snd (get_user E userId s) = s"
  "snd (get_stores E cu q s) = s" "snd (get_store E cu storeId s) = s"
  "snd (get_dashboard E cu storeId s) = s" "snd (get_rating_user_store E cu storeId s) = s"
  "snd (get_store_ratings E cu storeId s) = s" "snd (get_my_ratings cu s) = s"
  "snd (get_ratings_stats s) = s" "snd (post_login E now b s) = s"
  unfolding get_profile_def get_verify_def post_logout_def get_users_stats_def get_users_def
    get_user_def get_stores_def get_store_def get_dashboard_def get_rating_user_store_def
    get_store_ratings_def get_my_ratings_def get_ratings_stats_def post_login_def
  by (simp_all split: option.splits sum.splits bool.splits)

lemma inv_handler: "db_invariant s \<Longrightarrow> db_invariant (snd (handler E now cu ep req s))"
  by (cases ep)
     (simp_all add: readonly_handlers inv_patch_password inv_post_users inv_put_user inv_delete_user
        inv_post_stores inv_put_store inv_delete_store inv_post_ratings inv_put_rating
        inv_delete_rating_handler not_found_def)

lemma inv_public_handler: "db_invariant s \<Longrightarrow> db_invariant (snd (public_handler E now ep req s))"
  by (cases ep) (simp_all add: readonly_handlers inv_post_register)

lemma handle_cases:
  "handle E now req s = (r, s') \<Longrightarrow>
     s' = s \<or> (\<exists>cu req'. s' = snd (handler E now cu (req_endpoint req) req' s))
            \<or> (\<exists>req'. s' = snd (public_handler E now (req_endpoint req) req' s))"
  unfolding handle_def Let_def
  by (auto split: sum.splits option.splits prod.splits if_splits) (metis snd_conv)+

lemma inv_handle: "db_invariant s \<Longrightarrow> db_invariant (snd (handle E now req s))"
  using handle_cases[of E now req s "fst (handle E now req s)" "snd (handle E now req s)"]
  by (auto simp: inv_handler inv_public_handler)

lemma seed_step_user:
  assumes "db_invariant s" and "\<And>uid u s'. db_invariant s' \<Longrightarrow> db_invariant (k (uid, u, s'))"
  shows "db_invariant (seed_try (seed_user E now n e p a r s) s k)"
  using assms unfolding seed_try_def seed_user_def
  by (auto split: sum.splits dest: inv_user_save_new)

lemma seed_step_store:
  assumes "db_invariant s" and "\<And>sid st s'. db_invariant s' \<Longrightarrow> db_invariant (k (sid, st, s'))"
  shows "db_invariant (seed_try (seed_store E now n e a owner s) s k)"
  using assms unfolding seed_try_def seed_store_def
  by (auto split: sum.splits dest: inv_store_save_new)

lemma seed_step_owner:
  assumes "db_invariant s" and "\<And>u s'. db_invariant s' \<Longrightarrow> db_invariant (k (u, s'))"
  shows "db_invariant (seed_try (user_save_existing E now uid old new ok s) s k)"
  using assms unfolding seed_try_def
  by (auto split: sum.splits dest: inv_user_save_existing)

lemma seed_step_rating:
  assumes "db_invariant s" and "\<And>rid r s'. db_invariant s' \<Longrightarrow> db_invariant (k (rid, r, s'))"
  shows "db_invariant (seed_try (seed_rating E now uid sid v c s) s k)"
  using assms unfolding seed_try_def seed_rating_def
  by (auto split: sum.splits dest: inv_rating_save_new)

lemma inv_updateRating:
  assumes "db_invariant s" "updateRating now sid st s = Some s'"
  shows "db_invariant s'"
proof -
  have ok: "ratings_ok s" using assms(1) by (simp add: db_invariant_def)
  from rounded_mean_bounds[OF store_ratings_bounds[OF ok, of sid]]
  have "store_doc_ok (st\<lparr>s_averageRating := rounded_mean (store_ratings s sid),
                    s_totalRatings := int (length (store_ratings s sid)),
                    s_updatedAt := now\<rparr>)"
    by (simp add: store_doc_ok_def)
  then show ?thesis
    using assms(2) unfolding updateRating_eq[OF ok]
    by (intro inv_stores[OF assms(1)]) (auto dest!: set_updateById)
qed

lemma seed_step_update:
  assumes "db_invariant s" and "\<And>s'. db_invariant s' \<Longrightarrow> db_invariant (k s')"
  shows "db_invariant (seed_try (seed_updateRating now sid st s) s k)"
  using assms unfolding seed_try_def seed_updateRating_def
  by (auto split: sum.splits option.splits dest: inv_updateRating)

lemma inv_cleared: "db_invariant (s\<lparr>users := [], stores := [], ratings := []\<rparr>)"
  by (simp add: db_invariant_def ratings_ok_def stores_ok_def one_rating_per_pair_def rating_ids_ok_def)

lemma inv_seedData: "db_invariant (seedData E now s)"
  unfolding seedData_def Let_def
  by (rule seed_step_user seed_step_store seed_step_owner seed_step_rating seed_step_update
        inv_cleared | simp only: prod.case | assumption)+

lemma inv_empty: "db_invariant empty_db"
  by (simp add: empty_db_def db_invariant_def ratings_ok_def stores_ok_def one_rating_per_pair_def
        rating_ids_ok_def)

lemma reachable_invariant: "reachable E s \<Longrightarrow> db_invariant s"
  by (induction rule: reachable.induct) (simp_all add: inv_empty inv_seedData inv_handle)

section \<open>Evaluation on the concrete database\<close>

lemma floor_numeral_div: "\<lfloor>(numeral a / numeral b :: rat)\<rfloor> = numeral a div numeral b"
  using floor_divide_of_int_eq[of "numeral a" "numeral b", where 'a = rat] by simp

lemmas eval_defs =
  demo_env_def hex_oid_def hex_val_def seeded_db_def alice_def mkreq_def empty_db_def
  findById_def findOne_def updateById_def deleteById_def
  truthy_def is_integer_def math_round_def js_toString_def castString_def is_space_def trim_def
  is_digit_def strip_sign_def int_pattern_def parse_int_def isInt_def castNumber_def castObjectIdV_def
  is_upper_def is_special_def password_regex_def role_name_def role_of_string_def
  valid_rating_value_def valid_comment_def set_comment_def store_ratings_def aggregate_stats_def
  updateRating_def rating_post_save_def rating_save_existing_def rating_save_new_def
  str_of_def schema_password_ok_def valid_name_def valid_email_def valid_address_def invalid_if_def
  user_save_new_def user_save_existing_def store_save_new_def store_save_existing_def
  seed_try_def seed_user_def seed_store_def seed_rating_def seed_updateRating_def
  floor_numeral_div Let_def

lemma seed_demo: "seedData demo_env 1000 empty_db = seeded_db"
  unfolding seedData_def by (simp add: eval_defs)

lemma reachable_seeded: "reachable demo_env seeded_db"
  using reachable_seed[OF reachable_empty, of demo_env 1000] by (simp add: seed_demo)

section \<open>Responses, middleware and handlers\<close>

lemma status_simps [simp]:
  "status (failure st m e) = st" "status (message st m) = st" "status (server_error m) = 500"
  "status (validation_failed fs) = 400" "status not_found = 404"
  "status (validation_response errs) = 400"
  by (simp_all add: failure_def message_def server_error_def validation_failed_def not_found_def
        validation_response_def)

lemma status_responses [simp]:
  "status (registered_response now uid u) = 201" "status (login_response now uid u) = 200"
  "status (profile_response uid s) = 200" "status (verify_response cu) = 200"
  "status (users_stats_response s) = 200" "status (user_created_response uid u) = 201"
  "status (users_response E q s) = 200" "status (user_response s uid u) = 200"
  "status (user_updated_response uid u) = 200" "status (store_created_response sid st) = 201"
  "status (stores_response E cu q s) = 200" "status (store_response s cu sid st) = 200"
  "status (dashboard_response s sid st) = 200" "status (store_updated_response sid st) = 200"
  "status (rating_response c m rid r stamp t) = c" "status (rating_found_response s x) = 200"
  "status (store_ratings_response s sid) = 200" "status (my_ratings_response uid s) = 200"
  "status (ratings_stats_response s) = 200"
  by (simp_all add: registered_response_def login_response_def profile_response_def verify_response_def
        users_stats_response_def user_created_response_def users_response_def user_response_def
        user_updated_response_def store_created_response_def stores_response_def store_response_def
        dashboard_response_def store_updated_response_def rating_response_def rating_found_response_def
        store_ratings_response_def my_ratings_response_def ratings_stats_response_def Let_def)

lemma authenticateToken_Inl: "authenticateToken now req s = Inl r \<Longrightarrow> status r = 401"
  unfolding authenticateToken_def
  by (auto split: option.splits jwt_result.splits if_splits simp: failure_def)

lemma authenticateToken_Inr:
  "authenticateToken now req s = Inr cu \<Longrightarrow>
     findById (users s) (fst cu) = Some (snd cu) \<and> u_isActive (snd cu)
     \<and> (\<exists>t. req_token req = Some t \<and> jwt_verify now t = Decoded (fst cu))"
  unfolding authenticateToken_def
  by (auto split: option.splits jwt_result.splits if_splits)

lemma authorize_Some: "authorize roles cu = Some r \<Longrightarrow> status r = 403 \<and> u_role (snd cu) \<notin> set roles"
  unfolding authorize_def by (auto split: if_splits)

lemma authorize_None: "authorize roles cu = None \<longleftrightarrow> u_role (snd cu) \<in> set roles"
  unfolding authorize_def by auto

text \<open>A request behind \<open>authenticateToken\<close> that is answered below 400 has reached its handler.\<close>

lemma handle_success:
  assumes "handle E now req s = (r, s')" "status r < 400" "needs_auth (req_endpoint req)"
  shows "\<exists>cu req'. authenticateToken now req s = Inr cu
          \<and> (\<forall>roles. allowed_roles (req_endpoint req) = Some roles \<longrightarrow> u_role (snd cu) \<in> set roles)
          \<and> run_validators E (req_endpoint req) req = ([], req')
          \<and> handler E now cu (req_endpoint req) req' s = (r, s')"
proof -
  from assms obtain cu where cu: "authenticateToken now req s = Inr cu"
    unfolding handle_def Let_def
    by (cases "authenticateToken now req s") (auto dest: authenticateToken_Inl)
  have az: "Option.bind (allowed_roles (req_endpoint req)) (\<lambda>roles. authorize roles cu) = None"
  proof (cases "Option.bind (allowed_roles (req_endpoint req)) (\<lambda>roles. authorize roles cu)")
    case (Some x)
    then have "status x = 403" by (auto simp: bind_eq_Some_conv dest: authorize_Some)
    with assms cu Some show ?thesis unfolding handle_def Let_def by auto
  qed simp
  obtain errs req' where v: "run_validators E (req_endpoint req) req = (errs, req')"
    by (cases "run_validators E (req_endpoint req) req")
  have "errs = []" using assms cu az v unfolding handle_def Let_def by (auto split: if_splits)
  moreover have "handler E now cu (req_endpoint req) req' s = (r, s')"
    using assms cu az v \<open>errs = []\<close> unfolding handle_def Let_def by auto
  moreover have "\<forall>roles. allowed_roles (req_endpoint req) = Some roles \<longrightarrow> u_role (snd cu) \<in> set roles"
    using az by (auto simp: authorize_None)
  ultimately show ?thesis using cu v by blast
qed

lemma validateRating_storeId: "snd (validateRating E b) ''storeId'' = b ''storeId''"
  by (simp add: validateRating_def)

text \<open>A submission answered below 400 has saved a rating of the store and run the post-save hook.\<close>

lemma post_ratings_success:
  assumes inv: "db_invariant s" and p: "post_ratings E now cu b s = (r, s')" and st: "status r < 400"
  shows "\<exists>sid st0 rid doc s1. castObjectIdV E (b ''storeId'') = Some sid
           \<and> findById (stores s) sid = Some st0
           \<and> s' = rating_post_save now doc s1 \<and> stores s1 = stores s \<and> db_invariant s1
           \<and> r_storeId doc = sid \<and> (rid, doc) \<in> set (ratings s1)"
proof -
  from p st obtain sid st0 where c: "castObjectIdV E (b ''storeId'') = Some sid"
    and f: "findById (stores s) sid = Some st0"
    unfolding post_ratings_def Let_def
    by (auto split: option.splits if_splits)
  have d: "distinct (map fst (ratings s))" using inv by (simp add: db_invariant_def rating_ids_ok_def)
  show ?thesis
  proof (cases "findOne (\<lambda>i r. r_userId r = fst cu \<and> r_storeId r = sid) (ratings s)")
    case None
    with p st c f obtain rid doc where
      sv: "rating_save_new now (fst cu) sid (castNumber (b ''rating'')) (set_comment E (comment_or_empty b)) s
             = Inr (rid, doc, s')"
      unfolding post_ratings_def Let_def
      by (auto split: option.splits if_splits sum.splits save_error.splits)
    from rating_save_new_Inr[OF sv] obtain q where
      e: "valid_rating_value q" "valid_comment (set_comment E (comment_or_empty b))"
         "findOne (\<lambda>i r. r_userId r = fst cu \<and> r_storeId r = sid) (ratings s) = None"
         "rid = next_id s"
         "doc = \<lparr>r_userId = fst cu, r_storeId = sid, r_rating = q,
                  r_comment = set_comment E (comment_or_empty b), r_createdAt = now, r_updatedAt = now\<rparr>"
         "s' = rating_post_save now doc (s\<lparr>ratings := ratings s @ [(rid, doc)], next_id := Suc rid\<rparr>)"
      by blast
    let ?s1 = "s\<lparr>ratings := ratings s @ [(rid, doc)], next_id := Suc rid\<rparr>"
    have fresh: "(fst cu, sid) \<notin> set (map (\<lambda>(i, r). (r_userId r, r_storeId r)) (ratings s))"
      using e(3) unfolding findOne_None_iff by auto
    have "db_invariant ?s1"
      using inv e(1,2,4,5) fresh
      unfolding db_invariant_def ratings_ok_iff stores_ok_def one_rating_per_pair_def
        rating_ids_ok_def list_all_iff
      by (auto simp: rating_doc_ok_def valid_rating_value_def valid_comment_length)
    then show ?thesis using c f e(5,6) by (intro exI[of _ sid] exI[of _ st0] exI[of _ rid] exI[of _ doc] exI[of _ ?s1]) simp
  next
    case (Some x)
    obtain rid old where x: "x = (rid, old)" by (cases x)
    from findOne_SomeD[OF Some[unfolded x]] have m: "(rid, old) \<in> set (ratings s)"
      and k: "r_userId old = fst cu" "r_storeId old = sid" by auto
    have old: "findById (ratings s) rid = Some old" by (rule findById_distinct[OF d m])
    from p st c f Some x obtain doc where
      sv: "rating_save_existing now rid old
             (assign_comment E (comment_or_empty b) (assign_rating (b ''rating'') old))
             (castNumber (b ''rating'') \<noteq> None) s = Inr (doc, s')"
      unfolding post_ratings_def Let_def
      by (auto split: option.splits if_splits sum.splits save_error.splits)
    note e = rating_save_existing_Inr[OF sv]
    let ?s1 = "s\<lparr>ratings := updateById rid doc (ratings s)\<rparr>"
    have "rating_doc_ok old"
      using inv m by (auto simp: db_invariant_def ratings_ok_iff)
    then have "rating_doc_ok doc"
      using e by (auto simp: rating_doc_ok_def valid_rating_value_def valid_comment_length
                        assign_comment_def assign_rating_def)
    then have "db_invariant ?s1"
      using e k by (intro inv_update_rating[OF inv old]) auto
    moreover have "(rid, doc) \<in> set (ratings ?s1)"
      using m by (auto simp: updateById_def intro!: image_eqI[where x = "(rid, old)"])
    moreover have "r_storeId doc = sid" using e k by simp
    ultimately show ?thesis using c f e
      by (intro exI[of _ sid] exI[of _ st0] exI[of _ rid] exI[of _ doc] exI[of _ ?s1]) simp
  qed
qed

lemma store_ratings_cong: "ratings s' = ratings s \<Longrightarrow> store_ratings s' sid = store_ratings s sid"
  by (simp add: store_ratings_def)

text \<open>After the post-save hook the store holds the rounded mean and the count of its ratings.\<close>

lemma rating_post_save_store:
  assumes inv: "db_invariant s1" and f: "findById (stores s1) (r_storeId doc) = Some st0"
  shows "\<exists>st. findById (stores (rating_post_save now doc s1)) (r_storeId doc) = Some st
           \<and> s_averageRating st = rounded_mean (store_ratings (rating_post_save now doc s1) (r_storeId doc))
           \<and> s_totalRatings st = int (length (store_ratings (rating_post_save now doc s1) (r_storeId doc)))"
proof -
  have ok: "ratings_ok s1" using inv by (simp add: db_invariant_def)
  have sr: "store_ratings (rating_post_save now doc s1) (r_storeId doc) = store_ratings s1 (r_storeId doc)"
    by (rule store_ratings_cong) (simp add: rating_post_save_frame)
  show ?thesis
    unfolding sr unfolding rating_post_save_eq[OF ok] f
    by (simp add: findById_updateById[OF f])
qed





lemma user_save_existing_storeId:
  "\<exists>u s'. user_save_existing E now uid old (old\<lparr>u_storeId := x\<rparr>) True s = Inr (u, s')"
  by (simp add: user_save_existing_def invalid_if_def Let_def)

lemma unchanged_400_users:
  "status (fst (post_register E now b s)) = 400 \<Longrightarrow> snd (post_register E now b s) = s"
  "status (fst (post_users E now b s)) = 400 \<Longrightarrow> snd (post_users E now b s) = s"
  "status (fst (patch_password E now cu b s)) = 400 \<Longrightarrow> snd (patch_password E now cu b s) = s"
  "status (fst (put_user E now userId b s)) = 400 \<Longrightarrow> snd (put_user E now userId b s) = s"
  "status (fst (delete_user E now userId s)) = 400 \<Longrightarrow> snd (delete_user E now userId s) = s"
  unfolding post_register_def post_users_def patch_password_def put_user_def delete_user_def
  by (auto split: sum.splits save_error.splits option.splits bool.splits if_splits)

lemma unchanged_400_stores:
  "status (fst (put_store E now storeId b s)) = 400 \<Longrightarrow> snd (put_store E now storeId b s) = s"
  "status (fst (delete_store E now storeId s)) = 400 \<Longrightarrow> snd (delete_store E now storeId s) = s"
  unfolding put_store_def delete_store_def
  by (auto split: sum.splits save_error.splits option.splits bool.splits if_splits)

lemma unchanged_400_create_store:
  assumes "status (fst (create_store E now b ownerId owner s)) = 400"
  shows "snd (create_store E now b ownerId owner s) = s"
proof -
  have no: "user_save_existing E now uid old (old\<lparr>u_storeId := x\<rparr>) True s1 \<noteq> Inl e" for uid old x s1 e
    using user_save_existing_storeId[of E now uid old x s1] by auto
  show ?thesis using assms unfolding create_store_def
    by (auto split: sum.splits save_error.splits simp: no)
qed

lemma unchanged_400_post_stores:
  "status (fst (post_stores E now b s)) = 400 \<Longrightarrow> snd (post_stores E now b s) = s"
  unfolding post_stores_def
  by (auto split: option.splits if_splits simp: unchanged_400_create_store)

lemma unchanged_400_ratings:
  "status (fst (post_ratings E now cu b s)) = 400 \<Longrightarrow> snd (post_ratings E now cu b s) = s"
  "status (fst (put_rating E now cu ratingId b s)) = 400 \<Longrightarrow> snd (put_rating E now cu ratingId b s) = s"
  "status (fst (delete_rating E cu ratingId s)) = 400 \<Longrightarrow> snd (delete_rating E cu ratingId s) = s"
  unfolding post_ratings_def put_rating_def delete_rating_def Let_def
  by (auto split: sum.splits save_error.splits option.splits if_splits)

lemma unchanged_400_handler:
  "status (fst (handler E now cu ep req s)) = 400 \<Longrightarrow> snd (handler E now cu ep req s) = s"
  by (cases ep)
     (simp_all add: readonly_handlers unchanged_400_users unchanged_400_stores unchanged_400_post_stores
        unchanged_400_ratings)

lemma unchanged_400_public:
  "status (fst (public_handler E now ep req s)) = 400 \<Longrightarrow> snd (public_handler E now ep req s) = s"
  by (cases ep) (simp_all add: readonly_handlers unchanged_400_users)

lemma unchanged_400:
  "status (fst (handle E now req s)) = 400 \<Longrightarrow> snd (handle E now req s) = s"
  unfolding handle_def Let_def
  by (auto split: sum.splits option.splits prod.splits if_splits
           simp: unchanged_400_handler unchanged_400_public
           dest: authenticateToken_Inl authorize_Some)

lemma delete_user_success:
  assumes "delete_user E now userId s = (r, s')" "status r = 200"
  shows "\<exists>uid u. castObjectId E userId = Some uid \<and> findById (users s) uid = Some u
           \<and> users s' = updateById uid (u\<lparr>u_isActive := False, u_updatedAt := now\<rparr>) (users s)
           \<and> stores s' = stores s \<and> ratings s' = ratings s"
  using assms unfolding delete_user_def user_save_existing_def Let_def
  by (auto split: option.splits sum.splits if_splits)

lemma clear_storeId_frame:
  "stores (clear_storeId uid s) = stores s \<and> ratings (clear_storeId uid s) = ratings s"
  unfolding clear_storeId_def by (auto split: option.splits)

lemma delete_store_success:
  assumes "delete_store E now storeId s = (r, s')" "status r = 200"
  shows "\<exists>sid st. castObjectId E storeId = Some sid \<and> findById (stores s) sid = Some st
           \<and> stores s' = updateById sid (st\<lparr>s_isActive := False, s_updatedAt := now\<rparr>) (stores s)
           \<and> ratings s' = ratings s"
  using assms unfolding delete_store_def store_save_existing_def Let_def
  by (auto split: option.splits sum.splits if_splits simp: clear_storeId_frame)

lemma trim_long_comment: "trim long_comment = long_comment"
proof -
  have a: "\<not> is_space CHR ''a''" by (simp add: is_space_def)
  have "dropWhile is_space (replicate n CHR ''a'') = replicate n CHR ''a''" for n
    using a by (cases n) simp_all
  then show ?thesis by (simp add: trim_def long_comment_def)
qed

lemma put_rating_keeps_value:
  assumes old: "findById (ratings s) rid = Some old" and c: "castObjectId E ratingId = Some rid"
    and own: "r_userId old = fst cu"
    and v: "b ''rating'' = JUndefined \<or> b ''rating'' = JNum 0"
    and len: "comment_length (set_comment E (comment_or_empty b)) \<le> 500"
  shows "status (fst (put_rating E now cu ratingId b s)) = 200
         \<and> findById (ratings (snd (put_rating E now cu ratingId b s))) rid
             = Some (old\<lparr>r_comment := set_comment E (comment_or_empty b), r_updatedAt := now\<rparr>)"
proof -
  let ?doc = "old\<lparr>r_comment := set_comment E (comment_or_empty b), r_updatedAt := now\<rparr>"
  have t: "\<not> truthy (b ''rating'')" using v by (auto simp: truthy_def)
  have sv: "rating_save_existing now rid old (assign_comment E (comment_or_empty b) old) True s
              = Inr (?doc, rating_post_save now ?doc (s\<lparr>ratings := updateById rid ?doc (ratings s)\<rparr>))"
    using len by (simp add: rating_save_existing_def assign_comment_def valid_comment_length Let_def)
  have p: "put_rating E now cu ratingId b s
             = (rating_response 200 ''Rating updated successfully'' rid ?doc ''updatedAt'' (r_updatedAt ?doc),
                rating_post_save now ?doc (s\<lparr>ratings := updateById rid ?doc (ratings s)\<rparr>))"
    using t old c own sv by (simp add: put_rating_def invalid_rating_def Let_def)
  show ?thesis
    unfolding p by (simp add: rating_post_save_frame findById_updateById[OF old])
qed

lemma put_rating_rejects_long_comment:
  assumes old: "findById (ratings s) rid = Some old" and c: "castObjectId E ratingId = Some rid"
    and own: "r_userId old = fst cu"
    and stored: "comment_length (r_comment old) \<le> 500"
    and len: "500 < comment_length (set_comment E (comment_or_empty b))"
  shows "status (fst (put_rating E now cu ratingId b s)) = 400
         \<and> snd (put_rating E now cu ratingId b s) = s"
proof (cases "invalid_rating (b ''rating'')")
  case True
  then show ?thesis by (simp add: put_rating_def failure_def Let_def)
next
  case False
  have ne: "set_comment E (comment_or_empty b) \<noteq> r_comment old" using stored len by auto
  have nv: "\<not> valid_comment (set_comment E (comment_or_empty b))"
    using len by (simp add: valid_comment_length)
  have sv: "\<exists>fs. rating_save_existing now rid old (assign_comment E (comment_or_empty b) r) ok s
              = Inl (ValidationError fs)" for r ok
    using ne nv by (simp add: rating_save_existing_def assign_comment_def Let_def)
  show ?thesis
  proof (cases "truthy (b ''rating'')")
    case True
    from sv[of "assign_rating (b ''rating'') old" "castNumber (b ''rating'') \<noteq> None"]
    obtain fs where "rating_save_existing now rid old
        (assign_comment E (comment_or_empty b) (assign_rating (b ''rating'') old))
        (castNumber (b ''rating'') \<noteq> None) s = Inl (ValidationError fs)" by blast
    then show ?thesis using False True old c own
      by (simp add: put_rating_def validation_failed_def Let_def)
  next
    case f: False
    from sv[of old True]
    obtain fs where "rating_save_existing now rid old
        (assign_comment E (comment_or_empty b) old) True s = Inl (ValidationError fs)" by blast
    then show ?thesis using False f old c own
      by (simp add: put_rating_def validation_failed_def Let_def)
  qed
qed

lemma stored_comment_length:
  assumes "reachable E s" "findById (ratings s) rid = Some old"
  shows "comment_length (r_comment old) \<le> 500"
proof -
  from reachable_invariant[OF assms(1)] have "ratings_ok s" by (simp add: db_invariant_def)
  with findById_mem[OF assms(2)] show ?thesis
    by (auto simp: ratings_ok_iff rating_doc_ok_def)
qed

lemma rejected_401:
  assumes "bears_token_of uid (now, req)" "inactive_or_missing s uid"
  shows "status (fst (handle E now req s)) = 401 \<and> snd (handle E now req s) = s"
proof -
  from assms(1) obtain t where t: "needs_auth (req_endpoint req)" "req_token req = Some t"
    "jwt_verify now t = Decoded uid"
    by (auto simp: bears_token_of_def split: option.splits)
  obtain r where "authenticateToken now req s = Inl r" "status r = 401"
    using t assms(2) unfolding authenticateToken_def inactive_or_missing_def
    by (auto split: option.splits)
  then show ?thesis using t(1) by (simp add: handle_def)
qed

lemma serve_rejected:
  assumes "inactive_or_missing s uid" "list_all (bears_token_of uid) reqs"
  shows "snd (serve E reqs s) = s \<and> list_all (\<lambda>r. status r = 401) (fst (serve E reqs s))"
  using assms(2)
proof (induction reqs)
  case Nil
  then show ?case by simp
next
  case (Cons x reqs)
  then have b: "bears_token_of uid (fst x, snd x)" by simp
  from rejected_401[OF b assms(1), of E] Cons show ?case by simp
qed

lemmas route_defs =
  handle_def needs_auth_def authenticateToken_def jwt_verify_def authorize_def with_body_def
  page_and_search_def check_def v_trimmed_def v_name_def v_email_def v_address_def v_password_def
  v_role_def sanitize_user_def validateUserRegistration_def validateUserLogin_def
  validatePasswordUpdate_def validateStore_def validateRating_def validateAdminUserCreation_def
  validatePagination_def validateSearch_def validateObjectId_def isIntQ_def q_check_def
  post_ratings_def put_rating_def delete_rating_def comment_or_empty_def assign_rating_def
  assign_comment_def invalid_rating_def rating_response_def
  put_user_def delete_user_def update_user_fields_def role_in_enum_def email_cond_def
  delete_store_def clear_storeId_def put_store_def update_store_fields_def
  failure_def message_def server_error_def validation_failed_def validation_response_def
  reaches_validation_def inactive_or_missing_def bears_token_of_def
  admin_token_def alice_token_def carol_token_def

section \<open>Claims\<close>

text \<open>
  C1. After a POST /api/ratings that is answered with 200 (update) or 201 (creation), from
  any reachable state, the store named in the request has at least one rating, its
  \<open>averageRating\<close> is the mean of the values of all its ratings rounded to one decimal
  (\<open>Math.round(avg * 10) / 10\<close>, within 0.05 of the mean) and its \<open>totalRatings\<close> is their
  number. For a store without ratings \<open>updateRating\<close> stores the average 0 and the count 0.
  Numbers are rationals here, so the rounding is exact.
\<close>

theorem submitted_rating_recomputes_store_average:
  assumes "reachable E s"
  shows "(req_endpoint req = RatingsSubmit \<and> handle E now req s = (r, s') \<and> (status r = 200 \<or> status r = 201)
          \<longrightarrow> (\<exists>sid st. castObjectIdV E (req_body req ''storeId'') = Some sid
                 \<and> findById (stores s') sid = Some st
                 \<and> store_ratings s' sid \<noteq> []
                 \<and> s_averageRating st = of_int (math_round (mean (store_ratings s' sid) * 10)) / 10
                 \<and> \<bar>s_averageRating st - mean (store_ratings s' sid)\<bar> \<le> 1 / 20
                 \<and> s_totalRatings st = int (length (store_ratings s' sid))))
       \<and> (findById (stores s) sid0 = Some st0 \<and> store_ratings s sid0 = []
          \<longrightarrow> (\<exists>s1 st1. updateRating now sid0 st0 s = Some s1 \<and> findById (stores s1) sid0 = Some st1
                 \<and> s_averageRating st1 = 0 \<and> s_totalRatings st1 = 0))"
proof (rule conjI, goal_cases)
  case 1
  note inv = reachable_invariant[OF assms]
  show ?case
  proof (rule impI)
    assume h: "req_endpoint req = RatingsSubmit \<and> handle E now req s = (r, s') \<and> (status r = 200 \<or> status r = 201)"
    then have ep: "req_endpoint req = RatingsSubmit" and hd: "handle E now req s = (r, s')"
      and st: "status r < 400" by auto
    from handle_success[OF hd st] ep obtain cu req' where
      v: "run_validators E RatingsSubmit req = ([], req')"
      and p: "handler E now cu RatingsSubmit req' s = (r, s')"
      by (auto simp: needs_auth_def)
    have b: "req_body req' ''storeId'' = req_body req ''storeId''"
      using v by (auto simp: with_body_def validateRating_storeId)
    from p have p': "post_ratings E now cu (req_body req') s = (r, s')" by simp
    from post_ratings_success[OF inv p' st] obtain sid st0 rid doc s1 where
      c: "castObjectIdV E (req_body req' ''storeId'') = Some sid"
      and f: "findById (stores s) sid = Some st0"
      and s': "s' = rating_post_save now doc s1" and ss: "stores s1 = stores s"
      and inv1: "db_invariant s1" and k: "r_storeId doc = sid" and m: "(rid, doc) \<in> set (ratings s1)"
      by blast
    have f1: "findById (stores s1) (r_storeId doc) = Some st0" using f ss k by simp
    from rating_post_save_store[OF inv1 f1, of now] obtain st where
      g: "findById (stores s') sid = Some st"
      "s_averageRating st = rounded_mean (store_ratings s' sid)"
      "s_totalRatings st = int (length (store_ratings s' sid))"
      unfolding s' k by blast
    have "store_ratings s' sid = store_ratings s1 sid"
      unfolding s' by (rule store_ratings_cong) (simp add: rating_post_save_frame)
    moreover have "r_rating doc \<in> set (store_ratings s1 sid)"
      using m k unfolding store_ratings_def by force
    ultimately have ne: "store_ratings s' sid \<noteq> []" by auto
    have avg: "s_averageRating st = of_int (math_round (mean (store_ratings s' sid) * 10)) / 10"
      using g(2) ne by (simp add: rounded_mean_def)
    have cl: "\<bar>s_averageRating st - mean (store_ratings s' sid)\<bar> \<le> 1 / 20"
      unfolding avg by (rule round_close)
    show "\<exists>sid st. castObjectIdV E (req_body req ''storeId'') = Some sid
                 \<and> findById (stores s') sid = Some st
                 \<and> store_ratings s' sid \<noteq> []
                 \<and> s_averageRating st = of_int (math_round (mean (store_ratings s' sid) * 10)) / 10
                 \<and> \<bar>s_averageRating st - mean (store_ratings s' sid)\<bar> \<le> 1 / 20
                 \<and> s_totalRatings st = int (length (store_ratings s' sid))"
      using c[unfolded b] g(1) ne avg cl g(3) by blast
  qed
next
  case 2
  have ok: "ratings_ok s" using reachable_invariant[OF assms] by (simp add: db_invariant_def)
  show ?case
    unfolding updateRating_eq[OF ok]
    by (auto simp: rounded_mean_def findById_updateById)
qed

theorem submitted_rating_recomputes_store_average_witness:
  "reachable demo_env seeded_db
   \<and> status (fst (handle demo_env 2000 (mkreq RatingsSubmit (Some carol_token)
        [(''storeId'', JStr ''000000000000000000000006''), (''rating'', JNum 2)]) seeded_db)) = 201
   \<and> store_ratings (snd (handle demo_env 2000 (mkreq RatingsSubmit (Some carol_token)
        [(''storeId'', JStr ''000000000000000000000006''), (''rating'', JNum 2)]) seeded_db)) 6 = [5, 4, 2]
   \<and> (\<exists>st. findById (stores (snd (handle demo_env 2000 (mkreq RatingsSubmit (Some carol_token)
        [(''storeId'', JStr ''000000000000000000000006''), (''rating'', JNum 2)]) seeded_db))) 6 = Some st
          \<and> s_averageRating st = 37 / 10 \<and> s_totalRatings st = 3)
   \<and> (\<exists>s1 st1. updateRating 2000 6 \<lparr>s_name = ''Tech Electronics Superstore'',
           s_email = ''contact@techelectronics.com'',
           s_address = ''100 Technology Drive, Silicon Valley, SV 55555'', s_ownerId = 1,
           s_averageRating = 9 / 2, s_totalRatings = 2, s_isActive = True, s_createdAt = 1000,
           s_updatedAt = 1000\<rparr>
         (snd (handle demo_env 2000 (mkreq (RatingsDelete ''000000000000000000000009'') (Some admin_token) [])
           (snd (handle demo_env 2000 (mkreq (RatingsDelete ''000000000000000000000008'') (Some admin_token) [])
              seeded_db)))) = Some s1
        \<and> findById (stores s1) 6 = Some st1 \<and> s_averageRating st1 = 0 \<and> s_totalRatings st1 = 0)"
proof -
  let ?req = "mkreq RatingsSubmit (Some carol_token)
        [(''storeId'', JStr ''000000000000000000000006''), (''rating'', JNum 2)]"
  let ?h = "handle demo_env 2000 ?req seeded_db"
  let ?st0 = "\<lparr>s_name = ''Tech Electronics Superstore'',
           s_email = ''contact@techelectronics.com'',
           s_address = ''100 Technology Drive, Silicon Valley, SV 55555'', s_ownerId = 1,
           s_averageRating = 9 / 2, s_totalRatings = 2, s_isActive = True, s_createdAt = 1000,
           s_updatedAt = 1000\<rparr>"
  let ?s2 = "snd (handle demo_env 2000 (mkreq (RatingsDelete ''000000000000000000000009'') (Some admin_token) [])
           (snd (handle demo_env 2000 (mkreq (RatingsDelete ''000000000000000000000008'') (Some admin_token) [])
              seeded_db)))"
  have e: "req_endpoint ?req = RatingsSubmit"
    "castObjectIdV demo_env (req_body ?req ''storeId'') = Some 6"
    by (simp_all add: eval_defs)
  have v: "status (fst ?h) = 201 \<and> store_ratings (snd ?h) 6 = [5, 4, 2]"
    by (simp add: route_defs eval_defs)
  have m: "of_int (math_round (mean [5, 4, 2] * 10)) / 10 = (37 / 10 :: rat)"
    by (simp add: mean_def math_round_def floor_numeral_div)
  have r2: "reachable demo_env ?s2"
    by (intro reachable_request reachable_seeded)
  have d: "findById (stores ?s2) 6 = Some ?st0 \<and> store_ratings ?s2 6 = []"
    by (simp add: route_defs eval_defs)
  from submitted_rating_recomputes_store_average[OF reachable_seeded,
      of ?req 2000 "fst ?h" "snd ?h" 6 ?st0] e v m
  have 1: "\<exists>st. findById (stores (snd ?h)) 6 = Some st \<and> s_averageRating st = 37 / 10 \<and> s_totalRatings st = 3"
    by auto
  from submitted_rating_recomputes_store_average[OF r2, of ?req 2000 "fst ?h" "snd ?h" 6 ?st0] d
  have 2: "\<exists>s1 st1. updateRating 2000 6 ?st0 ?s2 = Some s1
        \<and> findById (stores s1) 6 = Some st1 \<and> s_averageRating st1 = 0 \<and> s_totalRatings st1 = 0"
    by blast
  show ?thesis using reachable_seeded v 1 2 by blast
qed

text \<open>
  C2. The store's average is not recomputed by DELETE /api/ratings/:ratingId: the handler
  removes the rating with \<open>findByIdAndDelete\<close> and leaves the stores as they are. On the seeded
  database the author of rating 8 deletes it; store 6 keeps the average 4.5 and the count 2
  while its only remaining rating is a 4.
\<close>

theorem delete_rating_keeps_stale_average:
  "stores (snd (delete_rating E cu ratingId s)) = stores s
   \<and> status (fst (handle demo_env 2000
         (mkreq (RatingsDelete ''000000000000000000000008'') (Some alice_token) []) seeded_db)) = 200
   \<and> store_ratings (snd (handle demo_env 2000
         (mkreq (RatingsDelete ''000000000000000000000008'') (Some alice_token) []) seeded_db)) 6 = [4]
   \<and> map_option (\<lambda>st. (s_averageRating st, s_totalRatings st)) (findById (stores (snd (handle demo_env 2000
         (mkreq (RatingsDelete ''000000000000000000000008'') (Some alice_token) []) seeded_db))) 6)
       = Some (9 / 2, 2)"
proof -
  have "stores (snd (delete_rating E cu ratingId s)) = stores s"
    unfolding delete_rating_def Let_def by (auto split: option.splits)
  moreover have "status (fst (handle demo_env 2000
         (mkreq (RatingsDelete ''000000000000000000000008'') (Some alice_token) []) seeded_db)) = 200
   \<and> store_ratings (snd (handle demo_env 2000
         (mkreq (RatingsDelete ''000000000000000000000008'') (Some alice_token) []) seeded_db)) 6 = [4]
   \<and> map_option (\<lambda>st. (s_averageRating st, s_totalRatings st)) (findById (stores (snd (handle demo_env 2000
         (mkreq (RatingsDelete ''000000000000000000000008'') (Some alice_token) []) seeded_db))) 6)
       = Some (9 / 2, 2)"
    by (simp add: route_defs eval_defs)
  ultimately show ?thesis by blast
qed

text \<open>
  C5. A request that reaches the validators of its route and fails them is answered with
  status 400 and the body \<open>{message: 'Validation failed', errors}\<close>, and the database is the
  one before the request. A rating that is a number outside 1 to 5 or not an integer fails the
  validators of POST /api/ratings; a password that is not 8 to 16 characters with an
  uppercase letter and a special character fails those of POST /api/auth/register. Every
  request answered with status 400, by a validator or by a handler, leaves the database
  unchanged.
\<close>

theorem invalid_input_rejected_with_400:
  "(reaches_validation now req s \<and> fst (run_validators E (req_endpoint req) req) \<noteq> []
      \<longrightarrow> handle E now req s = (validation_response (fst (run_validators E (req_endpoint req) req)), s)
          \<and> status (fst (handle E now req s)) = 400)
   \<and> (req_body req ''rating'' = JNum q \<and> (q < 1 \<or> 5 < q \<or> \<not> is_integer q)
      \<longrightarrow> fst (run_validators E RatingsSubmit req) \<noteq> [])
   \<and> (req_body req ''password'' = JStr p
       \<and> \<not> (8 \<le> length p \<and> length p \<le> 16 \<and> list_ex is_upper p \<and> list_ex is_special p)
      \<longrightarrow> fst (run_validators E AuthRegister req) \<noteq> [])
   \<and> (status (fst (handle E now req s)) = 400 \<longrightarrow> snd (handle E now req s) = s)"
proof (intro conjI impI, goal_cases)
  case 1
  then show ?case
    unfolding reaches_validation_def handle_def Let_def
    by (auto split: sum.splits option.splits prod.splits if_splits)
next
  case 2
  then show ?case
    unfolding reaches_validation_def handle_def Let_def
    by (auto split: sum.splits option.splits prod.splits if_splits)
next
  case 3
  then show ?case
    by (auto simp: with_body_def validateRating_def check_def isInt_def)
next
  case 4
  have sub: "list_ex P (takeWhile Q xs) \<Longrightarrow> list_ex P xs" for P Q and xs :: string
    by (auto simp: list_ex_iff dest: set_takeWhileD)
  from 4 show ?case
    by (auto simp: with_body_def validateUserRegistration_def v_password_def check_def
          js_toString_def password_regex_def Let_def dest: sub)
next
  case 5
  then show ?case by (rule unchanged_400)
qed

theorem invalid_input_rejected_with_400_witness:
  "status (fst (handle demo_env 2000 (mkreq RatingsSubmit (Some carol_token)
        [(''storeId'', JStr ''000000000000000000000006''), (''rating'', JNum 7)]) seeded_db)) = 400
   \<and> snd (handle demo_env 2000 (mkreq RatingsSubmit (Some carol_token)
        [(''storeId'', JStr ''000000000000000000000006''), (''rating'', JNum 7)]) seeded_db) = seeded_db
   \<and> status (fst (handle demo_env 2000 (mkreq AuthRegister None
        [(''name'', JStr ''Dave New Customer''), (''email'', JStr ''dave@example.com''),
         (''password'', JStr ''short''), (''address'', JStr ''1 Main Street'')]) seeded_db)) = 400
   \<and> snd (handle demo_env 2000 (mkreq AuthRegister None
        [(''name'', JStr ''Dave New Customer''), (''email'', JStr ''dave@example.com''),
         (''password'', JStr ''short''), (''address'', JStr ''1 Main Street'')]) seeded_db) = seeded_db"
proof -
  let ?r1 = "mkreq RatingsSubmit (Some carol_token)
        [(''storeId'', JStr ''000000000000000000000006''), (''rating'', JNum 7)]"
  let ?r2 = "mkreq AuthRegister None
        [(''name'', JStr ''Dave New Customer''), (''email'', JStr ''dave@example.com''),
         (''password'', JStr ''short''), (''address'', JStr ''1 Main Street'')]"
  have g1: "reaches_validation 2000 ?r1 seeded_db" by (simp add: route_defs eval_defs)
  have g2: "reaches_validation 2000 ?r2 seeded_db" by (simp add: route_defs eval_defs)
  have e1: "req_endpoint ?r1 = RatingsSubmit" "req_body ?r1 ''rating'' = JNum 7"
    by (simp_all add: mkreq_def)
  have e2: "req_endpoint ?r2 = AuthRegister" "req_body ?r2 ''password'' = JStr ''short''"
    "\<not> (8 \<le> length ''short'' \<and> length ''short'' \<le> 16 \<and> list_ex is_upper ''short''
        \<and> list_ex is_special ''short'')"
    by (simp_all add: mkreq_def)
  note t1 = invalid_input_rejected_with_400[of 2000 ?r1 seeded_db demo_env 7 "''short''"]
  note t2 = invalid_input_rejected_with_400[of 2000 ?r2 seeded_db demo_env 7 "''short''"]
  from t1 g1 e1 have "handle demo_env 2000 ?r1 seeded_db
      = (validation_response (fst (run_validators demo_env (req_endpoint ?r1) ?r1)), seeded_db)"
    by simp
  moreover from t2 g2 e2 have "handle demo_env 2000 ?r2 seeded_db
      = (validation_response (fst (run_validators demo_env (req_endpoint ?r2) ?r2)), seeded_db)"
    by simp
  ultimately show ?thesis by simp
qed

text \<open>
  C6. An authenticated caller whose role is not among the roles of the route's
  \<open>authorize(...)\<close> is answered with status 403 and the database is unchanged. The routes
  POST /api/users, PUT /api/users/:userId, DELETE /api/stores/:storeId and
  GET /api/ratings/stats/overview admit admins only; POST /api/ratings admits normal users only.
\<close>

theorem role_gate_rejects_with_403:
  "(authenticateToken now req s = Inr cu \<and> allowed_roles (req_endpoint req) = Some roles
      \<and> u_role (snd cu) \<notin> set roles
     \<longrightarrow> status (fst (handle E now req s)) = 403 \<and> snd (handle E now req s) = s)
   \<and> allowed_roles UsersCreate = Some [Admin] \<and> allowed_roles (UsersUpdate userId) = Some [Admin]
   \<and> allowed_roles (StoresDelete storeId) = Some [Admin] \<and> allowed_roles RatingsStats = Some [Admin]
   \<and> allowed_roles RatingsSubmit = Some [NormalUser]"
proof -
  have "status (fst (handle E now req s)) = 403 \<and> snd (handle E now req s) = s"
    if a: "authenticateToken now req s = Inr cu" and r: "allowed_roles (req_endpoint req) = Some roles"
      and n: "u_role (snd cu) \<notin> set roles"
  proof -
    have na: "needs_auth (req_endpoint req)"
      using r by (cases "req_endpoint req") (simp_all add: needs_auth_def)
    obtain x where x: "authorize roles cu = Some x" "status x = 403"
      using n by (auto simp: authorize_def)
    show ?thesis using a r na x by (simp add: handle_def)
  qed
  then show ?thesis by simp
qed

theorem role_gate_rejects_with_403_witness:
  "status (fst (handle demo_env 2000 (mkreq UsersCreate (Some alice_token) []) seeded_db)) = 403
   \<and> snd (handle demo_env 2000 (mkreq UsersCreate (Some alice_token) []) seeded_db) = seeded_db
   \<and> status (fst (handle demo_env 2000 (mkreq RatingsSubmit (Some admin_token) []) seeded_db)) = 403
   \<and> snd (handle demo_env 2000 (mkreq RatingsSubmit (Some admin_token) []) seeded_db) = seeded_db"
proof -
  let ?r1 = "mkreq UsersCreate (Some alice_token) []"
  let ?r2 = "mkreq RatingsSubmit (Some admin_token) []"
  have a1: "authenticateToken 2000 ?r1 seeded_db = Inr (3, alice)"
    by (simp add: route_defs eval_defs)
  have a2: "\<exists>u. authenticateToken 2000 ?r2 seeded_db = Inr (0, u) \<and> u_role u = Admin"
    by (simp add: route_defs eval_defs)
  then obtain u where a2': "authenticateToken 2000 ?r2 seeded_db = Inr (0, u)" "u_role u = Admin" by blast
  have e: "req_endpoint ?r1 = UsersCreate" "req_endpoint ?r2 = RatingsSubmit" "u_role alice = NormalUser"
    by (simp_all add: mkreq_def alice_def)
  from role_gate_rejects_with_403[of 2000 ?r1 seeded_db "(3, alice)" "[Admin]" demo_env] a1 e
  have "status (fst (handle demo_env 2000 ?r1 seeded_db)) = 403 \<and> snd (handle demo_env 2000 ?r1 seeded_db) = seeded_db"
    by simp
  moreover from role_gate_rejects_with_403[of 2000 ?r2 seeded_db "(0, u)" "[NormalUser]" demo_env] a2' e
  have "status (fst (handle demo_env 2000 ?r2 seeded_db)) = 403 \<and> snd (handle demo_env 2000 ?r2 seeded_db) = seeded_db"
    by simp
  ultimately show ?thesis by simp
qed


text \<open>
  C3. In every reachable state of the database there is at most one rating for a pair of a
  user and a store. A submission by a user who has already rated the store answers 200,
  keeps the number of ratings and the \<open>_id\<close> of the user's rating, and leaves under that \<open>_id\<close>
  a rating of the same user and store with the submitted value and comment.
\<close>

theorem one_rating_per_user_and_store:
  assumes "reachable E s"
  shows "one_rating_per_pair s
     \<and> (findOne (\<lambda>i r. r_userId r = fst cu \<and> r_storeId r = sid) (ratings s) = Some (rid, old)
         \<and> castObjectIdV E (b ''storeId'') = Some sid
         \<and> post_ratings E now cu b s = (r, s') \<and> status r < 400
         \<longrightarrow> status r = 200 \<and> map fst (ratings s') = map fst (ratings s)
             \<and> (\<exists>doc. findById (ratings s') rid = Some doc \<and> r_userId doc = fst cu \<and> r_storeId doc = sid
                    \<and> castNumber (b ''rating'') = Some (r_rating doc)
                    \<and> r_comment doc = set_comment E (comment_or_empty b)))"
proof (rule conjI, goal_cases)
  case 1
  show ?case using reachable_invariant[OF assms] by (simp add: db_invariant_def)
next
  case 2
  note inv = reachable_invariant[OF assms]
  show ?case
  proof (rule impI)
  assume h: "findOne (\<lambda>i r. r_userId r = fst cu \<and> r_storeId r = sid) (ratings s) = Some (rid, old)
         \<and> castObjectIdV E (b ''storeId'') = Some sid
         \<and> post_ratings E now cu b s = (r, s') \<and> status r < 400"
  then have f: "findOne (\<lambda>i r. r_userId r = fst cu \<and> r_storeId r = sid) (ratings s) = Some (rid, old)"
    and c: "castObjectIdV E (b ''storeId'') = Some sid"
    and p: "post_ratings E now cu b s = (r, s')" and st: "status r < 400" by auto
  have d: "distinct (map fst (ratings s))" using inv by (simp add: db_invariant_def rating_ids_ok_def)
  from findOne_SomeD[OF f] have m: "(rid, old) \<in> set (ratings s)"
    and k: "r_userId old = fst cu" "r_storeId old = sid" by auto
  have old: "findById (ratings s) rid = Some old" by (rule findById_distinct[OF d m])
  from p st f c obtain doc where
    sv: "rating_save_existing now rid old (assign_comment E (comment_or_empty b) (assign_rating (b ''rating'') old))
           (castNumber (b ''rating'') \<noteq> None) s = Inr (doc, s')"
    and r: "status r = 200"
    unfolding post_ratings_def Let_def
    by (auto split: option.splits sum.splits save_error.splits if_splits
             simp: failure_def server_error_def validation_failed_def rating_response_def)
  note e = rating_save_existing_Inr[OF sv]
  have rs: "ratings s' = updateById rid doc (ratings s)"
    using e rating_post_save_frame by simp
  have "findById (ratings s') rid = Some doc" unfolding rs by (rule findById_updateById[OF old])
  moreover have "castNumber (b ''rating'') = Some (r_rating doc)"
    using e by (auto simp: assign_comment_def assign_rating_def)
  moreover have "r_userId doc = fst cu" "r_storeId doc = sid"
    "r_comment doc = set_comment E (comment_or_empty b)"
    using e k by (auto simp: assign_comment_def assign_rating_def)
  ultimately show "status r = 200 \<and> map fst (ratings s') = map fst (ratings s)
             \<and> (\<exists>doc. findById (ratings s') rid = Some doc \<and> r_userId doc = fst cu \<and> r_storeId doc = sid
                    \<and> castNumber (b ''rating'') = Some (r_rating doc)
                    \<and> r_comment doc = set_comment E (comment_or_empty b))"
    using r rs by (simp add: map_fst_updateById)
  qed
qed

theorem one_rating_per_user_and_store_witness:
  "reachable demo_env seeded_db \<and> one_rating_per_pair seeded_db
   \<and> status (fst (post_ratings demo_env 2000 (3, alice)
        (req_body (mkreq RatingsSubmit None
           [(''storeId'', JStr ''000000000000000000000006''), (''rating'', JNum 2)])) seeded_db)) = 200
   \<and> map fst (ratings (snd (post_ratings demo_env 2000 (3, alice)
        (req_body (mkreq RatingsSubmit None
           [(''storeId'', JStr ''000000000000000000000006''), (''rating'', JNum 2)])) seeded_db)))
       = [8, 9, 10, 11]"
proof -
  let ?b = "req_body (mkreq RatingsSubmit None
           [(''storeId'', JStr ''000000000000000000000006''), (''rating'', JNum 2)])"
  let ?p = "post_ratings demo_env 2000 (3, alice) ?b seeded_db"
  have 1: "findOne (\<lambda>i r. r_userId r = fst (3::nat, alice) \<and> r_storeId r = 6) (ratings seeded_db)
             = Some (8, \<lparr>r_userId = 3, r_storeId = 6, r_rating = 5,
              r_comment = Some ''Amazing selection of electronics! Great customer service and competitive prices.'',
              r_createdAt = 1000, r_updatedAt = 1000\<rparr>)"
    by (simp add: eval_defs)
  have 2: "castObjectIdV demo_env (?b ''storeId'') = Some 6" by (simp add: eval_defs)
  have 3: "status (fst ?p) < 400" by (simp add: route_defs eval_defs)
  have 4: "map fst (ratings seeded_db) = [8, 9, 10, 11]" by (simp add: eval_defs)
  from one_rating_per_user_and_store[OF reachable_seeded, of "(3, alice)" 6 8 _ ?b 2000 "fst ?p" "snd ?p"]
    1 2 3 4 reachable_seeded
  show ?thesis by simp
qed

text \<open>
  C4. In every reachable state every rating has an integer value between 1 and 5 and a
  comment of at most 500 characters (none for a null comment), and every store has an
  average rating between 0 and 5 and a count of ratings of at least 0.
\<close>

theorem stored_documents_within_bounds:
  assumes "reachable E s"
  shows "ratings_ok s \<and> stores_ok s"
  using reachable_invariant[OF assms] by (simp add: db_invariant_def)

theorem stored_documents_within_bounds_witness:
  "reachable demo_env seeded_db \<and> ratings seeded_db \<noteq> [] \<and> stores seeded_db \<noteq> []
   \<and> ratings_ok seeded_db \<and> stores_ok seeded_db"
  using stored_documents_within_bounds[OF reachable_seeded] reachable_seeded
  by (simp add: seeded_db_def)

text \<open>
  C7. A DELETE /api/users/:userId or DELETE /api/stores/:storeId that is answered with 200
  was sent by an active admin; the target record is still in its collection, with
  \<open>isActive\<close> false, \<open>updatedAt\<close> the time of the request and every other field as before,
  and no record has left or entered the collection.
\<close>

theorem soft_delete_changes_only_isActive:
  "(req_endpoint req = UsersDelete userId \<and> handle E now req s = (r, s') \<and> status r = 200
     \<longrightarrow> (\<exists>cu uid u. authenticateToken now req s = Inr cu \<and> u_role (snd cu) = Admin
            \<and> castObjectId E userId = Some uid \<and> findById (users s) uid = Some u
            \<and> findById (users s') uid = Some (u\<lparr>u_isActive := False, u_updatedAt := now\<rparr>)
            \<and> map fst (users s') = map fst (users s)))
   \<and> (req_endpoint req = StoresDelete storeId \<and> handle E now req s = (r, s') \<and> status r = 200
     \<longrightarrow> (\<exists>cu sid st. authenticateToken now req s = Inr cu \<and> u_role (snd cu) = Admin
            \<and> castObjectId E storeId = Some sid \<and> findById (stores s) sid = Some st
            \<and> findById (stores s') sid = Some (st\<lparr>s_isActive := False, s_updatedAt := now\<rparr>)
            \<and> map fst (stores s') = map fst (stores s)))"
proof (rule conjI, goal_cases)
  case 1
  show ?case
  proof (rule impI)
    assume h: "req_endpoint req = UsersDelete userId \<and> handle E now req s = (r, s') \<and> status r = 200"
    then have ep: "req_endpoint req = UsersDelete userId" and hd: "handle E now req s = (r, s')"
      and st: "status r < 400" "status r = 200" by auto
    from handle_success[OF hd st(1)] ep obtain cu req' where
      a: "authenticateToken now req s = Inr cu" and ro: "u_role (snd cu) = Admin"
      and p: "handler E now cu (UsersDelete userId) req' s = (r, s')"
      by (auto simp: needs_auth_def)
    from p have "delete_user E now userId s = (r, s')" by simp
    from delete_user_success[OF this st(2)] obtain uid u where
      d: "castObjectId E userId = Some uid" "findById (users s) uid = Some u"
         "users s' = updateById uid (u\<lparr>u_isActive := False, u_updatedAt := now\<rparr>) (users s)"
      by blast
    have "findById (users s') uid = Some (u\<lparr>u_isActive := False, u_updatedAt := now\<rparr>)"
      unfolding d(3) by (rule findById_updateById[OF d(2)])
    moreover have "map fst (users s') = map fst (users s)"
      unfolding d(3) by (rule map_fst_updateById)
    ultimately show "\<exists>cu uid u. authenticateToken now req s = Inr cu \<and> u_role (snd cu) = Admin
            \<and> castObjectId E userId = Some uid \<and> findById (users s) uid = Some u
            \<and> findById (users s') uid = Some (u\<lparr>u_isActive := False, u_updatedAt := now\<rparr>)
            \<and> map fst (users s') = map fst (users s)"
      using a ro d(1,2) by blast
  qed
next
  case 2
  show ?case
  proof (rule impI)
    assume h: "req_endpoint req = StoresDelete storeId \<and> handle E now req s = (r, s') \<and> status r = 200"
    then have ep: "req_endpoint req = StoresDelete storeId" and hd: "handle E now req s = (r, s')"
      and st: "status r < 400" "status r = 200" by auto
    from handle_success[OF hd st(1)] ep obtain cu req' where
      a: "authenticateToken now req s = Inr cu" and ro: "u_role (snd cu) = Admin"
      and p: "handler E now cu (StoresDelete storeId) req' s = (r, s')"
      by (auto simp: needs_auth_def)
    from p have "delete_store E now storeId s = (r, s')" by simp
    from delete_store_success[OF this st(2)] obtain sid x where
      d: "castObjectId E storeId = Some sid" "findById (stores s) sid = Some x"
         "stores s' = updateById sid (x\<lparr>s_isActive := False, s_updatedAt := now\<rparr>) (stores s)"
      by blast
    have "findById (stores s') sid = Some (x\<lparr>s_isActive := False, s_updatedAt := now\<rparr>)"
      unfolding d(3) by (rule findById_updateById[OF d(2)])
    moreover have "map fst (stores s') = map fst (stores s)"
      unfolding d(3) by (rule map_fst_updateById)
    ultimately show "\<exists>cu sid st. authenticateToken now req s = Inr cu \<and> u_role (snd cu) = Admin
            \<and> castObjectId E storeId = Some sid \<and> findById (stores s) sid = Some st
            \<and> findById (stores s') sid = Some (st\<lparr>s_isActive := False, s_updatedAt := now\<rparr>)
            \<and> map fst (stores s') = map fst (stores s)"
      using a ro d(1,2) by blast
  qed
qed

theorem soft_delete_changes_only_isActive_witness:
  "status (fst (handle demo_env 2000 (mkreq (UsersDelete ''000000000000000000000003'') (Some admin_token) [])
       seeded_db)) = 200
   \<and> findById (users (snd (handle demo_env 2000
       (mkreq (UsersDelete ''000000000000000000000003'') (Some admin_token) []) seeded_db))) 3
       = Some (alice\<lparr>u_isActive := False, u_updatedAt := 2000\<rparr>)
   \<and> status (fst (handle demo_env 2000 (mkreq (StoresDelete ''000000000000000000000007'') (Some admin_token) [])
       seeded_db)) = 200
   \<and> map_option (\<lambda>st. (s_name st, s_isActive st, s_averageRating st, s_updatedAt st))
       (findById (stores (snd (handle demo_env 2000
          (mkreq (StoresDelete ''000000000000000000000007'') (Some admin_token) []) seeded_db))) 7)
       = Some (''Fashion Forward Boutique'', False, 4, 2000)"
proof -
  let ?r1 = "mkreq (UsersDelete ''000000000000000000000003'') (Some admin_token) []"
  let ?r2 = "mkreq (StoresDelete ''000000000000000000000007'') (Some admin_token) []"
  let ?h1 = "handle demo_env 2000 ?r1 seeded_db"
  let ?h2 = "handle demo_env 2000 ?r2 seeded_db"
  have e1: "req_endpoint ?r1 = UsersDelete ''000000000000000000000003''"
    "status (fst ?h1) = 200" "castObjectId demo_env ''000000000000000000000003'' = Some 3"
    "findById (users seeded_db) 3 = Some alice"
    by (simp_all add: route_defs eval_defs)
  have e2: "req_endpoint ?r2 = StoresDelete ''000000000000000000000007''"
    "status (fst ?h2) = 200" "castObjectId demo_env ''000000000000000000000007'' = Some 7"
    "map_option (\<lambda>st. (s_name st, s_isActive st, s_averageRating st, s_updatedAt st))
       (findById (stores seeded_db) 7) = Some (''Fashion Forward Boutique'', True, 4, 1000)"
    by (simp_all add: route_defs eval_defs)
  note t1 = soft_delete_changes_only_isActive[of ?r1 "''000000000000000000000003''" demo_env 2000 seeded_db
      "fst ?h1" "snd ?h1" "''000000000000000000000007''"]
  note t2 = soft_delete_changes_only_isActive[of ?r2 "''000000000000000000000003''" demo_env 2000 seeded_db
      "fst ?h2" "snd ?h2" "''000000000000000000000007''"]
  from t1 e1 have 1: "findById (users (snd ?h1)) 3 = Some (alice\<lparr>u_isActive := False, u_updatedAt := 2000\<rparr>)"
    by auto
  from t2 e2 have 2: "map_option (\<lambda>st. (s_name st, s_isActive st, s_averageRating st, s_updatedAt st))
       (findById (stores (snd ?h2)) 7) = Some (''Fashion Forward Boutique'', False, 4, 2000)"
    by auto
  show ?thesis using e1(2) e2(2) 1 2 by simp
qed

text \<open>
  C8 as stated fails: a PUT on the caller's own rating without a \<open>rating\<close> field and with a
  comment of 501 characters is rejected with status 400 by the \<open>maxlength\<close> validator of the
  schema, and nothing is stored.
\<close>

theorem put_rating_long_comment_rejected:
  "map_option r_userId (findById (ratings seeded_db) 8) = Some 3
   \<and> req_body (mkreq (RatingsUpdate ''000000000000000000000008'') (Some alice_token)
        [(''comment'', JStr long_comment)]) ''rating'' = JUndefined
   \<and> status (fst (handle demo_env 2000 (mkreq (RatingsUpdate ''000000000000000000000008'') (Some alice_token)
        [(''comment'', JStr long_comment)]) seeded_db)) = 400
   \<and> snd (handle demo_env 2000 (mkreq (RatingsUpdate ''000000000000000000000008'') (Some alice_token)
        [(''comment'', JStr long_comment)]) seeded_db) = seeded_db"
proof -
  have l: "\<not> length long_comment \<le> 500" by (simp add: long_comment_def)
  have n: "Some long_comment \<noteq> Some ''Amazing selection of electronics! Great customer service and competitive prices.''"
  proof
    assume "Some long_comment = Some ''Amazing selection of electronics! Great customer service and competitive prices.''"
    then have "length long_comment = length ''Amazing selection of electronics! Great customer service and competitive prices.''"
      by simp
    then show False by (simp add: long_comment_def)
  qed
  have "status (fst (handle demo_env 2000 (mkreq (RatingsUpdate ''000000000000000000000008'') (Some alice_token)
        [(''comment'', JStr long_comment)]) seeded_db)) = 400"
    using l n by (simp add: route_defs eval_defs trim_long_comment del: trim_def)
  moreover from this have "snd (handle demo_env 2000 (mkreq (RatingsUpdate ''000000000000000000000008'')
        (Some alice_token) [(''comment'', JStr long_comment)]) seeded_db) = seeded_db"
    by (rule unchanged_400)
  moreover have "map_option r_userId (findById (ratings seeded_db) 8) = Some 3"
    "req_body (mkreq (RatingsUpdate ''000000000000000000000008'') (Some alice_token)
        [(''comment'', JStr long_comment)]) ''rating'' = JUndefined"
    by (simp_all add: eval_defs)
  ultimately show ?thesis by blast
qed

text \<open>
  C8, amended. For a PUT /api/ratings/:ratingId by a normal user on a rating of their own,
  with a \<open>rating\<close> field that is 0 or absent and a comment that, cast to a string and
  trimmed, has at most 500 characters (or is null): the answer is 200, the stored value is
  unchanged, the stored comment is the trimmed comment of the request, the empty string when
  the field is absent, and \<open>updatedAt\<close> is the time of the request. In every reachable state,
  a comment that has more than 500 characters once cast and trimmed is rejected with 400,
  whatever the \<open>rating\<close> field, and nothing is stored.
\<close>

theorem put_rating_without_value_keeps_it:
  "(req_endpoint req = RatingsUpdate ratingId \<and> authenticateToken now req s = Inr cu
    \<and> u_role (snd cu) = NormalUser \<and> isMongoId E ratingId \<and> castObjectId E ratingId = Some rid
    \<and> findById (ratings s) rid = Some old \<and> r_userId old = fst cu
    \<and> (req_body req ''rating'' = JUndefined \<or> req_body req ''rating'' = JNum 0)
    \<and> comment_length (set_comment E (comment_or_empty (req_body req))) \<le> 500
    \<longrightarrow> status (fst (handle E now req s)) = 200
        \<and> findById (ratings (snd (handle E now req s))) rid
            = Some (old\<lparr>r_comment := set_comment E (comment_or_empty (req_body req)), r_updatedAt := now\<rparr>)
        \<and> (req_body req ''comment'' = JUndefined
             \<longrightarrow> set_comment E (comment_or_empty (req_body req)) = Some []))
   \<and> (reachable E s
      \<and> req_endpoint req = RatingsUpdate ratingId \<and> authenticateToken now req s = Inr cu
      \<and> u_role (snd cu) = NormalUser \<and> isMongoId E ratingId \<and> castObjectId E ratingId = Some rid
      \<and> findById (ratings s) rid = Some old \<and> r_userId old = fst cu
      \<and> 500 < comment_length (set_comment E (comment_or_empty (req_body req)))
      \<longrightarrow> status (fst (handle E now req s)) = 400 \<and> snd (handle E now req s) = s)"
proof (rule conjI, goal_cases)
  case 1
  show ?case
  proof (rule impI)
    assume h: "req_endpoint req = RatingsUpdate ratingId \<and> authenticateToken now req s = Inr cu
     \<and> u_role (snd cu) = NormalUser \<and> isMongoId E ratingId \<and> castObjectId E ratingId = Some rid
     \<and> findById (ratings s) rid = Some old \<and> r_userId old = fst cu
     \<and> (req_body req ''rating'' = JUndefined \<or> req_body req ''rating'' = JNum 0)
     \<and> comment_length (set_comment E (comment_or_empty (req_body req))) \<le> 500"
    then have hd: "handle E now req s = put_rating E now cu ratingId (req_body req) s"
      by (simp add: handle_def needs_auth_def authorize_def validateObjectId_def check_def)
    have e: "set_comment E (comment_or_empty (req_body req)) = Some []" if "req_body req ''comment'' = JUndefined"
      using that by (simp add: set_comment_def comment_or_empty_def castString_def js_toString_def trim_def)
    from h put_rating_keeps_value[of s rid old E ratingId cu "req_body req" now]
    show "status (fst (handle E now req s)) = 200
         \<and> findById (ratings (snd (handle E now req s))) rid
             = Some (old\<lparr>r_comment := set_comment E (comment_or_empty (req_body req)), r_updatedAt := now\<rparr>)
         \<and> (req_body req ''comment'' = JUndefined
              \<longrightarrow> set_comment E (comment_or_empty (req_body req)) = Some [])"
      unfolding hd using e by simp
  qed
next
  case 2
  show ?case
  proof (rule impI)
    assume h: "reachable E s
      \<and> req_endpoint req = RatingsUpdate ratingId \<and> authenticateToken now req s = Inr cu
      \<and> u_role (snd cu) = NormalUser \<and> isMongoId E ratingId \<and> castObjectId E ratingId = Some rid
      \<and> findById (ratings s) rid = Some old \<and> r_userId old = fst cu
      \<and> 500 < comment_length (set_comment E (comment_or_empty (req_body req)))"
    then have hd: "handle E now req s = put_rating E now cu ratingId (req_body req) s"
      by (simp add: handle_def needs_auth_def authorize_def validateObjectId_def check_def)
    from h have st: "comment_length (r_comment old) \<le> 500"
      using stored_comment_length[of E s rid old] by blast
    from h st put_rating_rejects_long_comment[of s rid old E ratingId cu "req_body req" now]
    show "status (fst (handle E now req s)) = 400 \<and> snd (handle E now req s) = s"
      unfolding hd by blast
  qed
qed

theorem put_rating_without_value_keeps_it_witness:
  "(status (fst (handle demo_env 2000 (mkreq (RatingsUpdate ''000000000000000000000008'') (Some alice_token)
        [(''rating'', JNum 0)]) seeded_db)) = 200
    \<and> map_option (\<lambda>r. (r_rating r, r_comment r, r_updatedAt r))
        (findById (ratings (snd (handle demo_env 2000 (mkreq (RatingsUpdate ''000000000000000000000008'')
           (Some alice_token) [(''rating'', JNum 0)]) seeded_db))) 8) = Some (5, Some [], 2000))
   \<and> (status (fst (handle demo_env 2000 (mkreq (RatingsUpdate ''000000000000000000000008'') (Some alice_token)
        [(''rating'', JNum 4), (''comment'', JStr long_comment)]) seeded_db)) = 400
      \<and> snd (handle demo_env 2000 (mkreq (RatingsUpdate ''000000000000000000000008'') (Some alice_token)
        [(''rating'', JNum 4), (''comment'', JStr long_comment)]) seeded_db) = seeded_db)"
proof -
  let ?req = "mkreq (RatingsUpdate ''000000000000000000000008'') (Some alice_token) [(''rating'', JNum 0)]"
  let ?req2 = "mkreq (RatingsUpdate ''000000000000000000000008'') (Some alice_token)
        [(''rating'', JNum 4), (''comment'', JStr long_comment)]"
  let ?old = "\<lparr>r_userId = 3, r_storeId = 6, r_rating = 5,
              r_comment = Some ''Amazing selection of electronics! Great customer service and competitive prices.'',
              r_createdAt = 1000, r_updatedAt = 1000\<rparr>"
  have e: "req_endpoint ?req = RatingsUpdate ''000000000000000000000008''"
    "authenticateToken 2000 ?req seeded_db = Inr (3, alice)" "u_role alice = NormalUser"
    "isMongoId demo_env ''000000000000000000000008''"
    "castObjectId demo_env ''000000000000000000000008'' = Some 8"
    "findById (ratings seeded_db) 8 = Some ?old"
    "req_body ?req ''rating'' = JNum 0" "req_body ?req ''comment'' = JUndefined"
    "comment_length (set_comment demo_env (comment_or_empty (req_body ?req))) \<le> 500"
    by (simp_all add: route_defs eval_defs comment_length_def)
  have e2: "req_endpoint ?req2 = RatingsUpdate ''000000000000000000000008''"
    "authenticateToken 2000 ?req2 seeded_db = Inr (3, alice)"
    by (simp_all add: route_defs eval_defs)
  have "set_comment demo_env (comment_or_empty (req_body ?req2)) = Some long_comment"
    by (simp add: mkreq_def set_comment_def comment_or_empty_def castString_def js_toString_def
          trim_long_comment del: trim_def)
  then have l: "500 < comment_length (set_comment demo_env (comment_or_empty (req_body ?req2)))"
    by (simp add: comment_length_def long_comment_def)
  have a: "status (fst (handle demo_env 2000 ?req seeded_db)) = 200
    \<and> map_option (\<lambda>r. (r_rating r, r_comment r, r_updatedAt r))
        (findById (ratings (snd (handle demo_env 2000 ?req seeded_db))) 8) = Some (5, Some [], 2000)"
    using put_rating_without_value_keeps_it[of ?req "''000000000000000000000008''" 2000 seeded_db
      "(3, alice)" demo_env 8 ?old] e by simp
  have p: "reachable demo_env seeded_db
      \<and> req_endpoint ?req2 = RatingsUpdate ''000000000000000000000008''
      \<and> authenticateToken 2000 ?req2 seeded_db = Inr (3, alice)
      \<and> u_role (snd (3, alice)) = NormalUser \<and> isMongoId demo_env ''000000000000000000000008''
      \<and> castObjectId demo_env ''000000000000000000000008'' = Some 8
      \<and> findById (ratings seeded_db) 8 = Some ?old \<and> r_userId ?old = fst (3, alice)
      \<and> 500 < comment_length (set_comment demo_env (comment_or_empty (req_body ?req2)))"
    using e(3-6) e2 l reachable_seeded by simp
  have b: "status (fst (handle demo_env 2000 ?req2 seeded_db)) = 400
      \<and> snd (handle demo_env 2000 ?req2 seeded_db) = seeded_db"
    using put_rating_without_value_keeps_it[of ?req2 "''000000000000000000000008''" 2000 seeded_db
      "(3, alice)" demo_env 8 ?old] p by blast
  from a b show ?thesis by blast
qed

text \<open>
  C9 as stated fails: a soft-deleted user can be made active again by an admin
  (PUT /api/users/:userId with \<open>isActive: true\<close>), and the token issued before the deletion
  is then accepted again. On the seeded database the admin deletes user 3 and reactivates
  it; user 3's old token then changes rating 8 from 5 to 1.
\<close>

theorem reactivated_user_token_accepted:
  "inactive_or_missing
     (snd (handle demo_env 2000 (mkreq (UsersDelete ''000000000000000000000003'') (Some admin_token) [])
        seeded_db)) 3
   \<and> bears_token_of 3 (4000, mkreq RatingsSubmit (Some alice_token)
        [(''storeId'', JStr ''000000000000000000000006''), (''rating'', JNum 1)])
   \<and> status (fst (handle demo_env 4000 (mkreq RatingsSubmit (Some alice_token)
        [(''storeId'', JStr ''000000000000000000000006''), (''rating'', JNum 1)])
        (snd (handle demo_env 3000 (mkreq (UsersUpdate ''000000000000000000000003'') (Some admin_token)
           [(''isActive'', JBool True)])
           (snd (handle demo_env 2000 (mkreq (UsersDelete ''000000000000000000000003'') (Some admin_token) [])
              seeded_db)))))) = 200
   \<and> map_option r_rating (findById (ratings (snd (handle demo_env 4000 (mkreq RatingsSubmit (Some alice_token)
        [(''storeId'', JStr ''000000000000000000000006''), (''rating'', JNum 1)])
        (snd (handle demo_env 3000 (mkreq (UsersUpdate ''000000000000000000000003'') (Some admin_token)
           [(''isActive'', JBool True)])
           (snd (handle demo_env 2000 (mkreq (UsersDelete ''000000000000000000000003'') (Some admin_token) [])
              seeded_db))))))) 8) = Some 1
   \<and> map_option r_rating (findById (ratings seeded_db) 8) = Some 5"
  by (simp add: route_defs eval_defs)

text \<open>
  C9, amended. A request to a route behind \<open>authenticateToken\<close> that bears a token which
  \<open>jwt.verify\<close> accepts is answered with status 401 and changes nothing when the user of the
  token does not exist or has \<open>isActive\<close> false at the time of the request. So, for as long as
  the user stays missing or inactive, any sequence of requests under that user's tokens is
  answered with 401 throughout and leaves the database as it was. (An admin can set
  \<open>isActive\<close> back to true; the tokens then work again.)
\<close>

theorem inactive_user_token_rejected:
  "(bears_token_of uid (now, req) \<and> inactive_or_missing s uid
      \<longrightarrow> status (fst (handle E now req s)) = 401 \<and> snd (handle E now req s) = s)
   \<and> (inactive_or_missing s uid \<and> list_all (bears_token_of uid) reqs
      \<longrightarrow> snd (serve E reqs s) = s \<and> list_all (\<lambda>r. status r = 401) (fst (serve E reqs s)))"
  using rejected_401 serve_rejected by blast

theorem inactive_user_token_rejected_witness:
  "status (fst (handle demo_env 3000 (mkreq RatingsSubmit (Some alice_token)
        [(''storeId'', JStr ''000000000000000000000006''), (''rating'', JNum 1)])
      (snd (handle demo_env 2000 (mkreq (UsersDelete ''000000000000000000000003'') (Some admin_token) [])
        seeded_db)))) = 401
   \<and> snd (serve demo_env
        [(3000, mkreq RatingsSubmit (Some alice_token)
            [(''storeId'', JStr ''000000000000000000000006''), (''rating'', JNum 1)]),
         (4000, mkreq (RatingsDelete ''000000000000000000000008'') (Some alice_token) [])]
        (snd (handle demo_env 2000 (mkreq (UsersDelete ''000000000000000000000003'') (Some admin_token) [])
           seeded_db)))
       = snd (handle demo_env 2000 (mkreq (UsersDelete ''000000000000000000000003'') (Some admin_token) [])
           seeded_db)"
proof -
  let ?s1 = "snd (handle demo_env 2000 (mkreq (UsersDelete ''000000000000000000000003'') (Some admin_token) [])
        seeded_db)"
  let ?r1 = "mkreq RatingsSubmit (Some alice_token)
        [(''storeId'', JStr ''000000000000000000000006''), (''rating'', JNum 1)]"
  let ?r2 = "mkreq (RatingsDelete ''000000000000000000000008'') (Some alice_token) []"
  have i: "inactive_or_missing ?s1 3" by (simp add: route_defs eval_defs)
  have b: "bears_token_of 3 (3000, ?r1)" "bears_token_of 3 (4000, ?r2)"
    by (simp_all add: route_defs eval_defs)
  have l: "list_all (bears_token_of 3) [(3000, ?r1), (4000, ?r2)]"
    using b by (simp only: list.pred_inject simp_thms)
  note t = inactive_user_token_rejected[of 3 3000 ?r1 ?s1 demo_env "[(3000, ?r1), (4000, ?r2)]"]
  from t i b(1) have 1: "status (fst (handle demo_env 3000 ?r1 ?s1)) = 401" by blast
  from t i l have 2: "snd (serve demo_env [(3000, ?r1), (4000, ?r2)] ?s1) = ?s1" by blast
  show ?thesis using 1 2 by blast
qed


subsection \<open>Passwords in responses\<close>

lemma has_key_atomic: "atomic v \<Longrightarrow> \<not> has_key k v"
  by (cases v) (simp_all add: atomic_def)

lemma has_key_obj: "has_key k (JsObj kvs) \<longleftrightarrow> (\<exists>(k', v) \<in> set kvs. k' = k \<or> has_key k v)"
  by (induction kvs) auto

lemma has_key_arr: "has_key k (JsArr xs) \<longleftrightarrow> (\<exists>v \<in> set xs. has_key k v)"
  by (induction xs) auto

declare has_key.simps(5,6) [simp del]


lemma no_key_obj: "clean k obj \<Longrightarrow> k \<notin> fst ` set obj \<Longrightarrow> \<not> has_key k (JsObj obj)"
  by (force simp: has_key_obj clean_def)

lemma clean_flat: "\<forall>(k', v) \<in> set obj. atomic v \<Longrightarrow> clean k obj"
  by (auto simp: clean_def has_key_atomic)

lemma atomic_simps [simp]:
  "atomic (json_id i)" "atomic (json_date t)" "atomic (json_opt_id x)" "atomic (json_opt_str c)"
  "atomic (JsStr w)" "atomic (JsNum n)" "atomic (JsBool b)" "atomic JsNull"
  by (simp_all add: atomic_def json_id_def json_date_def json_opt_id_def json_opt_str_def
        split: option.splits)

lemma clean_toObject:
  "clean k (user_toObject uid u)" "clean k (store_toObject sid st)" "clean k (rating_toObject rid r)"
  "clean k (user_summary uid u)"
  by (rule clean_flat, simp add: user_toObject_def store_toObject_def rating_toObject_def
        user_summary_def)+

lemma clean_deselect: "clean k obj \<Longrightarrow> clean k (deselect k' obj)"
  by (auto simp: clean_def deselect_def)

lemma clean_select: "clean k obj \<Longrightarrow> clean k (select_fields fs obj)"
  by (auto simp: clean_def select_fields_def)

lemma clean_populate: "clean k obj \<Longrightarrow> \<not> has_key k v \<Longrightarrow> clean k (populate path v obj)"
  by (auto simp: clean_def populate_def split: if_splits)

lemma clean_append: "clean k (xs @ ys) \<longleftrightarrow> clean k xs \<and> clean k ys"
  by (auto simp: clean_def)

lemma clean_Cons: "clean k ((k', v) # obj) \<longleftrightarrow> \<not> has_key k v \<and> clean k obj"
  by (auto simp: clean_def)

lemma clean_Nil [simp]: "clean k []"
  by (simp add: clean_def)

lemma keys_deselect: "k \<notin> fst ` set (deselect k obj)"
  by (auto simp: deselect_def)

lemma keys_populate: "fst ` set (populate path v obj) = fst ` set obj"
  by (force simp: populate_def split: if_splits)

lemma user_toJSON_no_key: "clean ''password'' obj \<Longrightarrow> \<not> has_key ''password'' (user_toJSON obj)"
  unfolding user_toJSON_def by (intro no_key_obj clean_deselect keys_deselect)

lemma keys_store: "''password'' \<notin> fst ` set (store_toObject sid st)"
  by (simp add: store_toObject_def)

lemma keys_rating: "''password'' \<notin> fst ` set (rating_toObject rid r)"
  by (simp add: rating_toObject_def)

lemma keys_select: "k \<notin> fst ` set obj \<Longrightarrow> k \<notin> fst ` set (select_fields fs obj)"
  by (auto simp: select_fields_def)

lemma has_key_null [simp]: "\<not> has_key k JsNull" "\<not> has_key k (JsStr w)" "\<not> has_key k (JsNum n)"
  "\<not> has_key k (JsBool b)"
  by simp_all

lemma populated_store_clean: "populated_store s fs ref = Some obj \<Longrightarrow> clean ''password'' obj \<and> ''password'' \<notin> fst ` set obj"
  unfolding populated_store_def
  by (auto split: option.splits intro!: clean_select clean_toObject keys_select keys_store)

lemma populated_store_no_key: "\<not> has_key ''password'' (json_opt_obj (populated_store s fs ref))"
proof (cases "populated_store s fs ref")
  case None
  then show ?thesis by (simp add: json_opt_obj_def)
next
  case (Some obj)
  from populated_store_clean[OF Some] show ?thesis
    unfolding Some json_opt_obj_def by (simp add: no_key_obj)
qed

lemma populated_user_no_key: "\<not> has_key ''password'' (json_opt_user (populated_user s fs uid))"
proof (cases "populated_user s fs uid")
  case None
  then show ?thesis by (simp add: json_opt_user_def)
next
  case (Some obj)
  then have "clean ''password'' obj"
    unfolding populated_user_def by (auto intro!: clean_select clean_toObject)
  then show ?thesis unfolding Some json_opt_user_def by (simp add: user_toJSON_no_key)
qed

lemma listed_user_no_key: "\<not> has_key ''password'' (listed_user s fs x)"
  unfolding listed_user_def
  by (intro user_toJSON_no_key clean_deselect clean_populate clean_toObject populated_store_no_key)

lemma rating_with_user_no_key: "\<not> has_key ''password'' (JsObj (rating_with_user s fs x))"
  unfolding rating_with_user_def
  by (intro no_key_obj clean_populate clean_toObject populated_user_no_key)
     (simp add: keys_populate keys_rating)

lemma json_token_no_key: "\<not> has_key ''password'' (json_token t)"
  by (simp add: json_token_def json_id_def has_key_obj)

lemma no_key_registered: "\<not> has_key ''password'' (body (registered_response now uid u))"
  unfolding registered_response_def
  by (simp add: json_token_no_key json_date_def json_id_def user_summary_def has_key_obj)

lemma no_key_login: "\<not> has_key ''password'' (body (login_response now uid u))"
  unfolding login_response_def
  by (simp add: json_token_no_key json_date_def json_id_def user_summary_def has_key_atomic has_key_obj)

lemma no_key_profile: "\<not> has_key ''password'' (body (profile_response uid s))"
proof -
  have "\<not> has_key ''password'' (json_opt_user (map_option
          (\<lambda>u. populate ''storeId''
                  (json_opt_obj (populated_store s [''name'', ''email'', ''address'', ''averageRating''] (u_storeId u)))
                  (user_toObject uid u))
          (findById (users s) uid)))"
  proof (cases "findById (users s) uid")
    case None
    then show ?thesis by (simp add: json_opt_user_def)
  next
    case (Some u)
    show ?thesis unfolding Some json_opt_user_def
      by (simp, intro user_toJSON_no_key clean_populate clean_toObject populated_store_no_key)
  qed
  then show ?thesis unfolding profile_response_def by (simp add: has_key_obj)
qed

lemma no_key_verify: "\<not> has_key ''password'' (body (verify_response cu))"
proof -
  have "\<not> has_key ''password'' (user_toJSON (deselect ''password'' (user_toObject (fst cu) (snd cu))))"
    by (intro user_toJSON_no_key clean_deselect clean_toObject)
  then show ?thesis unfolding verify_response_def by (simp add: has_key_obj)
qed

lemma pagination_no_key: "\<not> has_key ''password'' (pagination page limit n)"
  by (simp add: pagination_def Let_def has_key_obj)

lemma no_key_users: "\<not> has_key ''password'' (body (users_response E q s))"
  unfolding users_response_def Let_def
  by (simp add: pagination_no_key listed_user_no_key has_key_obj has_key_arr)

lemma owner_store_data_clean:
  "clean ''password'' (owner_store_data s u (populated_store s fs ref))
   \<and> ''password'' \<notin> fst ` set (owner_store_data s u (populated_store s fs ref))"
proof (cases "populated_store s fs ref")
  case None
  then show ?thesis by (simp add: owner_store_data_def split: role.splits)
next
  case (Some obj)
  have "\<not> has_key ''password'' (JsObj (obj @ [(''ratingsCount'', JsNum n),
          (''recentRatings'', JsArr (map (\<lambda>x. JsObj (rating_with_user s fs' x)) xs))]))" for n fs' xs
    using populated_store_clean[OF Some] rating_with_user_no_key[of s fs']
    by (intro no_key_obj) (auto simp: clean_append clean_Cons has_key_arr)
  then show ?thesis
    unfolding owner_store_data_def Some
    by (auto split: role.splits option.splits simp: clean_Cons)
qed

lemma no_key_user: "\<not> has_key ''password'' (body (user_response s uid u))"
  unfolding user_response_def Let_def
  using owner_store_data_clean[of s u]
  by (simp, intro no_key_obj) (auto simp: clean_Cons listed_user_no_key)

lemma findById_set_passwords:
  "findById (users (set_passwords f s)) uid = map_option (\<lambda>u. u\<lparr>u_password := f uid u\<rparr>) (findById (users s) uid)"
proof -
  have "map_of (map (\<lambda>(i, u). (i, u\<lparr>u_password := f i u\<rparr>)) xs) uid
          = map_option (\<lambda>u. u\<lparr>u_password := f uid u\<rparr>) (map_of xs uid)" for xs
    by (induction xs) auto
  then show ?thesis by (simp add: findById_def set_passwords_def)
qed

lemma set_passwords_frame [simp]:
  "stores (set_passwords f s) = stores s" "ratings (set_passwords f s) = ratings s"
  "next_id (set_passwords f s) = next_id s"
  by (simp_all add: set_passwords_def)

lemma with_password_simps [simp]:
  "req_endpoint (with_password v req) = req_endpoint req" "req_token (with_password v req) = req_token req"
  "req_query (with_password v req) = req_query req"
  "k \<noteq> ''password'' \<Longrightarrow> req_body (with_password v req) k = req_body req k"
  by (simp_all add: with_password_def)

lemma findOne_set_passwords:
  assumes "\<And>i u p. P i (u\<lparr>u_password := p\<rparr>) = P i u"
  shows "findOne P (users (set_passwords f s))
           = map_option (\<lambda>(i, u). (i, u\<lparr>u_password := f i u\<rparr>)) (findOne P (users s))"
proof -
  have "List.find (\<lambda>(i, d). P i d) (map (\<lambda>(i, u). (i, u\<lparr>u_password := f i u\<rparr>)) xs)
          = map_option (\<lambda>(i, u). (i, u\<lparr>u_password := f i u\<rparr>)) (List.find (\<lambda>(i, d). P i d) xs)" for xs
    by (induction xs) (auto simp: assms)
  then show ?thesis by (simp add: findOne_def set_passwords_def)
qed

lemma authenticateToken_set_passwords:
  "authenticateToken now (with_password v req) (set_passwords f s)
     = (case authenticateToken now req s of Inl r \<Rightarrow> Inl r
        | Inr cu \<Rightarrow> Inr (fst cu, (snd cu)\<lparr>u_password := f (fst cu) (snd cu)\<rparr>))"
  unfolding authenticateToken_def
  by (auto simp: findById_set_passwords split: option.splits jwt_result.splits)

lemma deselect_password [simp]:
  "deselect ''password'' (user_toObject uid (u\<lparr>u_password := p\<rparr>)) = deselect ''password'' (user_toObject uid u)"
  "deselect ''password'' (populate ''storeId'' x (user_toObject uid (u\<lparr>u_password := p\<rparr>)))
     = deselect ''password'' (populate ''storeId'' x (user_toObject uid u))"
  "deselect ''password'' (select_fields fs (user_toObject uid (u\<lparr>u_password := p\<rparr>)))
     = deselect ''password'' (select_fields fs (user_toObject uid u))"
  by (simp_all add: deselect_def user_toObject_def populate_def select_fields_def)

lemma populated_set_passwords [simp]:
  "populated_store (set_passwords f s) fs ref = populated_store s fs ref"
  "json_opt_user (populated_user (set_passwords f s) fs uid) = json_opt_user (populated_user s fs uid)"
  by (auto simp: populated_store_def populated_user_def findById_set_passwords json_opt_user_def
        user_toJSON_def split: option.splits)

lemma listed_user_set_passwords [simp]:
  "listed_user (set_passwords f s) fs (i, u\<lparr>u_password := p\<rparr>) = listed_user s fs (i, u)"
  by (simp add: listed_user_def user_toJSON_def deselect_def populate_def user_toObject_def)

lemma rating_with_user_set_passwords [simp]:
  "rating_with_user (set_passwords f s) fs x = rating_with_user s fs x"
  by (simp add: rating_with_user_def)

lemma profile_set_passwords: "profile_response uid (set_passwords f s) = profile_response uid s"
  unfolding profile_response_def
  by (cases "findById (users s) uid") (simp_all add: findById_set_passwords json_opt_user_def user_toJSON_def)

lemma verify_set_passwords: "verify_response (i, u\<lparr>u_password := p\<rparr>) = verify_response (i, u)"
  by (simp add: verify_response_def)

lemma insort_key_map:
  "insort_key k (g x) (map g xs) = map g (insort_key (\<lambda>y. k (g y)) x xs)"
  by (induction xs) auto

lemma sort_key_map: "sort_key k (map g xs) = map g (sort_key (\<lambda>y. k (g y)) xs)"
  by (induction xs) (simp_all add: insort_key_map)

lemma users_set_passwords: "users_response E q (set_passwords f s) = users_response E q s"
proof -
  let ?g = "\<lambda>(i, u). (i, u\<lparr>u_password := f i u\<rparr>)"
  have fl: "filter (\<lambda>(i, u). user_filter E q u) (map ?g xs) = map ?g (filter (\<lambda>(i, u). user_filter E q u) xs)" for xs
    by (induction xs) (auto simp: user_filter_def split: option.splits)
  have so: "sort_desc (\<lambda>(i, u). u_createdAt u) (map ?g xs) = map ?g (sort_desc (\<lambda>(i, u). u_createdAt u) xs)" for xs
  proof -
    have "(\<lambda>y. (case ?g y of (i, u) \<Rightarrow> u_createdAt u)) = (\<lambda>(i, u). u_createdAt u)" by auto
    then show ?thesis by (simp add: sort_desc_def sort_key_map rev_map)
  qed
  have li: "listed_user (set_passwords f s) fs \<circ> ?g = listed_user s fs" for fs
    by (auto simp: fun_eq_iff)
  show ?thesis
    unfolding users_response_def Let_def
    by (simp add: set_passwords_def[of f s, THEN arg_cong[where f = users]] fl so li
          take_map[symmetric] drop_map[symmetric])
qed

lemma owner_store_data_set_passwords:
  "owner_store_data (set_passwords f s) (u\<lparr>u_password := p\<rparr>) x = owner_store_data s u x"
  by (simp add: owner_store_data_def recent_ratings_def split: role.splits option.splits)

lemma user_set_passwords:
  "user_response (set_passwords f s) uid (u\<lparr>u_password := p\<rparr>) = user_response s uid u"
  by (simp add: user_response_def owner_store_data_set_passwords Let_def)

lemma login_response_password: "login_response now uid (u\<lparr>u_password := p\<rparr>) = login_response now uid u"
  by (simp add: login_response_def user_summary_def)

lemma read_user_routes_ignore_passwords:
  assumes "req_endpoint req = AuthProfile \<or> req_endpoint req = AuthVerify \<or> req_endpoint req = UsersList
           \<or> req_endpoint req = UsersGet userId"
  shows "fst (handle E now (with_password v req) (set_passwords f s)) = fst (handle E now req s)"
proof (cases "authenticateToken now req s")
  case (Inl r)
  then show ?thesis using assms
    by (auto simp: handle_def needs_auth_def authenticateToken_set_passwords)
next
  case (Inr cu)
  have az: "authorize roles (fst cu, (snd cu)\<lparr>u_password := p\<rparr>) = authorize roles cu" for roles p
    by (simp add: authorize_def)
  have q: "req_query (with_password v req) = req_query req" by simp
  from assms show ?thesis
  proof (elim disjE)
    assume "req_endpoint req = AuthProfile"
    then show ?thesis using Inr
      by (simp add: handle_def needs_auth_def authenticateToken_set_passwords get_profile_def
            profile_set_passwords)
  next
    assume "req_endpoint req = AuthVerify"
    then show ?thesis using Inr
      by (simp add: handle_def needs_auth_def authenticateToken_set_passwords get_verify_def
            verify_set_passwords)
  next
    assume "req_endpoint req = UsersList"
    then show ?thesis using Inr
      by (simp add: handle_def Let_def needs_auth_def authenticateToken_set_passwords az page_and_search_def
            get_users_def users_set_passwords split: option.splits)
  next
    assume "req_endpoint req = UsersGet userId"
    then show ?thesis using Inr
      by (simp add: handle_def Let_def needs_auth_def authenticateToken_set_passwords az get_user_def
            findById_set_passwords user_set_passwords split: option.splits)
  qed
qed

lemma user_save_new_doc:
  assumes "user_save_new E now n e p a (JStr ''user'') s = Inr (uid, u, s')"
  shows "uid = next_id s \<and> u\<lparr>u_password := []\<rparr> =
           \<lparr>u_name = str_of (map_option trim (castString E n)),
            u_email = str_of (map_option (toLowerCase E) (castString E e)), u_password = [],
            u_address = str_of (map_option trim (castString E a)), u_role = NormalUser,
            u_storeId = None, u_isActive = True, u_createdAt = now, u_updatedAt = now\<rparr>"
  using assms unfolding user_save_new_def Let_def
  by (auto split: if_splits simp: castString_def js_toString_def role_of_string_def)

lemma registered_response_password:
  "registered_response now uid u = registered_response now uid (u\<lparr>u_password := []\<rparr>)"
  by (simp add: registered_response_def user_summary_def)

lemma register_success:
  assumes "req_endpoint req = AuthRegister" "status (fst (handle E now req s)) < 400"
  shows "fst (handle E now req s) = registered_response now (next_id s)
           \<lparr>u_name = str_of (map_option trim (castString E (JStr (v_trimmed E (req_body req ''name''))))),
            u_email = str_of (map_option (toLowerCase E)
                        (castString E (JStr (normalizeEmail E (js_toString E (req_body req ''email'')))))),
            u_password = [],
            u_address = str_of (map_option trim (castString E (JStr (v_trimmed E (req_body req ''address''))))),
            u_role = NormalUser, u_storeId = None, u_isActive = True, u_createdAt = now, u_updatedAt = now\<rparr>"
proof -
  let ?b = "sanitize_user E (req_body req)"
  from assms have h: "handle E now req s = post_register E now ?b s"
    by (auto simp: handle_def needs_auth_def with_body_def validateUserRegistration_def split: if_splits)
  from assms(2) obtain uid u s' where
    sv: "user_save_new E now (?b ''name'') (?b ''email'') (?b ''password'') (?b ''address'') (JStr ''user'') s
           = Inr (uid, u, s')"
    and r: "fst (handle E now req s) = registered_response now uid u"
    unfolding h post_register_def
    by (auto split: if_splits sum.splits save_error.splits)
  from user_save_new_doc[OF sv] show ?thesis
    unfolding r by (subst registered_response_password) (simp add: sanitize_user_def)
qed

lemma login_success:
  assumes "req_endpoint req = AuthLogin" "status (fst (handle E now req s)) < 400"
  shows "\<exists>uid u. findOne (\<lambda>i u. u_email u = email_cond E (JStr (normalizeEmail E (js_toString E (req_body req ''email'')))))
                    (users s) = Some (uid, u)
           \<and> fst (handle E now req s) = login_response now uid u"
proof -
  let ?b = "(req_body req)(''email'' := JStr (normalizeEmail E (js_toString E (req_body req ''email''))))"
  from assms have h: "handle E now req s = post_login E now ?b s"
    by (auto simp: handle_def needs_auth_def with_body_def validateUserLogin_def split: if_splits)
  from assms(2) show ?thesis
    unfolding h post_login_def
    by (auto split: option.splits if_splits bool.splits)
qed

text \<open>
  C10. A response below 400 from registration, login, profile retrieval, token verification,
  the admin's list of users or the admin's view of a user has no \<open>password\<close> key anywhere in
  its body, and its body does not depend on any password: with other stored hashes and
  another password in the request, a response below 400 has the same body.
\<close>

theorem user_responses_hide_password:
  "returns_user (req_endpoint req) \<longrightarrow>
     (status (fst (handle E now req s)) < 400
        \<longrightarrow> \<not> has_key ''password'' (body (fst (handle E now req s))))
     \<and> (status (fst (handle E now req s)) < 400
        \<and> status (fst (handle E now (with_password v req) (set_passwords f s))) < 400
        \<longrightarrow> body (fst (handle E now (with_password v req) (set_passwords f s)))
              = body (fst (handle E now req s)))"
proof (rule impI)
  assume ru: "returns_user (req_endpoint req)"
  then consider (reg) "req_endpoint req = AuthRegister" | (login) "req_endpoint req = AuthLogin"
    | (rd) userId where "req_endpoint req = AuthProfile \<or> req_endpoint req = AuthVerify
         \<or> req_endpoint req = UsersList \<or> req_endpoint req = UsersGet userId"
    by (cases "req_endpoint req") auto
  then show "(status (fst (handle E now req s)) < 400
        \<longrightarrow> \<not> has_key ''password'' (body (fst (handle E now req s))))
     \<and> (status (fst (handle E now req s)) < 400
        \<and> status (fst (handle E now (with_password v req) (set_passwords f s))) < 400
        \<longrightarrow> body (fst (handle E now (with_password v req) (set_passwords f s)))
              = body (fst (handle E now req s)))"
  proof cases
    case reg
    have e2: "req_endpoint (with_password v req) = AuthRegister" using reg by simp
    show ?thesis
      using register_success[OF reg, of E now s]
        register_success[OF e2, of E now "set_passwords f s"]
      by (auto simp: no_key_registered)
  next
    case login
    have e2: "req_endpoint (with_password v req) = AuthLogin" using login by simp
    have fo: "findOne (\<lambda>i u. u_email u = x) (users (set_passwords f s))
                = map_option (\<lambda>(i, u). (i, u\<lparr>u_password := f i u\<rparr>)) (findOne (\<lambda>i u. u_email u = x) (users s))" for x
      by (rule findOne_set_passwords) simp
    show ?thesis
      using login_success[OF login, of E now s]
        login_success[OF e2, of E now "set_passwords f s"]
      by (auto simp: no_key_login fo login_response_password)
  next
    case rd
    have nk: "\<not> has_key ''password'' (body (fst (handle E now req s)))"
      if "status (fst (handle E now req s)) < 400"
    proof -
      obtain r s' where hd: "handle E now req s = (r, s')" by (cases "handle E now req s")
      have na: "needs_auth (req_endpoint req)" using rd by (auto simp: needs_auth_def)
      from handle_success[OF hd _ na] that hd obtain cu req' where
        p: "handler E now cu (req_endpoint req) req' s = (r, s')" by auto
      from rd p that hd have "\<not> has_key ''password'' (body r)"
        by (auto simp: get_profile_def get_verify_def get_users_def get_user_def
              no_key_profile no_key_verify no_key_users no_key_user
              split: option.splits if_splits)
      then show ?thesis by (simp add: hd)
    qed
    show ?thesis
      using nk read_user_routes_ignore_passwords[OF rd, of E now v f s] by simp
  qed
qed

theorem user_responses_hide_password_witness:
  "status (fst (handle demo_env 2000 (mkreq AuthLogin None
        [(''email'', JStr ''user@example.com''), (''password'', JStr ''User123!'')]) seeded_db)) = 200
   \<and> \<not> has_key ''password'' (body (fst (handle demo_env 2000 (mkreq AuthLogin None
        [(''email'', JStr ''user@example.com''), (''password'', JStr ''User123!'')]) seeded_db)))
   \<and> body (fst (handle demo_env 2000
        (with_password (JStr ''Other456?'') (mkreq AuthLogin None
           [(''email'', JStr ''user@example.com''), (''password'', JStr ''User123!'')]))
        (set_passwords (\<lambda>i u. ''$2a$Other456?'') seeded_db)))
      = body (fst (handle demo_env 2000 (mkreq AuthLogin None
        [(''email'', JStr ''user@example.com''), (''password'', JStr ''User123!'')]) seeded_db))"
proof -
  let ?req = "mkreq AuthLogin None [(''email'', JStr ''user@example.com''), (''password'', JStr ''User123!'')]"
  have e: "returns_user (req_endpoint ?req)" by (simp add: mkreq_def)
  have 1: "status (fst (handle demo_env 2000 ?req seeded_db)) = 200"
    by (simp add: route_defs eval_defs post_login_def comparePassword_def)
  have 2: "status (fst (handle demo_env 2000 (with_password (JStr ''Other456?'') ?req)
             (set_passwords (\<lambda>i u. ''$2a$Other456?'') seeded_db))) = 200"
    by (simp add: route_defs eval_defs post_login_def comparePassword_def with_password_def
          set_passwords_def)
  from user_responses_hide_password[of ?req demo_env 2000 seeded_db "JStr ''Other456?''"
      "\<lambda>i u. ''$2a$Other456?''"] e 1 2
  show ?thesis by simp
qed

end
